theory Spec2Isabelle
  imports Main
begin

section \<open>ProjectModel: credential secret merge\<close>

text \<open>
  The connection configurations are plain JavaScript objects that the source reads
  through \<^verbatim>\<open>(config as any)[secretKey]\<close>.  A property value is one of the
  JavaScript primitives or a reference to an object (for instance a key file); numbers
  are restricted to integers.  An object is a finite map from property names to values;
  reading an absent property gives \<^verbatim>\<open>undefined\<close>.
\<close>

datatype jsval = JUndefined | JNull | JBool bool | JNum int | JStr string | JObj nat

type_synonym config = "string \<rightharpoonup> jsval"

text \<open>JavaScript truthiness, as used by \<^verbatim>\<open>!x\<close> and \<^verbatim>\<open>x && y\<close>.\<close>

fun truthy :: "jsval \<Rightarrow> bool" where
  "truthy JUndefined = False"
| "truthy JNull = False"
| "truthy (JBool b) = b"
| "truthy (JNum n) = (n \<noteq> 0)"
| "truthy (JStr s) = (s \<noteq> [])"
| "truthy (JObj r) = True"

definition getProp :: "config \<Rightarrow> string \<Rightarrow> jsval" where
  "getProp c k = (case c k of None \<Rightarrow> JUndefined | Some v \<Rightarrow> v)"

text \<open>
  \<^verbatim>\<open>mergeMissingDbtConfigSecrets\<close> (ProjectModel.ts, lines 71-92).  The list
  \<^verbatim>\<open>sensitiveDbtCredentialsFieldNames\<close> is imported from another package and is a
  parameter here.  \<^verbatim>\<open>reduce\<close> is a left fold starting from the empty object, and the
  object spread \<^verbatim>\<open>{...a, ...b}\<close> is the map \<open>a ++ b\<close>.
\<close>

definition mergeMissingDbtConfigSecrets :: "string list \<Rightarrow> config \<Rightarrow> config \<Rightarrow> config" where
  "mergeMissingDbtConfigSecrets sensitiveDbtCredentialsFieldNames incompleteConfig completeConfig =
     (if getProp incompleteConfig ''type'' \<noteq> getProp completeConfig ''type''
      then incompleteConfig
      else incompleteConfig ++
        foldl (\<lambda>sum secretKey.
                 if \<not> truthy (getProp incompleteConfig secretKey)
                    \<and> truthy (getProp completeConfig secretKey)
                 then sum(secretKey \<mapsto> getProp completeConfig secretKey)
                 else sum)
              Map.empty sensitiveDbtCredentialsFieldNames)"

text \<open>
  \<^verbatim>\<open>mergeMissingWarehouseSecrets\<close> (lines 94-115), over
  \<^verbatim>\<open>sensitiveCredentialsFieldNames\<close>.
\<close>

definition mergeMissingWarehouseSecrets :: "string list \<Rightarrow> config \<Rightarrow> config \<Rightarrow> config" where
  "mergeMissingWarehouseSecrets sensitiveCredentialsFieldNames incompleteConfig completeConfig =
     (if getProp incompleteConfig ''type'' \<noteq> getProp completeConfig ''type''
      then incompleteConfig
      else incompleteConfig ++
        foldl (\<lambda>sum secretKey.
                 if \<not> truthy (getProp incompleteConfig secretKey)
                    \<and> truthy (getProp completeConfig secretKey)
                 then sum(secretKey \<mapsto> getProp completeConfig secretKey)
                 else sum)
              Map.empty sensitiveCredentialsFieldNames)"

section \<open>ProjectModel: advisory lock\<close>

type_synonym uuid = string

record project =
  project_id :: int
  project_uuid :: uuid

datatype error =
    TypeError
  | DatabaseError string
  | NotExistsError
  | AlreadyExistsError

definition CACHED_EXPLORES_PG_LOCK_NAMESPACE :: int where
  "CACHED_EXPLORES_PG_LOCK_NAMESPACE = 1"

text \<open>
  \<^verbatim>\<open>pg_try_advisory_xact_lock(namespace, key)\<close> is non-blocking: it answers true and
  takes the lock unless another session holds the pair.  The pairs held by other sessions
  are an input.
\<close>

definition pg_try_advisory_xact_lock :: "(int \<times> int) list \<Rightarrow> int \<Rightarrow> int \<Rightarrow> bool" where
  "pg_try_advisory_xact_lock held ns key = ((ns, key) \<notin> set held)"

datatype continuation = OnLockAcquired | OnLockFailed

text \<open>
  The statement of lines 540-547, white space apart.  It is a template string: the lock
  namespace and \<^verbatim>\<open>projectUuid\<close> are spliced into its text, the latter between two
  quotes; no binding is used.
\<close>

definition projectLock_statement :: "uuid \<Rightarrow> string" where
  "projectLock_statement projectUuid =
     ''SELECT pg_try_advisory_xact_lock(1, project_id) FROM projects WHERE project_uuid = ''
     @ [CHR 0x27] @ projectUuid @ [CHR 0x27] @ '' LIMIT 1''"

text \<open>
  A string of letters, digits and hyphens, as every uuid is.  Between the two quotes such
  a string is the literal of itself; any other character (a quote, a question mark, a
  backslash) can make the text another statement.
\<close>

definition plain_literal :: "string \<Rightarrow> bool" where
  "plain_literal s =
     list_all (\<lambda>c. c \<in> set ''abcdefghijklmnopqrstuvwxyzABCDEFGHIJKLMNOPQRSTUVWXYZ0123456789-'') s"

text \<open>
  \<^verbatim>\<open>tryAcquireProjectLock\<close> (lines 531-557).  The whole body is the callback of one
  transaction.  For a plain uuid the statement selects the lock answer of the first
  project row with that uuid; for any other string the answer of the database to the
  statement text is the input \<open>raw\<close> (rows of lock answers, or a rejection, which rejects
  the call).  The two callbacks act on a state of the caller's and either resolve with a
  new state or reject; \<^verbatim>\<open>onLockFailed\<close> is optional.  The first component of the result
  logs which callbacks were invoked, in order; the second is what the returned promise
  settles with.
\<close>

definition tryAcquireProjectLock ::
  "(string \<Rightarrow> error + bool list) \<Rightarrow> project list \<Rightarrow> (int \<times> int) list \<Rightarrow> uuid
     \<Rightarrow> ('s \<Rightarrow> error + 's) \<Rightarrow> ('s \<Rightarrow> error + 's) option
     \<Rightarrow> 's \<Rightarrow> continuation list \<times> (error + 's)" where
  "tryAcquireProjectLock raw projects held projectUuid onLockAcquired onLockFailed s =
     (let projectLock =
            (if plain_literal projectUuid
             then Inr (take 1 (map (\<lambda>p. pg_try_advisory_xact_lock held
                                          CACHED_EXPLORES_PG_LOCK_NAMESPACE (project_id p))
                                  [p \<leftarrow> projects. project_uuid p = projectUuid]))
             else raw (projectLock_statement projectUuid))
      in case projectLock of
           Inl e \<Rightarrow> ([], Inl e)
         | Inr rows \<Rightarrow>
             (case rows of
                [] \<Rightarrow> ([], Inr s)
              | acquiresLock # _ \<Rightarrow>
                  if acquiresLock then ([OnLockAcquired], onLockAcquired s)
                  else (case onLockFailed of
                          Some f \<Rightarrow> ([OnLockFailed], f s)
                        | None \<Rightarrow> ([], Inr s))))"

section \<open>ProjectModel: explore cache\<close>

text \<open>
  A row of \<^verbatim>\<open>cached_explores\<close>.  The \<^verbatim>\<open>explores\<close> column is of type \<^verbatim>\<open>jsonb\<close>; \<open>'j\<close> is
  the type of the values the driver gives back for what the column holds.
\<close>

record 'j cached_explores =
  ce_project_uuid :: uuid
  explores :: 'j

text \<open>
  \<^verbatim>\<open>getExploresFromCache\<close> (lines 454-463): \<open>None\<close> is \<^verbatim>\<open>undefined\<close>.
\<close>

definition getExploresFromCache :: "'j cached_explores list \<Rightarrow> uuid \<Rightarrow> 'j option" where
  "getExploresFromCache tbl projectUuid =
     (case take 1 [r \<leftarrow> tbl. ce_project_uuid r = projectUuid] of
        [] \<Rightarrow> None
      | r # _ \<Rightarrow> Some (explores r))"

text \<open>
  \<^verbatim>\<open>saveExploresToCache\<close> (lines 516-529): an insert of
  \<^verbatim>\<open>JSON.stringify(explores)\<close> with \<^verbatim>\<open>onConflict('project_uuid').merge()\<close>.
  \<open>stringify\<close> stands for \<^verbatim>\<open>JSON.stringify\<close> on snapshots (it throws on some values) and
  \<open>jsonb\<close> for the reading of a text by the \<^verbatim>\<open>jsonb\<close> column, which either rejects the
  text (the statement fails and nothing is written) or holds a value for it.  A
  conflicting row takes the new values, otherwise the row is added.  The result is the
  returned row, or the rejection, and the table afterwards.
\<close>

definition saveExploresToCache ::
  "('e \<Rightarrow> error + string) \<Rightarrow> (string \<Rightarrow> error + 'j) \<Rightarrow> 'j cached_explores list \<Rightarrow> uuid \<Rightarrow> 'e
     \<Rightarrow> (error + 'j cached_explores) \<times> 'j cached_explores list" where
  "saveExploresToCache stringify jsonb tbl projectUuid explores' =
     (case stringify explores' of
        Inl e \<Rightarrow> (Inl e, tbl)
      | Inr text \<Rightarrow>
          (case jsonb text of
             Inl e \<Rightarrow> (Inl e, tbl)
           | Inr stored \<Rightarrow>
               let row = \<lparr>ce_project_uuid = projectUuid, explores = stored\<rparr>
               in (Inr row,
                   if \<exists>r \<in> set tbl. ce_project_uuid r = projectUuid
                   then map (\<lambda>r. if ce_project_uuid r = projectUuid then row else r) tbl
                   else tbl @ [row])))"

section \<open>ProjectModel: project access\<close>

text \<open>
  The \<^verbatim>\<open>emails\<close> and \<^verbatim>\<open>project_memberships\<close> tables, and \<^verbatim>\<open>users\<close> as the list
  of its \<^verbatim>\<open>user_id\<close> values.
\<close>

record email_row =
  email_user_id :: int
  email :: string

record project_membership =
  pm_project_id :: int
  role :: string
  pm_user_id :: int

text \<open>
  Array destructuring \<^verbatim>\<open>const [x] = rows\<close>: the first row, or \<^verbatim>\<open>undefined\<close>.
\<close>

definition first :: "'a list \<Rightarrow> 'a option" where
  "first rows = (case rows of [] \<Rightarrow> None | x # _ \<Rightarrow> Some x)"

text \<open>
  Modelled from the spec: the storage layer's insert into \<^verbatim>\<open>project_memberships\<close>, whose
  table definition is not part of the sources.  The table holds at most one row per
  (project, user) pair; an insert that would break this is rejected with a constraint
  violation that carries the constraint's name, and adds no row.
\<close>

definition insert_project_membership ::
  "project_membership list \<Rightarrow> project_membership \<Rightarrow> error + project_membership list" where
  "insert_project_membership tbl row =
     (if \<exists>m \<in> set tbl. pm_project_id m = pm_project_id row \<and> pm_user_id m = pm_user_id row
      then Inl (DatabaseError ''project_memberships_project_id_user_id_unique'')
      else Inr (tbl @ [row]))"

text \<open>The \<^verbatim>\<open>catch\<close> block of \<^verbatim>\<open>createProjectAccess\<close> (lines 642-653).\<close>

definition createProjectAccess_catch :: "error \<Rightarrow> error" where
  "createProjectAccess_catch e =
     (case e of
        DatabaseError c \<Rightarrow>
          if c = ''project_memberships_project_id_user_id_unique'' then AlreadyExistsError else e
      | _ \<Rightarrow> e)"

text \<open>
  \<^verbatim>\<open>createProjectAccess\<close> (lines 618-654).  The result is what the promise settles with
  and the \<^verbatim>\<open>project_memberships\<close> table afterwards.  Reading \<^verbatim>\<open>project.project_id\<close> of
  an absent project row is a \<^verbatim>\<open>TypeError\<close>, raised inside the \<^verbatim>\<open>try\<close>.
\<close>

definition createProjectAccess ::
  "project list \<Rightarrow> int list \<Rightarrow> email_row list \<Rightarrow> project_membership list
     \<Rightarrow> uuid \<Rightarrow> string \<Rightarrow> string \<Rightarrow> (error + unit) \<times> project_membership list" where
  "createProjectAccess projects users emails memberships projectUuid email' role' =
     (let project = first [p \<leftarrow> projects. project_uuid p = projectUuid];
          user = first [u. u \<leftarrow> users, m \<leftarrow> emails, email_user_id m = u, email m = email'];
          attempt =
            (case user of
               None \<Rightarrow> Inl NotExistsError
             | Some user_id \<Rightarrow>
                 (case project of
                    None \<Rightarrow> Inl TypeError
                  | Some p \<Rightarrow>
                      insert_project_membership memberships
                        \<lparr>pm_project_id = project_id p, role = role', pm_user_id = user_id\<rparr>))
      in case attempt of
           Inl e \<Rightarrow> (Inl (createProjectAccess_catch e), memberships)
         | Inr tbl \<Rightarrow> (Inr (), tbl))"

section \<open>ProjectModel: duplicating content\<close>

subsection \<open>Rows, tables and the storage layer\<close>

text \<open>
  The query builder hands rows over as JavaScript objects keyed by column name, and the
  source copies them with object spreads; a row is therefore an object like a
  configuration.  Identifiers are \<open>JNum\<close>, uuids are \<open>JStr\<close>, SQL \<^verbatim>\<open>NULL\<close> is \<open>JNull\<close>.
  The \<^verbatim>\<open>projects\<close> table is read only for \<^verbatim>\<open>project_id\<close> and \<^verbatim>\<open>project_uuid\<close> and keeps
  its typed rows; \<^verbatim>\<open>preview_content\<close> is only written.
\<close>

type_synonym row = "string \<rightharpoonup> jsval"

record idmap =
  id' :: jsval
  newId :: jsval

record PreviewContentMapping =
  charts :: "idmap list"
  chartVersions :: "idmap list"
  spaces :: "idmap list"
  dashboards :: "idmap list"
  dashboardVersions :: "idmap list"

record preview_content =
  pc_project_uuid :: uuid
  preview_project_uuid :: uuid
  content_mapping :: PreviewContentMapping

record database =
  projects_table :: "project list"
  tables :: "string \<Rightarrow> row list"
  preview_content_table :: "preview_content list"

text \<open>
  What the database decides on its own during an insert: the uuid it generates for the
  row of a table that gets a given new id, and whether it rejects the insert into a table
  (with the name of the violated constraint).
\<close>

record storage =
  gen_uuid :: "string \<Rightarrow> int \<Rightarrow> uuid"
  insert_fault :: "string \<Rightarrow> string option"

text \<open>SQL comparison: \<^verbatim>\<open>NULL\<close> equals nothing.\<close>

definition sql_eq :: "jsval \<Rightarrow> jsval \<Rightarrow> bool" where
  "sql_eq a b = (a = b \<and> a \<noteq> JNull \<and> a \<noteq> JUndefined)"

definition whereEq :: "string \<Rightarrow> jsval \<Rightarrow> row list \<Rightarrow> row list" where
  "whereEq col v rows = [r \<leftarrow> rows. sql_eq (getProp r col) v]"

definition whereIn :: "string \<Rightarrow> jsval list \<Rightarrow> row list \<Rightarrow> row list" where
  "whereIn col vs rows = [r \<leftarrow> rows. \<exists>v \<in> set vs. sql_eq (getProp r col) v]"

text \<open>
  \<^verbatim>\<open>leftJoin('spaces', '<table>.space_id', 'spaces.space_id')
  .where('spaces.project_id', projectId).select('<table>.*')\<close>:
  one result row per pair of a row and a space that match.
\<close>

definition joinSpacesWhereProject :: "row list \<Rightarrow> row list \<Rightarrow> jsval \<Rightarrow> row list" where
  "joinSpacesWhereProject rows spaceRows projectId =
     [d. d \<leftarrow> rows, s \<leftarrow> spaceRows,
         sql_eq (getProp d ''space_id'') (getProp s ''space_id''),
         sql_eq (getProp s ''project_id'') projectId]"

text \<open>The integer held by an identifier column.\<close>

definition num :: "jsval \<Rightarrow> int" where
  "num v = (case v of JNum n \<Rightarrow> n | _ \<Rightarrow> 0)"

text \<open>
  \<^verbatim>\<open>.groupBy(groupCol).max(maxCol)\<close>, read through \<^verbatim>\<open>.map((d) => d.max)\<close>: the greatest
  \<^verbatim>\<open>maxCol\<close> of each group.
\<close>

definition groupByMax :: "string \<Rightarrow> string \<Rightarrow> row list \<Rightarrow> jsval list" where
  "groupByMax groupCol maxCol rows =
     map (\<lambda>g. JNum (Max (set (map (\<lambda>r. num (getProp r maxCol))
                                   [r \<leftarrow> rows. getProp r groupCol = g]))))
         (remdups (map (\<lambda>r. getProp r groupCol) rows))"

text \<open>
  Modelled from the spec: the columns the database fills in itself, from table
  definitions that are not part of the sources.  Each copied entity gets a new surrogate
  id and, where it has one, a new public id; these are the columns the source removes
  from a row before inserting it.
\<close>

definition serial_column :: "string \<Rightarrow> string option" where
  "serial_column table = map_of
     [(''spaces'', ''space_id''),
      (''saved_queries'', ''saved_query_id''),
      (''saved_queries_versions'', ''saved_queries_version_id''),
      (''saved_queries_version_table_calculations'', ''saved_queries_version_table_calculation_id''),
      (''saved_queries_version_sorts'', ''saved_queries_version_sort_id''),
      (''saved_queries_version_fields'', ''saved_queries_version_field_id''),
      (''saved_queries_version_additional_metrics'', ''saved_queries_version_additional_metric_id''),
      (''dashboards'', ''dashboard_id''),
      (''dashboard_versions'', ''dashboard_version_id'')] table"

definition uuid_column :: "string \<Rightarrow> string option" where
  "uuid_column table = map_of
     [(''spaces'', ''space_uuid''),
      (''saved_queries'', ''saved_query_uuid''),
      (''saved_queries_versions'', ''saved_queries_version_uuid''),
      (''dashboards'', ''dashboard_uuid'')] table"

text \<open>
  Modelled from the spec: new surrogate ids.  The rows of one insert are numbered upwards
  from one more than the greatest id in the table, so a new id differs from every id in
  the table.
\<close>

definition next_id :: "string \<Rightarrow> row list \<Rightarrow> int" where
  "next_id table rows =
     (case serial_column table of
        None \<Rightarrow> 0
      | Some col \<Rightarrow> fold max (map (\<lambda>r. num (getProp r col)) rows) 0 + 1)"

primrec number_from :: "int \<Rightarrow> 'a list \<Rightarrow> (int \<times> 'a) list" where
  "number_from n [] = []"
| "number_from n (x # xs) = (n, x) # number_from (n + 1) xs"

text \<open>
  The row as stored and as \<^verbatim>\<open>returning('*')\<close> gives it back: a generated column that the
  inserted object lacks (or holds as \<^verbatim>\<open>undefined\<close>) takes its generated value, and any
  other \<^verbatim>\<open>undefined\<close> is sent as \<^verbatim>\<open>DEFAULT\<close> by the query builder and stored as
  \<^verbatim>\<open>NULL\<close>.
\<close>

definition stored_row :: "storage \<Rightarrow> string \<Rightarrow> int \<Rightarrow> row \<Rightarrow> row" where
  "stored_row st table n r =
     (\<lambda>k. if serial_column table = Some k \<and> getProp r k = JUndefined then Some (JNum n)
          else if uuid_column table = Some k \<and> getProp r k = JUndefined
               then Some (JStr (gen_uuid st table n))
          else if r k = Some JUndefined then Some JNull
          else r k)"

text \<open>
  \<^verbatim>\<open>trx(table).insert(rows).returning('*')\<close>: either the database rejects the statement
  and nothing is written, or the rows are appended and returned in the order given.
\<close>

definition returning_rows :: "storage \<Rightarrow> string \<Rightarrow> row list \<Rightarrow> row list \<Rightarrow> row list" where
  "returning_rows st table existing rows =
     map (\<lambda>(n, r). stored_row st table n r) (number_from (next_id table existing) rows)"

definition insert_rows ::
  "storage \<Rightarrow> string \<Rightarrow> row list \<Rightarrow> database \<Rightarrow> error + (row list \<times> database)" where
  "insert_rows st table rows trx =
     (case insert_fault st table of
        Some c \<Rightarrow> Inl (DatabaseError c)
      | None \<Rightarrow>
          let new = returning_rows st table (tables trx table) rows
          in Inr (new, trx\<lparr>tables := (tables trx)(table := tables trx table @ new)\<rparr>))"

text \<open>\<^verbatim>\<open>await\<close>: a rejected promise ends the function, a resolved one continues it.\<close>

definition await :: "error + 'a \<Rightarrow> ('a \<Rightarrow> error + 'b) \<Rightarrow> error + 'b" where
  "await m f = (case m of Inl e \<Rightarrow> Inl e | Inr x \<Rightarrow> f x)"

text \<open>
  \<^verbatim>\<open>database.transaction(async (trx) => ...)\<close>: the callback works on the transaction's
  view of the database; its writes are committed when it resolves, and dropped when it
  rejects, in which case the rejection is passed on.
\<close>

definition transaction ::
  "database \<Rightarrow> (database \<Rightarrow> error + ('a \<times> database)) \<Rightarrow> (error + 'a) \<times> database" where
  "transaction db callback =
     (case callback db of
        Inl e \<Rightarrow> (Inl e, db)
      | Inr (x, trx) \<Rightarrow> (Inr x, trx))"

subsection \<open>The steps of \<^verbatim>\<open>duplicateContent\<close>\<close>

text \<open>
  \<^verbatim>\<open>olds.map((c, i) => ({ id: c[col], newId: news[i][col] }))\<close>.  Reading a column of
  \<^verbatim>\<open>news[i]\<close> beyond the end of \<^verbatim>\<open>news\<close> is a \<^verbatim>\<open>TypeError\<close>.
\<close>

definition idMapping :: "string \<Rightarrow> row list \<Rightarrow> row list \<Rightarrow> error + idmap list" where
  "idMapping col olds news =
     (if length news < length olds then Inl TypeError
      else Inr (map (\<lambda>(c, n). \<lparr>id' = getProp c col, newId = getProp n col\<rparr>) (zip olds news)))"

text \<open>\<^verbatim>\<open>mapping.find((m) => m.id === old)?.newId\<close>: \<^verbatim>\<open>undefined\<close> when no entry matches.\<close>

definition newIdOf :: "idmap list \<Rightarrow> jsval \<Rightarrow> jsval" where
  "newIdOf m old = (case List.find (\<lambda>s. id' s = old) m of None \<Rightarrow> JUndefined | Some s \<Rightarrow> newId s)"

text \<open>Whether the lookup finds an entry.\<close>

definition resolves :: "idmap list \<Rightarrow> jsval \<Rightarrow> bool" where
  "resolves m old = (List.find (\<lambda>s. id' s = old) m \<noteq> None)"

definition getNewSpace :: "idmap list \<Rightarrow> jsval \<Rightarrow> jsval" where
  "getNewSpace spaceMapping oldSpaceId = newIdOf spaceMapping oldSpaceId"

text \<open>
  The objects handed to \<^verbatim>\<open>insert\<close>, under the names the source gives them where it
  names them: a spread of the source row \<open>d\<close>, then the overridden properties, then the
  \<^verbatim>\<open>delete\<close>s of the generated keys.
\<close>

definition createSpace :: "int \<Rightarrow> row \<Rightarrow> row" where
  "createSpace previewProjectId d =
     (d(''space_id'' \<mapsto> JUndefined,
        ''space_uuid'' \<mapsto> JUndefined,
        ''project_id'' \<mapsto> JNum previewProjectId))
     (''space_id'' := None, ''space_uuid'' := None)"

definition createSpaceShare :: "idmap list \<Rightarrow> row \<Rightarrow> row" where
  "createSpaceShare spaceMapping d =
     d(''space_id'' \<mapsto> getNewSpace spaceMapping (getProp d ''space_id''))"

definition createChart :: "idmap list \<Rightarrow> row \<Rightarrow> row" where
  "createChart spaceMapping d =
     (d(''saved_query_id'' \<mapsto> JUndefined,
        ''saved_query_uuid'' \<mapsto> JUndefined,
        ''space_id'' \<mapsto> getNewSpace spaceMapping (getProp d ''space_id'')))
     (''saved_query_id'' := None, ''saved_query_uuid'' := None)"

definition createChartVersion :: "idmap list \<Rightarrow> row \<Rightarrow> row" where
  "createChartVersion chartMapping d =
     (d(''saved_queries_version_id'' \<mapsto> JUndefined,
        ''saved_queries_version_uuid'' \<mapsto> JUndefined,
        ''saved_query_id'' \<mapsto> newIdOf chartMapping (getProp d ''saved_query_id'')))
     (''saved_queries_version_id'' := None, ''saved_queries_version_uuid'' := None)"

definition createContent :: "idmap list \<Rightarrow> string \<Rightarrow> row \<Rightarrow> row" where
  "createContent chartVersionMapping fieldId d =
     (d(''saved_queries_version_id'' \<mapsto>
          newIdOf chartVersionMapping (getProp d ''saved_queries_version_id'')))
     (fieldId := None)"

definition createDashboard :: "idmap list \<Rightarrow> row \<Rightarrow> row" where
  "createDashboard spaceMapping d =
     (d(''dashboard_id'' \<mapsto> JUndefined,
        ''dashboard_uuid'' \<mapsto> JUndefined,
        ''space_id'' \<mapsto> getNewSpace spaceMapping (getProp d ''space_id'')))
     (''dashboard_id'' := None, ''dashboard_uuid'' := None)"

definition createDashboardVersion :: "idmap list \<Rightarrow> row \<Rightarrow> row" where
  "createDashboardVersion dashboardMapping d =
     (d(''dashboard_version_id'' \<mapsto> JUndefined,
        ''dashboard_id'' \<mapsto> newIdOf dashboardMapping (getProp d ''dashboard_id'')))
     (''dashboard_version_id'' := None)"

text \<open>The tile keeps every column of the source tile but \<^verbatim>\<open>dashboard_version_id\<close>.\<close>

definition createDashboardTile :: "idmap list \<Rightarrow> row \<Rightarrow> row" where
  "createDashboardTile dashboardVersionsMapping d =
     d(''dashboard_version_id'' \<mapsto>
         newIdOf dashboardVersionsMapping (getProp d ''dashboard_version_id''))"

text \<open>
  The spread \<^verbatim>\<open>...(d.saved_chart_id && {saved_chart_id: ...})\<close> adds the property only
  when \<^verbatim>\<open>d.saved_chart_id\<close> is truthy.
\<close>

definition createTileContent :: "idmap list \<Rightarrow> idmap list \<Rightarrow> idmap list \<Rightarrow> row \<Rightarrow> row" where
  "createTileContent chartMapping dashboardVersionsMapping dashboardTilesMapping d =
     (d ++ (if truthy (getProp d ''saved_chart_id'')
            then [''saved_chart_id'' \<mapsto> newIdOf chartMapping (getProp d ''saved_chart_id'')]
            else Map.empty))
     (''dashboard_version_id'' \<mapsto>
        newIdOf dashboardVersionsMapping (getProp d ''dashboard_version_id''),
      ''dashboard_tile_uuid'' \<mapsto>
        newIdOf dashboardTilesMapping (getProp d ''dashboard_tile_uuid''))"

text \<open>
  Lines 811-842: the spaces of the source project.  \<^verbatim>\<open>previewProject.project_id\<close> is read
  inside the \<^verbatim>\<open>map\<close> callback, so an absent preview project is a \<^verbatim>\<open>TypeError\<close> only when
  there is a space to copy.  The result is \<^verbatim>\<open>spaceIds\<close> and \<^verbatim>\<open>spaceMapping\<close>.
\<close>

definition duplicateSpaces ::
  "storage \<Rightarrow> project option \<Rightarrow> int \<Rightarrow> database
     \<Rightarrow> error + ((jsval list \<times> idmap list) \<times> database)" where
  "duplicateSpaces st previewProject projectId trx =
     (let spaces = whereEq ''project_id'' (JNum projectId) (tables trx ''spaces'');
          spaceIds = map (\<lambda>s. getProp s ''space_id'') spaces
      in await
           (if length spaces > 0
            then (case previewProject of
                    None \<Rightarrow> Inl TypeError
                  | Some pp \<Rightarrow>
                      insert_rows st ''spaces''
                        (map (\<lambda>d. createSpace (project_id pp) d) spaces) trx)
            else Inr ([], trx))
           (\<lambda>(newSpaces, trx).
              await (idMapping ''space_id'' spaces newSpaces)
                (\<lambda>spaceMapping. Inr ((spaceIds, spaceMapping), trx))))"

text \<open>Lines 846-861: the shares of the copied spaces.\<close>

definition duplicateSpaceShares ::
  "storage \<Rightarrow> jsval list \<Rightarrow> idmap list \<Rightarrow> database \<Rightarrow> error + (row list \<times> database)" where
  "duplicateSpaceShares st spaceIds spaceMapping trx =
     (let spaceShares = whereIn ''space_id'' spaceIds (tables trx ''space_share'')
      in if length spaceShares > 0
         then insert_rows st ''space_share''
                (map (\<lambda>d. createSpaceShare spaceMapping d) spaceShares) trx
         else Inr ([], trx))"

text \<open>Lines 863-895: the charts in the spaces of the source project.  The result is
  \<^verbatim>\<open>chartIds\<close> and \<^verbatim>\<open>chartMapping\<close>.\<close>

definition duplicateCharts ::
  "storage \<Rightarrow> int \<Rightarrow> idmap list \<Rightarrow> database
     \<Rightarrow> error + ((jsval list \<times> idmap list) \<times> database)" where
  "duplicateCharts st projectId spaceMapping trx =
     (let charts = joinSpacesWhereProject (tables trx ''saved_queries'') (tables trx ''spaces'')
                     (JNum projectId);
          chartIds = map (\<lambda>d. getProp d ''saved_query_id'') charts
      in await
           (if length charts > 0
            then insert_rows st ''saved_queries''
                   (map (\<lambda>d. createChart spaceMapping d) charts) trx
            else Inr ([], trx))
           (\<lambda>(newCharts, trx).
              await (idMapping ''saved_query_id'' charts newCharts)
                (\<lambda>chartMapping. Inr ((chartIds, chartMapping), trx))))"

text \<open>Lines 897-908: the last version of each chart.\<close>

definition lastVersionIds :: "jsval list \<Rightarrow> row list \<Rightarrow> jsval list" where
  "lastVersionIds chartIds versions =
     groupByMax ''saved_query_id'' ''saved_queries_version_id''
       (whereIn ''saved_query_id'' chartIds versions)"

definition chartVersions_of :: "jsval list \<Rightarrow> row list \<Rightarrow> row list" where
  "chartVersions_of chartIds versions =
     whereIn ''saved_queries_version_id'' (lastVersionIds chartIds versions) versions"

text \<open>Lines 897-939.  The result is \<^verbatim>\<open>chartVersionIds\<close> and \<^verbatim>\<open>chartVersionMapping\<close>.\<close>

definition duplicateChartVersions ::
  "storage \<Rightarrow> jsval list \<Rightarrow> idmap list \<Rightarrow> database
     \<Rightarrow> error + ((jsval list \<times> idmap list) \<times> database)" where
  "duplicateChartVersions st chartIds chartMapping trx =
     (let chartVersions = chartVersions_of chartIds (tables trx ''saved_queries_versions'');
          chartVersionIds = map (\<lambda>d. getProp d ''saved_queries_version_id'') chartVersions
      in await
           (if length chartVersions > 0
            then insert_rows st ''saved_queries_versions''
                   (map (\<lambda>d. createChartVersion chartMapping d) chartVersions) trx
            else Inr ([], trx))
           (\<lambda>(newChartVersions, trx).
              await (idMapping ''saved_queries_version_id'' chartVersions newChartVersions)
                (\<lambda>chartVersionMapping. Inr ((chartVersionIds, chartVersionMapping), trx))))"

text \<open>
  Lines 941-969, the inner function \<^verbatim>\<open>copyChartVersionContent\<close>.  \<open>None\<close> is the
  \<^verbatim>\<open>undefined\<close> it returns when there is nothing to copy.
\<close>

definition copyChartVersionContent ::
  "storage \<Rightarrow> jsval list \<Rightarrow> idmap list \<Rightarrow> string \<Rightarrow> string \<Rightarrow> database
     \<Rightarrow> error + (row list option \<times> database)" where
  "copyChartVersionContent st chartVersionIds chartVersionMapping table fieldId trx =
     (let content = whereIn ''saved_queries_version_id'' chartVersionIds (tables trx table)
      in if length content = 0 then Inr (None, trx)
         else await
                (insert_rows st table
                   (map (\<lambda>d. createContent chartVersionMapping fieldId d) content) trx)
                (\<lambda>(newContent, trx). Inr (Some newContent, trx)))"

text \<open>Lines 988-1021: the dashboards in the spaces of the source project.  The result is
  \<^verbatim>\<open>dashboardIds\<close> and \<^verbatim>\<open>dashboardMapping\<close>.\<close>

definition duplicateDashboards ::
  "storage \<Rightarrow> int \<Rightarrow> idmap list \<Rightarrow> database
     \<Rightarrow> error + ((jsval list \<times> idmap list) \<times> database)" where
  "duplicateDashboards st projectId spaceMapping trx =
     (let dashboards = joinSpacesWhereProject (tables trx ''dashboards'') (tables trx ''spaces'')
                         (JNum projectId);
          dashboardIds = map (\<lambda>d. getProp d ''dashboard_id'') dashboards
      in await
           (if length dashboards > 0
            then insert_rows st ''dashboards''
                   (map (\<lambda>d. createDashboard spaceMapping d) dashboards) trx
            else Inr ([], trx))
           (\<lambda>(newDashboards, trx).
              await (idMapping ''dashboard_id'' dashboards newDashboards)
                (\<lambda>dashboardMapping. Inr ((dashboardIds, dashboardMapping), trx))))"

text \<open>Lines 1023-1031: the last version of each dashboard.\<close>

definition lastDashboardVersionsIds :: "jsval list \<Rightarrow> row list \<Rightarrow> jsval list" where
  "lastDashboardVersionsIds dashboardIds versions =
     groupByMax ''dashboard_id'' ''dashboard_version_id''
       (whereIn ''dashboard_id'' dashboardIds versions)"

text \<open>Lines 1023-1059.  The result is \<^verbatim>\<open>dashboardVersionIds\<close> and
  \<^verbatim>\<open>dashboardVersionsMapping\<close>.\<close>

definition duplicateDashboardVersions ::
  "storage \<Rightarrow> jsval list \<Rightarrow> idmap list \<Rightarrow> database
     \<Rightarrow> error + ((jsval list \<times> idmap list) \<times> database)" where
  "duplicateDashboardVersions st dashboardIds dashboardMapping trx =
     (let dashboardVersionIds =
            lastDashboardVersionsIds dashboardIds (tables trx ''dashboard_versions'');
          dashboardVersions =
            whereIn ''dashboard_version_id'' dashboardVersionIds (tables trx ''dashboard_versions'')
      in await
           (if length dashboardVersions > 0
            then insert_rows st ''dashboard_versions''
                   (map (\<lambda>d. createDashboardVersion dashboardMapping d) dashboardVersions) trx
            else Inr ([], trx))
           (\<lambda>(newDashboardVersions, trx).
              await (idMapping ''dashboard_version_id'' dashboardVersions newDashboardVersions)
                (\<lambda>dashboardVersionsMapping.
                   Inr ((dashboardVersionIds, dashboardVersionsMapping), trx))))"

text \<open>
  Lines 1061-1094: the tiles of the copied dashboard versions.  The result is
  \<^verbatim>\<open>dashboardTileUuids\<close> and \<^verbatim>\<open>dashboardTilesMapping\<close>.
\<close>

definition duplicateDashboardTiles ::
  "storage \<Rightarrow> jsval list \<Rightarrow> idmap list \<Rightarrow> database
     \<Rightarrow> error + ((jsval list \<times> idmap list) \<times> database)" where
  "duplicateDashboardTiles st dashboardVersionIds dashboardVersionsMapping trx =
     (let dashboardTiles =
            whereIn ''dashboard_version_id'' dashboardVersionIds (tables trx ''dashboard_tiles'');
          dashboardTileUuids = map (\<lambda>dv. getProp dv ''dashboard_tile_uuid'') dashboardTiles
      in await
           (if length dashboardTiles > 0
            then insert_rows st ''dashboard_tiles''
                   (map (\<lambda>d. createDashboardTile dashboardVersionsMapping d) dashboardTiles) trx
            else Inr ([], trx))
           (\<lambda>(newDashboardTiles, trx).
              await (idMapping ''dashboard_tile_uuid'' dashboardTiles newDashboardTiles)
                (\<lambda>dashboardTilesMapping.
                   Inr ((dashboardTileUuids, dashboardTilesMapping), trx))))"

text \<open>Lines 1096-1123, the inner function \<^verbatim>\<open>copyDashboardTileContent\<close>.\<close>

definition copyDashboardTileContent ::
  "storage \<Rightarrow> jsval list \<Rightarrow> jsval list \<Rightarrow> idmap list \<Rightarrow> idmap list \<Rightarrow> idmap list
     \<Rightarrow> string \<Rightarrow> database \<Rightarrow> error + (row list option \<times> database)" where
  "copyDashboardTileContent st dashboardTileUuids dashboardVersionIds chartMapping
       dashboardVersionsMapping dashboardTilesMapping table trx =
     (let content = whereIn ''dashboard_version_id'' dashboardVersionIds
                      (whereIn ''dashboard_tile_uuid'' dashboardTileUuids (tables trx table))
      in if length content = 0 then Inr (None, trx)
         else await
                (insert_rows st table
                   (map (\<lambda>d. createTileContent chartMapping dashboardVersionsMapping
                                dashboardTilesMapping d)
                        content)
                   trx)
                (\<lambda>(newContent, trx). Inr (Some newContent, trx)))"

text \<open>Lines 1129-1141: the mapping record.\<close>

definition insertPreviewContent ::
  "storage \<Rightarrow> uuid \<Rightarrow> uuid \<Rightarrow> PreviewContentMapping \<Rightarrow> database \<Rightarrow> error + (unit \<times> database)" where
  "insertPreviewContent st projectUuid previewProjectUuid contentMapping trx =
     (case insert_fault st ''preview_content'' of
        Some c \<Rightarrow> Inl (DatabaseError c)
      | None \<Rightarrow>
          Inr ((), trx\<lparr>preview_content_table := preview_content_table trx @
                         [\<lparr>pc_project_uuid = projectUuid,
                           preview_project_uuid = previewProjectUuid,
                           content_mapping = contentMapping\<rparr>]\<rparr>))"

subsection \<open>\<^verbatim>\<open>duplicateContent\<close>\<close>

text \<open>
  The transaction callback of \<^verbatim>\<open>duplicateContent\<close> (lines 800-1142).  Reading
  \<^verbatim>\<open>project.project_id\<close> of an absent project row is a \<^verbatim>\<open>TypeError\<close>.
\<close>

definition duplicateContent_callback ::
  "storage \<Rightarrow> uuid \<Rightarrow> uuid \<Rightarrow> database \<Rightarrow> error + (unit \<times> database)" where
  "duplicateContent_callback st projectUuid previewProjectUuid trx =
     (let previewProject = first [p \<leftarrow> projects_table trx. project_uuid p = previewProjectUuid];
          project = first [p \<leftarrow> projects_table trx. project_uuid p = projectUuid]
      in case project of
           None \<Rightarrow> Inl TypeError
         | Some proj \<Rightarrow>
      let projectId = project_id proj in
      await (duplicateSpaces st previewProject projectId trx)
        (\<lambda>((spaceIds, spaceMapping), trx).
      await (duplicateSpaceShares st spaceIds spaceMapping trx)
        (\<lambda>(newSpaceShare, trx).
      await (duplicateCharts st projectId spaceMapping trx)
        (\<lambda>((chartIds, chartMapping), trx).
      await (duplicateChartVersions st chartIds chartMapping trx)
        (\<lambda>((chartVersionIds, chartVersionMapping), trx).
      await (copyChartVersionContent st chartVersionIds chartVersionMapping
               ''saved_queries_version_table_calculations''
               ''saved_queries_version_table_calculation_id'' trx)
        (\<lambda>(_, trx).
      await (copyChartVersionContent st chartVersionIds chartVersionMapping
               ''saved_queries_version_sorts''
               ''saved_queries_version_sort_id'' trx)
        (\<lambda>(_, trx).
      await (copyChartVersionContent st chartVersionIds chartVersionMapping
               ''saved_queries_version_fields''
               ''saved_queries_version_field_id'' trx)
        (\<lambda>(_, trx).
      await (copyChartVersionContent st chartVersionIds chartVersionMapping
               ''saved_queries_version_additional_metrics''
               ''saved_queries_version_additional_metric_id'' trx)
        (\<lambda>(_, trx).
      await (duplicateDashboards st projectId spaceMapping trx)
        (\<lambda>((dashboardIds, dashboardMapping), trx).
      await (duplicateDashboardVersions st dashboardIds dashboardMapping trx)
        (\<lambda>((dashboardVersionIds, dashboardVersionsMapping), trx).
      await (duplicateDashboardTiles st dashboardVersionIds dashboardVersionsMapping trx)
        (\<lambda>((dashboardTileUuids, dashboardTilesMapping), trx).
      await (copyDashboardTileContent st dashboardTileUuids dashboardVersionIds chartMapping
               dashboardVersionsMapping dashboardTilesMapping ''dashboard_tile_charts'' trx)
        (\<lambda>(_, trx).
      await (copyDashboardTileContent st dashboardTileUuids dashboardVersionIds chartMapping
               dashboardVersionsMapping dashboardTilesMapping ''dashboard_tile_looms'' trx)
        (\<lambda>(_, trx).
      await (copyDashboardTileContent st dashboardTileUuids dashboardVersionIds chartMapping
               dashboardVersionsMapping dashboardTilesMapping ''dashboard_tile_markdowns'' trx)
        (\<lambda>(_, trx).
      insertPreviewContent st projectUuid previewProjectUuid
        \<lparr>charts = chartMapping,
         chartVersions = chartVersionMapping,
         spaces = spaceMapping,
         dashboards = dashboardMapping,
         dashboardVersions = dashboardVersionsMapping\<rparr>
        trx)))))))))))))))"

text \<open>\<^verbatim>\<open>duplicateContent\<close> (lines 795-1143).\<close>

definition duplicateContent ::
  "storage \<Rightarrow> database \<Rightarrow> uuid \<Rightarrow> uuid \<Rightarrow> (error + unit) \<times> database" where
  "duplicateContent st db projectUuid previewProjectUuid =
     transaction db (duplicateContent_callback st projectUuid previewProjectUuid)"

subsection \<open>Integrity of the tables read\<close>

text \<open>
  An integer primary key: every row holds an integer in the column, and no two rows hold
  the same one.
\<close>

definition primary_key :: "string \<Rightarrow> row list \<Rightarrow> bool" where
  "primary_key col rows =
     ((\<forall>r \<in> set rows. \<exists>n. getProp r col = JNum n)
      \<and> distinct (map (\<lambda>r. getProp r col) rows))"

text \<open>A row read from the database holds \<^verbatim>\<open>null\<close>, never \<^verbatim>\<open>undefined\<close>, in a column.\<close>

definition no_undefined :: "string \<Rightarrow> row list \<Rightarrow> bool" where
  "no_undefined col rows = (\<forall>r \<in> set rows. r col \<noteq> Some JUndefined)"


subsection \<open>What is claimed of the copies\<close>

text \<open>
  The latest versions in the words of the specification: the rows of a version table that
  belong to one of the given parents and hold the greatest version id among the rows of
  their parent.  No other column is read.
\<close>

definition latest_of :: "string \<Rightarrow> string \<Rightarrow> jsval list \<Rightarrow> row list \<Rightarrow> row list" where
  "latest_of parentCol idCol parents versions =
     [v \<leftarrow> versions.
        (\<exists>c \<in> set parents. sql_eq (getProp v parentCol) c)
        \<and> (\<forall>w \<in> set versions. getProp w parentCol = getProp v parentCol
               \<longrightarrow> num (getProp w idCol) \<le> num (getProp v idCol))]"

text \<open>
  What a remapped column of a stored copy holds: the new id of the first entry of the
  mapping for the old id, and \<^verbatim>\<open>NULL\<close> when the mapping has no entry for it.
\<close>

definition remap :: "idmap list \<Rightarrow> jsval \<Rightarrow> jsval" where
  "remap m old = (case List.find (\<lambda>e. id' e = old) m of None \<Rightarrow> JNull | Some e \<Rightarrow> newId e)"

text \<open>
  The lookup made for a row \<open>d\<close> finds an entry, and the stored copy \<open>r\<close> holds the
  entry's new id in the column.
\<close>

definition resolved_to :: "idmap list \<Rightarrow> string \<Rightarrow> row \<Rightarrow> row \<Rightarrow> bool" where
  "resolved_to m col d r =
     (case List.find (\<lambda>e. id' e = getProp d col) m of
        None \<Rightarrow> False
      | Some e \<Rightarrow> getProp r col = newId e)"

text \<open>
  A stored copy \<open>r\<close> of a row \<open>d\<close> holds what \<open>d\<close> holds in every column but the given
  ones, an \<^verbatim>\<open>undefined\<close> being stored as \<^verbatim>\<open>NULL\<close>.
\<close>

definition copy_except :: "string list \<Rightarrow> row \<Rightarrow> row \<Rightarrow> bool" where
  "copy_except cols d r =
     (\<forall>k. k \<notin> set cols \<longrightarrow> r k = (if d k = Some JUndefined then Some JNull else d k))"

text \<open>
  New rows with new ids: each holds an integer in the column, greater than what every
  row of the table held there, and no two hold the same.
\<close>

definition fresh_ids :: "string \<Rightarrow> row list \<Rightarrow> row list \<Rightarrow> bool" where
  "fresh_ids col existing new =
     ((\<forall>r \<in> set new. getProp r col = JNum (num (getProp r col))
                     \<and> (\<forall>x \<in> set existing. num (getProp x col) < num (getProp r col)))
      \<and> distinct (map (\<lambda>r. getProp r col) new))"
section \<open>Concrete inputs\<close>

text \<open>Two projects, one user with one email, and one membership.\<close>

definition projects0 :: "project list" where
  "projects0 = [\<lparr>project_id = 7, project_uuid = ''p-7''\<rparr>, \<lparr>project_id = 8, project_uuid = ''p-8''\<rparr>]"

text \<open>
  A string that is not a plain uuid, \<^verbatim>\<open>x' OR '1'='1\<close>.  Spliced into the statement it
  gives a condition that holds of every project row, and the database answers with the
  lock answer of the first row; \<open>spliced_answer\<close> is that answer, and a syntax error for
  any other text.
\<close>

definition spliced_uuid :: string where
  "spliced_uuid = ''x'' @ [CHR 0x27] @ '' OR '' @ [CHR 0x27] @ ''1'' @ [CHR 0x27] @ ''=''
                  @ [CHR 0x27] @ ''1''"

definition spliced_answer ::
  "project list \<Rightarrow> (int \<times> int) list \<Rightarrow> string \<Rightarrow> error + bool list" where
  "spliced_answer projects held text =
     (if text = ''SELECT pg_try_advisory_xact_lock(1, project_id) FROM projects WHERE project_uuid = ''
                @ [CHR 0x27] @ ''x'' @ [CHR 0x27] @ '' OR '' @ [CHR 0x27] @ ''1'' @ [CHR 0x27]
                @ ''='' @ [CHR 0x27] @ ''1'' @ [CHR 0x27] @ '' LIMIT 1''
      then Inr (take 1 (map (\<lambda>p. pg_try_advisory_xact_lock held CACHED_EXPLORES_PG_LOCK_NAMESPACE
                                   (project_id p)) projects))
      else Inl (DatabaseError ''syntax error''))"

text \<open>
  Snapshots given by the text \<^verbatim>\<open>JSON.stringify\<close> makes of them, and a \<^verbatim>\<open>jsonb\<close> column that
  holds a text as it is but rejects one with the escape of the character U+0000, as
  PostgreSQL does.
\<close>

primrec has_infix :: "string \<Rightarrow> string \<Rightarrow> bool" where
  "has_infix pat [] = (pat = [])"
| "has_infix pat (c # cs) = (take (length pat) (c # cs) = pat \<or> has_infix pat cs)"

definition jsonb_text :: "string \<Rightarrow> error + string" where
  "jsonb_text text =
     (if has_infix ([CHR 0x5C] @ ''u0000'') text then Inl (DatabaseError [])
      else Inr text)"

definition snapshot_empty :: string where
  "snapshot_empty = ''[]''"

definition snapshot_nul :: string where
  "snapshot_nul = ''[{'' @ [CHR 0x22] @ ''name'' @ [CHR 0x22] @ '':'' @ [CHR 0x22, CHR 0x5C]
                  @ ''u0000'' @ [CHR 0x22] @ ''}]''"

definition emails0 :: "email_row list" where
  "emails0 = [\<lparr>email_user_id = 3, email = ''a@x.io''\<rparr>]"

definition memberships0 :: "project_membership list" where
  "memberships0 = [\<lparr>pm_project_id = 7, role = ''viewer'', pm_user_id = 3\<rparr>]"

text \<open>
  A storage layer without faults, and a small database: the source project \<open>src\<close> with one
  space, a space share, a chart with versions 100 and 101, a sort of version 101, and a
  dashboard with versions 200 and 201 and three tiles; the empty preview project
  \<open>prev\<close>; and a project \<open>other\<close> with a space and a chart of its own.  Two tiles of the
  latest dashboard version show a chart: one the chart of \<open>src\<close>, one the chart of
  \<open>other\<close>.
\<close>

definition st0 :: storage where
  "st0 = \<lparr>gen_uuid = (\<lambda>t n. ''new''), insert_fault = (\<lambda>t. None)\<rparr>"

definition db0 :: database where
  "db0 = \<lparr>projects_table =
            [\<lparr>project_id = 1, project_uuid = ''src''\<rparr>,
             \<lparr>project_id = 2, project_uuid = ''prev''\<rparr>,
             \<lparr>project_id = 3, project_uuid = ''other''\<rparr>],
          tables = (\<lambda>t. [])
            (''spaces'' :=
               [[''space_id'' \<mapsto> JNum 1, ''space_uuid'' \<mapsto> JStr ''s1'', ''project_id'' \<mapsto> JNum 1],
                [''space_id'' \<mapsto> JNum 2, ''space_uuid'' \<mapsto> JStr ''s2'', ''project_id'' \<mapsto> JNum 3]],
             ''space_share'' := [[''space_id'' \<mapsto> JNum 1, ''user_id'' \<mapsto> JNum 5]],
             ''saved_queries'' :=
               [[''saved_query_id'' \<mapsto> JNum 10, ''saved_query_uuid'' \<mapsto> JStr ''c10'', ''space_id'' \<mapsto> JNum 1],
                [''saved_query_id'' \<mapsto> JNum 11, ''saved_query_uuid'' \<mapsto> JStr ''c11'', ''space_id'' \<mapsto> JNum 2]],
             ''saved_queries_versions'' :=
               [[''saved_queries_version_id'' \<mapsto> JNum 100, ''saved_query_id'' \<mapsto> JNum 10],
                [''saved_queries_version_id'' \<mapsto> JNum 101, ''saved_query_id'' \<mapsto> JNum 10],
                [''saved_queries_version_id'' \<mapsto> JNum 102, ''saved_query_id'' \<mapsto> JNum 11]],
             ''saved_queries_version_sorts'' :=
               [[''saved_queries_version_sort_id'' \<mapsto> JNum 7, ''saved_queries_version_id'' \<mapsto> JNum 101]],
             ''dashboards'' :=
               [[''dashboard_id'' \<mapsto> JNum 20, ''dashboard_uuid'' \<mapsto> JStr ''d20'', ''space_id'' \<mapsto> JNum 1]],
             ''dashboard_versions'' :=
               [[''dashboard_version_id'' \<mapsto> JNum 200, ''dashboard_id'' \<mapsto> JNum 20],
                [''dashboard_version_id'' \<mapsto> JNum 201, ''dashboard_id'' \<mapsto> JNum 20]],
             ''dashboard_tiles'' :=
               [[''dashboard_version_id'' \<mapsto> JNum 200, ''dashboard_tile_uuid'' \<mapsto> JStr ''t0''],
                [''dashboard_version_id'' \<mapsto> JNum 201, ''dashboard_tile_uuid'' \<mapsto> JStr ''t1''],
                [''dashboard_version_id'' \<mapsto> JNum 201, ''dashboard_tile_uuid'' \<mapsto> JStr ''t2'']],
             ''dashboard_tile_charts'' :=
               [[''dashboard_version_id'' \<mapsto> JNum 201, ''dashboard_tile_uuid'' \<mapsto> JStr ''t1'', ''saved_chart_id'' \<mapsto> JNum 10],
                [''dashboard_version_id'' \<mapsto> JNum 201, ''dashboard_tile_uuid'' \<mapsto> JStr ''t2'', ''saved_chart_id'' \<mapsto> JNum 11]]),
          preview_content_table = []\<rparr>"

text \<open>A storage layer that rejects the last insert, the one into \<^verbatim>\<open>preview_content\<close>.\<close>

definition st_fault :: storage where
  "st_fault = \<lparr>gen_uuid = (\<lambda>t n. ''new''),
     insert_fault = (\<lambda>t. if t = ''preview_content'' then Some ''preview_content_pkey'' else None)\<rparr>"

section \<open>Properties of the secret merge, the lock and the cache\<close>

lemma foldl_secrets:
  "foldl (\<lambda>sum secretKey. if P secretKey then sum(secretKey \<mapsto> g secretKey) else sum) acc ks k
     = (if k \<in> set ks \<and> P k then Some (g k) else acc k)"
  by (induction ks arbitrary: acc) auto

text \<open>
  Claim C7.  When the two configurations declare different connection types, both
  \<^verbatim>\<open>mergeMissingDbtConfigSecrets\<close> and \<^verbatim>\<open>mergeMissingWarehouseSecrets\<close> return the
  incomplete configuration itself: no property is changed, added or removed, whatever the
  lists of sensitive field names are.
\<close>

theorem mergeMissing_type_mismatch:
  assumes "getProp incompleteConfig ''type'' \<noteq> getProp completeConfig ''type''"
  shows "mergeMissingDbtConfigSecrets dbtNames incompleteConfig completeConfig = incompleteConfig
       \<and> mergeMissingWarehouseSecrets whNames incompleteConfig completeConfig = incompleteConfig"
  using assms by (simp add: mergeMissingDbtConfigSecrets_def mergeMissingWarehouseSecrets_def)

theorem mergeMissing_type_mismatch_witness:
  "getProp [''type'' \<mapsto> JStr ''postgres'', ''password'' \<mapsto> JStr ''''] ''type''
      \<noteq> getProp [''type'' \<mapsto> JStr ''bigquery'', ''password'' \<mapsto> JStr ''X''] ''type''
   \<and> mergeMissingDbtConfigSecrets [''password'']
        [''type'' \<mapsto> JStr ''postgres'', ''password'' \<mapsto> JStr '''']
        [''type'' \<mapsto> JStr ''bigquery'', ''password'' \<mapsto> JStr ''X'']
      = [''type'' \<mapsto> JStr ''postgres'', ''password'' \<mapsto> JStr '''']
   \<and> mergeMissingWarehouseSecrets [''password'']
        [''type'' \<mapsto> JStr ''postgres'', ''password'' \<mapsto> JStr '''']
        [''type'' \<mapsto> JStr ''bigquery'', ''password'' \<mapsto> JStr ''X'']
      = [''type'' \<mapsto> JStr ''postgres'', ''password'' \<mapsto> JStr '''']"
proof -
  have h: "getProp [''type'' \<mapsto> JStr ''postgres'', ''password'' \<mapsto> JStr ''''] ''type''
      \<noteq> getProp [''type'' \<mapsto> JStr ''bigquery'', ''password'' \<mapsto> JStr ''X''] ''type''"
    by (simp add: getProp_def)
  from mergeMissing_type_mismatch [OF h, of "[''password'']" "[''password'']"] h
  show ?thesis by blast
qed

text \<open>
  Claim C6 says that an empty-string secret of the incomplete configuration is never
  overwritten.  The source tests \<^verbatim>\<open>!incompleteConfig[secretKey]\<close>, and the empty string is
  falsy: with the same connection type and a non-empty value in the complete
  configuration, the empty secret is replaced, in both functions.
\<close>

theorem mergeMissing_empty_secret_counterexample:
  "getProp [''type'' \<mapsto> JStr ''github'', ''personal_access_token'' \<mapsto> JStr ''''] ''type''
     = getProp [''type'' \<mapsto> JStr ''github'', ''personal_access_token'' \<mapsto> JStr ''X''] ''type''
   \<and> [''type'' \<mapsto> JStr ''github'', ''personal_access_token'' \<mapsto> JStr '''']
        ''personal_access_token'' = Some (JStr '''')
   \<and> mergeMissingDbtConfigSecrets [''personal_access_token'']
        [''type'' \<mapsto> JStr ''github'', ''personal_access_token'' \<mapsto> JStr '''']
        [''type'' \<mapsto> JStr ''github'', ''personal_access_token'' \<mapsto> JStr ''X'']
        ''personal_access_token'' = Some (JStr ''X'')
   \<and> mergeMissingWarehouseSecrets [''password'']
        [''type'' \<mapsto> JStr ''postgres'', ''password'' \<mapsto> JStr '''']
        [''type'' \<mapsto> JStr ''postgres'', ''password'' \<mapsto> JStr ''X'']
        ''password'' = Some (JStr ''X'')"
  by (simp add: mergeMissingDbtConfigSecrets_def mergeMissingWarehouseSecrets_def getProp_def)

text \<open>
  Claim C6, as amended.  For configurations of the same connection type and a property
  \<open>k\<close> that is the empty string in the incomplete configuration, the result holds the
  complete configuration's value when \<open>k\<close> is a sensitive field name and that value is
  truthy, and keeps the empty string otherwise.  Both functions behave so.
\<close>

theorem mergeMissing_empty_secret:
  assumes "getProp incompleteConfig ''type'' = getProp completeConfig ''type''"
    and "incompleteConfig k = Some (JStr '''')"
  shows "mergeMissingDbtConfigSecrets names incompleteConfig completeConfig k
           = Some (if k \<in> set names \<and> truthy (getProp completeConfig k)
                   then getProp completeConfig k else JStr '''')
       \<and> mergeMissingWarehouseSecrets names incompleteConfig completeConfig k
           = Some (if k \<in> set names \<and> truthy (getProp completeConfig k)
                   then getProp completeConfig k else JStr '''')"
  using assms
  by (simp add: mergeMissingDbtConfigSecrets_def mergeMissingWarehouseSecrets_def
      foldl_secrets map_add_def getProp_def)

theorem mergeMissing_empty_secret_witness:
  "mergeMissingDbtConfigSecrets [''personal_access_token'']
        [''type'' \<mapsto> JStr ''github'', ''personal_access_token'' \<mapsto> JStr '''']
        [''type'' \<mapsto> JStr ''github'']
        ''personal_access_token'' = Some (JStr '''')
   \<and> mergeMissingWarehouseSecrets [''personal_access_token'']
        [''type'' \<mapsto> JStr ''github'', ''personal_access_token'' \<mapsto> JStr '''']
        [''type'' \<mapsto> JStr ''github'']
        ''personal_access_token'' = Some (JStr '''')"
  using mergeMissing_empty_secret [of "[''type'' \<mapsto> JStr ''github'', ''personal_access_token'' \<mapsto> JStr '''']"
      "[''type'' \<mapsto> JStr ''github'']" "''personal_access_token''" "[''personal_access_token'']"]
  by (simp add: getProp_def)

text \<open>
  \<^verbatim>\<open>tryAcquireProjectLock\<close> on a plain uuid: when no project row has the uuid, no
  callback is invoked and the call resolves with the state untouched; when a row matches
  and the lock is acquired, \<^verbatim>\<open>onLockAcquired\<close> alone is invoked and its outcome is the
  call's; when the lock is not acquired, \<^verbatim>\<open>onLockFailed\<close> alone is invoked if it was
  supplied, and nothing is invoked if it was not.  At most one callback is invoked.
\<close>

lemma tryAcquireProjectLock_plain:
  fixes onLockAcquired :: "'s \<Rightarrow> error + 's"
    and raw :: "string \<Rightarrow> error + bool list"
    and projects :: "project list" and projectUuid :: uuid and held :: "(int \<times> int) list"
    and onLockFailed :: "('s \<Rightarrow> error + 's) option" and s :: 's
  assumes plain: "plain_literal projectUuid"
  defines "rows \<equiv> [p \<leftarrow> projects. project_uuid p = projectUuid]"
  defines "calls \<equiv> fst (tryAcquireProjectLock raw projects held projectUuid onLockAcquired onLockFailed s)"
  defines "res \<equiv> snd (tryAcquireProjectLock raw projects held projectUuid onLockAcquired onLockFailed s)"
  shows "(rows = [] \<longrightarrow> calls = [] \<and> res = Inr s)
       \<and> (rows \<noteq> [] \<longrightarrow>
            (let acquired = pg_try_advisory_xact_lock held CACHED_EXPLORES_PG_LOCK_NAMESPACE
                              (project_id (hd rows))
             in (acquired \<longrightarrow> calls = [OnLockAcquired] \<and> res = onLockAcquired s)
              \<and> (\<not> acquired \<longrightarrow>
                   (case onLockFailed of
                      Some f \<Rightarrow> calls = [OnLockFailed] \<and> res = f s
                    | None \<Rightarrow> calls = [] \<and> res = Inr s))))
       \<and> length calls \<le> 1"
  using plain unfolding rows_def calls_def res_def tryAcquireProjectLock_def Let_def
  by (cases "[p \<leftarrow> projects. project_uuid p = projectUuid]") (auto split: option.splits)

lemma tryAcquireProjectLock_plain_runs:
  "tryAcquireProjectLock raw projects0 [(1, 7)] ''p-8'' (\<lambda>s. Inr (s + 1)) (Some (\<lambda>s. Inr (s + 10))) (0::nat)
     = ([OnLockAcquired], Inr 1)
   \<and> tryAcquireProjectLock raw projects0 [(1, 7)] ''p-7'' (\<lambda>s. Inr (s + 1)) (Some (\<lambda>s. Inr (s + 10))) (0::nat)
     = ([OnLockFailed], Inr 10)
   \<and> tryAcquireProjectLock raw projects0 [(1, 7)] ''p-7'' (\<lambda>s. Inr (s + 1)) None (0::nat)
     = ([], Inr 0)
   \<and> tryAcquireProjectLock raw projects0 [(1, 7)] ''p-9'' (\<lambda>s. Inr (s + 1)) (Some (\<lambda>s. Inr (s + 10))) (0::nat)
     = ([], Inr 0)"
  by (simp add: tryAcquireProjectLock_def plain_literal_def projects0_def
      pg_try_advisory_xact_lock_def CACHED_EXPLORES_PG_LOCK_NAMESPACE_def)

text \<open>
  Claim C5.  The claim is for every call; it fails on a uuid that is not plain.  With the
  uuid \<^verbatim>\<open>x' OR '1'='1\<close> no project row has the given uuid, yet the statement sent is
  \<^verbatim>\<open>... WHERE project_uuid = 'x' OR '1'='1' LIMIT 1\<close>, whose condition holds of every row:
  the lock of the first project is taken and \<^verbatim>\<open>onLockAcquired\<close> is invoked, where the
  claim has a silent no-op.  With the uuid \<^verbatim>\<open>x'\<close> the statement is rejected by the
  database and the call rejects, where the claim has a normal return.  The other queries
  of \<^verbatim>\<open>ProjectModel\<close> pass the uuid as a binding.
\<close>

theorem tryAcquireProjectLock_spliced_uuid:
  "[p \<leftarrow> projects0. project_uuid p = spliced_uuid] = []
   \<and> projectLock_statement spliced_uuid
       = ''SELECT pg_try_advisory_xact_lock(1, project_id) FROM projects WHERE project_uuid = ''
         @ [CHR 0x27] @ ''x'' @ [CHR 0x27] @ '' OR '' @ [CHR 0x27] @ ''1'' @ [CHR 0x27] @ ''=''
         @ [CHR 0x27] @ ''1'' @ [CHR 0x27] @ '' LIMIT 1''
   \<and> tryAcquireProjectLock (spliced_answer projects0 []) projects0 [] spliced_uuid
        (\<lambda>s. Inr (s + 1)) (Some (\<lambda>s. Inr (s + 10))) (0::nat)
       = ([OnLockAcquired], Inr 1)
   \<and> tryAcquireProjectLock (\<lambda>text. Inl (DatabaseError ''syntax error'')) projects0 []
        (''x'' @ [CHR 0x27])
        (\<lambda>s. Inr (s + 1)) (Some (\<lambda>s. Inr (s + 10))) (0::nat)
       = ([], Inl (DatabaseError ''syntax error''))"
  by (simp add: tryAcquireProjectLock_def plain_literal_def projects0_def spliced_uuid_def
      projectLock_statement_def spliced_answer_def
      pg_try_advisory_xact_lock_def CACHED_EXPLORES_PG_LOCK_NAMESPACE_def)

lemma filter_upsert:
  "[x \<leftarrow> map (\<lambda>r. if ce_project_uuid r = p then row else r) tbl. ce_project_uuid x = p]
     = map (\<lambda>_. row) [x \<leftarrow> tbl. ce_project_uuid x = p]" if "ce_project_uuid row = p"
  using that by (induction tbl) auto

lemma save_accepted:
  "stringify e = Inr t \<Longrightarrow> jsonb t = Inr v \<Longrightarrow>
   fst (saveExploresToCache stringify jsonb tbl p e) = Inr \<lparr>ce_project_uuid = p, explores = v\<rparr>"
  by (simp add: saveExploresToCache_def Let_def)

lemma save_rejected:
  "stringify e = Inl x \<or> (\<exists>t. stringify e = Inr t \<and> jsonb t = Inl x) \<Longrightarrow>
   saveExploresToCache stringify jsonb tbl p e = (Inl x, tbl)"
  by (auto simp: saveExploresToCache_def)

lemma getExplores_after_save:
  assumes "stringify e = Inr t" "jsonb t = Inr v"
  shows "getExploresFromCache (snd (saveExploresToCache stringify jsonb tbl p e)) p = Some v"
proof (cases "\<exists>r \<in> set tbl. ce_project_uuid r = p")
  case True
  then have "[x \<leftarrow> tbl. ce_project_uuid x = p] \<noteq> []"
    by (auto simp: filter_empty_conv)
  then obtain y ys where "[x \<leftarrow> tbl. ce_project_uuid x = p] = y # ys"
    by (cases "[x \<leftarrow> tbl. ce_project_uuid x = p]") auto
  with True assms show ?thesis
    by (simp add: getExploresFromCache_def saveExploresToCache_def Let_def filter_upsert)
next
  case False
  then have "[x \<leftarrow> tbl. ce_project_uuid x = p] = []"
    by (auto simp: filter_empty_conv)
  with False assms show ?thesis
    by (auto simp: getExploresFromCache_def saveExploresToCache_def Let_def)
qed

lemma save_keys:
  "map ce_project_uuid (snd (saveExploresToCache stringify jsonb tbl p e))
     = (if p \<in> set (map ce_project_uuid tbl) \<or> fst (saveExploresToCache stringify jsonb tbl p e) \<notin> range Inr
        then map ce_project_uuid tbl
        else map ce_project_uuid tbl @ [p])"
proof -
  have "map ce_project_uuid (map (\<lambda>r. if ce_project_uuid r = p
          then \<lparr>ce_project_uuid = p, explores = v\<rparr> else r) tbl) = map ce_project_uuid tbl" for v
    by (induction tbl) auto
  then show ?thesis
    by (auto simp: saveExploresToCache_def Let_def split: sum.splits)
qed

lemma save_distinct:
  "distinct (map ce_project_uuid tbl) \<Longrightarrow>
   distinct (map ce_project_uuid (snd (saveExploresToCache stringify jsonb tbl p e)))"
  by (simp add: save_keys)

lemma save_has_key:
  "stringify e = Inr t \<Longrightarrow> jsonb t = Inr v \<Longrightarrow>
   p \<in> set (map ce_project_uuid (snd (saveExploresToCache stringify jsonb tbl p e)))"
  by (simp add: save_keys save_accepted)

lemma distinct_count_one:
  "distinct (map f xs) \<Longrightarrow> k \<in> set (map f xs) \<Longrightarrow> length [x \<leftarrow> xs. f x = k] = 1"
proof (induction xs)
  case Nil
  then show ?case by simp
next
  case (Cons a xs)
  show ?case
  proof (cases "f a = k")
    case True
    with Cons.prems have "k \<notin> f ` set xs" by simp
    then have "\<forall>x \<in> set xs. f x \<noteq> k" by blast
    then have "[x \<leftarrow> xs. f x = k] = []"
      by (simp add: filter_empty_conv)
    with True show ?thesis by simp
  next
    case False
    with Cons show ?thesis by auto
  qed
qed

text \<open>
  Claim C9 says that the read after two saves gives exactly the second snapshot, for
  every pair of snapshots.  The text of a snapshot with the character U+0000 in a string
  is rejected by the \<^verbatim>\<open>jsonb\<close> column: the second save rejects, and the read gives the
  first snapshot.
\<close>

theorem explores_cache_rejected_snapshot_counterexample:
  "snapshot_nul \<noteq> snapshot_empty
   \<and> saveExploresToCache Inr jsonb_text [] ''p-7'' snapshot_empty
       = (Inr \<lparr>ce_project_uuid = ''p-7'', explores = snapshot_empty\<rparr>,
          [\<lparr>ce_project_uuid = ''p-7'', explores = snapshot_empty\<rparr>])
   \<and> saveExploresToCache Inr jsonb_text
        (snd (saveExploresToCache Inr jsonb_text [] ''p-7'' snapshot_empty)) ''p-7'' snapshot_nul
       = (Inl (DatabaseError []), [\<lparr>ce_project_uuid = ''p-7'', explores = snapshot_empty\<rparr>])
   \<and> getExploresFromCache
        (snd (saveExploresToCache Inr jsonb_text
               (snd (saveExploresToCache Inr jsonb_text [] ''p-7'' snapshot_empty))
               ''p-7'' snapshot_nul)) ''p-7''
       = Some snapshot_empty"
  by (simp add: saveExploresToCache_def getExploresFromCache_def jsonb_text_def
      snapshot_nul_def snapshot_empty_def Let_def)

text \<open>
  Claim C9, as amended.  After two saves for the same project: when \<^verbatim>\<open>JSON.stringify\<close>
  throws on the second snapshot or the column rejects its text, the second save rejects
  with that error and leaves the table as the first save left it; otherwise the second
  save returns the row of the project with the value the column holds for the text of
  the second snapshot, and reading the project's cache gives that value, whatever the
  first save did.  A table with one row per project keeps that shape, and holds exactly
  one row for the project after an accepted save; the rows of other projects are
  untouched.  Reading a project that has no row gives \<^verbatim>\<open>undefined\<close> (\<open>None\<close>), not an
  error.
\<close>

theorem explores_cache_last_writer_wins:
  fixes stringify :: "'e \<Rightarrow> error + string" and jsonb :: "string \<Rightarrow> error + 'j"
    and tbl :: "'j cached_explores list" and p :: uuid and s1 s2 :: 'e
  defines "save1 \<equiv> saveExploresToCache stringify jsonb tbl p s1"
  defines "save2 \<equiv> saveExploresToCache stringify jsonb (snd save1) p s2"
  shows "(case stringify s2 of
            Inl e \<Rightarrow> save2 = (Inl e, snd save1)
          | Inr text \<Rightarrow>
              (case jsonb text of
                 Inl e \<Rightarrow> save2 = (Inl e, snd save1)
               | Inr stored \<Rightarrow>
                   fst save2 = Inr \<lparr>ce_project_uuid = p, explores = stored\<rparr>
                   \<and> getExploresFromCache (snd save2) p = Some stored
                   \<and> (distinct (map ce_project_uuid tbl) \<longrightarrow>
                        length [r \<leftarrow> snd save2. ce_project_uuid r = p] = 1)))
       \<and> (distinct (map ce_project_uuid tbl) \<longrightarrow>
            distinct (map ce_project_uuid (snd save2))
            \<and> length [r \<leftarrow> snd save2. ce_project_uuid r = p] \<le> 1)
       \<and> [r \<leftarrow> snd save2. ce_project_uuid r \<noteq> p] = [r \<leftarrow> tbl. ce_project_uuid r \<noteq> p]
       \<and> (p \<notin> set (map ce_project_uuid tbl) \<longrightarrow> getExploresFromCache tbl p = None)"
proof -
  have d: "distinct (map ce_project_uuid (snd save2))" if "distinct (map ce_project_uuid tbl)"
    unfolding save2_def save1_def using that by (intro save_distinct)
  have a: "save2 = (Inl e, snd save1)" if "stringify s2 = Inl e" for e
    unfolding save2_def using that by (simp add: save_rejected)
  have b: "save2 = (Inl e, snd save1)" if "stringify s2 = Inr t" "jsonb t = Inl e" for e t
    unfolding save2_def using that by (simp add: save_rejected)
  have c: "fst save2 = Inr \<lparr>ce_project_uuid = p, explores = v\<rparr>
         \<and> getExploresFromCache (snd save2) p = Some v
         \<and> (distinct (map ce_project_uuid tbl) \<longrightarrow>
                        length [r \<leftarrow> snd save2. ce_project_uuid r = p] = 1)"
    if t: "stringify s2 = Inr t" "jsonb t = Inr v" for t v
  proof -
    have "p \<in> set (map ce_project_uuid (snd save2))"
      unfolding save2_def using t by (rule save_has_key)
    with d have "distinct (map ce_project_uuid tbl) \<longrightarrow>
                        length [r \<leftarrow> snd save2. ce_project_uuid r = p] = 1"
      by (simp add: distinct_count_one)
    with t show ?thesis
      unfolding save2_def by (simp add: save_accepted getExplores_after_save)
  qed
  have e: "length [r \<leftarrow> snd save2. ce_project_uuid r = p] \<le> 1"
    if "distinct (map ce_project_uuid tbl)"
  proof (cases "p \<in> set (map ce_project_uuid (snd save2))")
    case True
    with d [OF that] show ?thesis by (simp add: distinct_count_one)
  next
    case False
    then have "[r \<leftarrow> snd save2. ce_project_uuid r = p] = []"
      by (auto simp: filter_empty_conv)
    then show ?thesis by simp
  qed
  have o: "[r \<leftarrow> snd (saveExploresToCache stringify jsonb T p s). ce_project_uuid r \<noteq> p]
             = [r \<leftarrow> T. ce_project_uuid r \<noteq> p]" for T s
  proof -
    have "[r \<leftarrow> map (\<lambda>r. if ce_project_uuid r = p then \<lparr>ce_project_uuid = p, explores = v\<rparr> else r) T.
             ce_project_uuid r \<noteq> p] = [r \<leftarrow> T. ce_project_uuid r \<noteq> p]" for v :: 'j
      by (induction T) auto
    then show ?thesis
      by (auto simp: saveExploresToCache_def Let_def split: sum.splits)
  qed
  have f: "[r \<leftarrow> snd save2. ce_project_uuid r \<noteq> p] = [r \<leftarrow> tbl. ce_project_uuid r \<noteq> p]"
    unfolding save2_def save1_def by (simp add: o)
  have g: "getExploresFromCache tbl p = None" if "p \<notin> set (map ce_project_uuid tbl)"
  proof -
    from that have "[r \<leftarrow> tbl. ce_project_uuid r = p] = []"
      by (auto simp: filter_empty_conv)
    then show ?thesis by (simp add: getExploresFromCache_def)
  qed
  from a b c d e f g show ?thesis
    by (auto split: sum.splits)
qed

theorem explores_cache_last_writer_wins_witness:
  "saveExploresToCache Inr jsonb_text
     (snd (saveExploresToCache Inr jsonb_text
            [\<lparr>ce_project_uuid = ''p-8'', explores = ''{}''\<rparr>] ''p-7'' snapshot_empty))
     ''p-7'' ''[1]''
     = (Inr \<lparr>ce_project_uuid = ''p-7'', explores = ''[1]''\<rparr>,
        [\<lparr>ce_project_uuid = ''p-8'', explores = ''{}''\<rparr>,
         \<lparr>ce_project_uuid = ''p-7'', explores = ''[1]''\<rparr>])
   \<and> getExploresFromCache
       (snd (saveExploresToCache Inr jsonb_text
         (snd (saveExploresToCache Inr jsonb_text
            [\<lparr>ce_project_uuid = ''p-8'', explores = ''{}''\<rparr>] ''p-7'' snapshot_empty))
         ''p-7'' ''[1]'')) ''p-7''
     = Some ''[1]''
   \<and> getExploresFromCache [\<lparr>ce_project_uuid = ''p-8'', explores = ''{}''\<rparr>] ''p-7'' = None"
proof -
  have k: "saveExploresToCache Inr jsonb_text
     (snd (saveExploresToCache Inr jsonb_text
            [\<lparr>ce_project_uuid = ''p-8'', explores = ''{}''\<rparr>] ''p-7'' snapshot_empty))
     ''p-7'' ''[1]''
     = (Inr \<lparr>ce_project_uuid = ''p-7'', explores = ''[1]''\<rparr>,
        [\<lparr>ce_project_uuid = ''p-8'', explores = ''{}''\<rparr>,
         \<lparr>ce_project_uuid = ''p-7'', explores = ''[1]''\<rparr>])"
    by (simp add: saveExploresToCache_def jsonb_text_def snapshot_empty_def Let_def)
  have j: "jsonb_text ''[1]'' = Inr ''[1]''"
    by (simp add: jsonb_text_def)
  from explores_cache_last_writer_wins
    [where stringify=Inr and jsonb=jsonb_text
       and tbl="[\<lparr>ce_project_uuid = ''p-8'', explores = ''{}''\<rparr>]" and p="''p-7''"
       and ?s1.0=snapshot_empty and ?s2.0="''[1]''"] k j
  show ?thesis by simp
qed
section \<open>Properties of project access\<close>

lemma createProjectAccess_cases:
  "createProjectAccess projects users emails memberships projectUuid e r =
     (case first [u. u \<leftarrow> users, m \<leftarrow> emails, email_user_id m = u, email m = e] of
        None \<Rightarrow> (Inl NotExistsError, memberships)
      | Some u \<Rightarrow>
          (case first [p \<leftarrow> projects. project_uuid p = projectUuid] of
             None \<Rightarrow> (Inl TypeError, memberships)
           | Some p \<Rightarrow>
               if \<exists>m \<in> set memberships. pm_project_id m = project_id p \<and> pm_user_id m = u
               then (Inl AlreadyExistsError, memberships)
               else (Inr (), memberships @ [\<lparr>pm_project_id = project_id p, role = r, pm_user_id = u\<rparr>])))"
  by (auto simp: createProjectAccess_def Let_def insert_project_membership_def
      createProjectAccess_catch_def split: option.splits)

lemma insert_project_membership_unique:
  "insert_project_membership tbl row = Inl (DatabaseError ''project_memberships_project_id_user_id_unique'')
     \<longleftrightarrow> (\<exists>m \<in> set tbl. pm_project_id m = pm_project_id row \<and> pm_user_id m = pm_user_id row)"
  by (simp add: insert_project_membership_def)

text \<open>
  Claim C8.  \<^verbatim>\<open>createProjectAccess\<close> rejects with the not-found error when no user has the
  given email.  It rejects with the already-exists error exactly when a user and a project
  were found and the insert into \<^verbatim>\<open>project_memberships\<close> was refused for the uniqueness
  constraint on (project, user); the table is then unchanged.  A second call after a
  successful one with the same arguments rejects with the already-exists error.
\<close>

theorem createProjectAccess_errors:
  fixes projects :: "project list" and users :: "int list" and emails :: "email_row list"
    and memberships :: "project_membership list" and projectUuid :: uuid and e r :: string
  defines "call \<equiv> createProjectAccess projects users emails memberships projectUuid e r"
  defines "user \<equiv> first [u. u \<leftarrow> users, m \<leftarrow> emails, email_user_id m = u, email m = e]"
  defines "proj \<equiv> first [p \<leftarrow> projects. project_uuid p = projectUuid]"
  shows "(user = None \<longrightarrow> call = (Inl NotExistsError, memberships))
       \<and> (fst call = Inl AlreadyExistsError \<longleftrightarrow>
            (\<exists>u p. user = Some u \<and> proj = Some p
               \<and> insert_project_membership memberships
                    \<lparr>pm_project_id = project_id p, role = r, pm_user_id = u\<rparr>
                  = Inl (DatabaseError ''project_memberships_project_id_user_id_unique'')))
       \<and> (fst call = Inl AlreadyExistsError \<longrightarrow> snd call = memberships)
       \<and> (fst call = Inr () \<longrightarrow>
            fst (createProjectAccess projects users emails (snd call) projectUuid e r)
              = Inl AlreadyExistsError)"
proof (cases user)
  case None
  then show ?thesis
    unfolding call_def user_def proj_def by (simp add: createProjectAccess_cases)
next
  case u: (Some u)
  show ?thesis
  proof (cases proj)
    case None
    with u show ?thesis
      unfolding call_def user_def proj_def by (simp add: createProjectAccess_cases)
  next
    case (Some p)
    show ?thesis
    proof (cases "\<exists>m \<in> set memberships. pm_project_id m = project_id p \<and> pm_user_id m = u")
      case True
      with u Some show ?thesis
        unfolding call_def user_def proj_def
        by (simp add: createProjectAccess_cases insert_project_membership_unique)
    next
      case False
      with u Some show ?thesis
        unfolding call_def user_def proj_def
        by (simp add: createProjectAccess_cases insert_project_membership_unique)
    qed
  qed
qed

theorem createProjectAccess_errors_witness:
  "createProjectAccess projects0 [3] emails0 memberships0 ''p-7'' ''b@x.io'' ''editor''
     = (Inl NotExistsError, memberships0)
   \<and> createProjectAccess projects0 [3] emails0 memberships0 ''p-7'' ''a@x.io'' ''editor''
     = (Inl AlreadyExistsError, memberships0)
   \<and> fst (createProjectAccess projects0 [3] emails0 memberships0 ''p-8'' ''a@x.io'' ''editor'')
     = Inr ()
   \<and> fst (createProjectAccess projects0 [3] emails0
        (snd (createProjectAccess projects0 [3] emails0 memberships0 ''p-8'' ''a@x.io'' ''editor''))
        ''p-8'' ''a@x.io'' ''editor'') = Inl AlreadyExistsError"
proof -
  note a = createProjectAccess_errors [where projects=projects0 and users="[3]" and emails=emails0
      and memberships=memberships0 and projectUuid="''p-7''" and e="''b@x.io''" and r="''editor''"]
  note b = createProjectAccess_errors [where projects=projects0 and users="[3]" and emails=emails0
      and memberships=memberships0 and projectUuid="''p-7''" and e="''a@x.io''" and r="''editor''"]
  note c = createProjectAccess_errors [where projects=projects0 and users="[3]" and emails=emails0
      and memberships=memberships0 and projectUuid="''p-8''" and e="''a@x.io''" and r="''editor''"]
  have 1: "createProjectAccess projects0 [3] emails0 memberships0 ''p-7'' ''b@x.io'' ''editor''
     = (Inl NotExistsError, memberships0)"
    using a by (simp add: emails0_def first_def)
  have 2: "createProjectAccess projects0 [3] emails0 memberships0 ''p-7'' ''a@x.io'' ''editor''
     = (Inl AlreadyExistsError, memberships0)"
    using b by (simp add: emails0_def projects0_def memberships0_def first_def
        insert_project_membership_def prod_eq_iff)
  have 3: "fst (createProjectAccess projects0 [3] emails0 memberships0 ''p-8'' ''a@x.io'' ''editor'')
     = Inr ()"
    by (simp add: emails0_def projects0_def memberships0_def first_def
        insert_project_membership_def createProjectAccess_def)
  from 1 2 3 c show ?thesis by blast
qed

section \<open>Properties of duplicating content\<close>

subsection \<open>What each step does when it succeeds\<close>

lemma await_Inr: "await m f = Inr y \<longleftrightarrow> (\<exists>x. m = Inr x \<and> f x = Inr y)"
  by (cases m) (auto simp: await_def)

lemma length_number_from: "length (number_from n xs) = length xs"
  by (induction xs arbitrary: n) auto

lemma length_returning_rows: "length (returning_rows st table existing rows) = length rows"
  by (simp add: returning_rows_def length_number_from)

lemma map_returning_rows:
  assumes "\<And>n r. r \<in> set rows \<Longrightarrow> g (stored_row st T n r) = h r"
  shows "map g (returning_rows st T ex rows) = map h rows"
proof -
  have "map g (map (\<lambda>(n, r). stored_row st T n r) (number_from k rows)) = map h rows" for k
    using assms by (induction rows arbitrary: k) auto
  then show ?thesis by (simp add: returning_rows_def)
qed

lemma insert_rows_Inr:
  assumes "insert_rows st table rows trx = Inr (new, trx')"
  shows "new = returning_rows st table (tables trx table) rows"
    and "trx' = trx\<lparr>tables := (tables trx)(table := tables trx table @ new)\<rparr>"
  using assms by (auto simp: insert_rows_def Let_def split: option.splits)

lemma idMapping_Inr:
  assumes "idMapping col olds news = Inr m" and "length news = length olds"
  shows "map id' m = map (\<lambda>c. getProp c col) olds" and "length m = length olds"
    and "map newId m = map (\<lambda>c. getProp c col) news"
  using assms by (auto simp: idMapping_def split: if_splits intro: nth_equalityI)

lemma duplicateContent_fails:
  "fst (duplicateContent st db p q) = Inl e \<Longrightarrow> snd (duplicateContent st db p q) = db"
  by (auto simp: duplicateContent_def transaction_def split: sum.splits prod.splits)

lemma returning_rows_Nil [simp]: "returning_rows st table existing [] = []"
  by (simp add: returning_rows_def)

lemma copy_step:
  assumes "await (if length S > 0 then insert_rows st T (map f S) trx else Inr ([], trx))
             (\<lambda>(new, trx). await (idMapping col S new) (\<lambda>m. Inr ((ids, m), trx)))
           = Inr ((ids', m'), trx')"
  shows "trx' = trx\<lparr>tables := (tables trx)(T := tables trx T @
                   returning_rows st T (tables trx T) (map f S))\<rparr>
       \<and> ids' = ids \<and> map id' m' = map (\<lambda>c. getProp c col) S
       \<and> map newId m' = map (\<lambda>c. getProp c col) (returning_rows st T (tables trx T) (map f S))"
proof (cases "S = []")
  case True
  with assms show ?thesis
    by (auto simp: await_Inr idMapping_def)
next
  case False
  with assms obtain new trx1 m where
    ins: "insert_rows st T (map f S) trx = Inr (new, trx1)"
    and idm: "idMapping col S new = Inr m"
    and res: "ids' = ids" "m' = m" "trx' = trx1"
    by (auto simp: await_Inr)
  from insert_rows_Inr [OF ins] have
    new: "new = returning_rows st T (tables trx T) (map f S)"
    and trx1: "trx1 = trx\<lparr>tables := (tables trx)(T := tables trx T @ new)\<rparr>"
    by auto
  have len: "length new = length S"
    by (simp add: new length_returning_rows)
  from idMapping_Inr(1) [OF idm len] idMapping_Inr(3) [OF idm len] res new trx1
  show ?thesis by simp
qed

lemma duplicateSpaces_Inr:
  assumes "duplicateSpaces st previewProject projectId trx = Inr ((spaceIds, spaceMapping), trx')"
  shows "\<exists>ppid. trx' = trx\<lparr>tables := (tables trx)(''spaces'' := tables trx ''spaces'' @
                   returning_rows st ''spaces'' (tables trx ''spaces'')
                     (map (createSpace ppid)
                        (whereEq ''project_id'' (JNum projectId) (tables trx ''spaces''))))\<rparr>
       \<and> (whereEq ''project_id'' (JNum projectId) (tables trx ''spaces'') \<noteq> [] \<longrightarrow>
            (\<exists>pp. previewProject = Some pp \<and> project_id pp = ppid))
       \<and> spaceIds = map (\<lambda>s. getProp s ''space_id'')
                      (whereEq ''project_id'' (JNum projectId) (tables trx ''spaces''))
       \<and> map id' spaceMapping = spaceIds
       \<and> map newId spaceMapping = map (\<lambda>s. getProp s ''space_id'')
             (returning_rows st ''spaces'' (tables trx ''spaces'')
                (map (createSpace ppid)
                   (whereEq ''project_id'' (JNum projectId) (tables trx ''spaces''))))"
proof (cases previewProject)
  case None
  with assms have e: "whereEq ''project_id'' (JNum projectId) (tables trx ''spaces'') = []"
    by (auto simp: duplicateSpaces_def Let_def await_Inr split: if_splits)
  with assms None show ?thesis
    by (auto simp: duplicateSpaces_def Let_def await_Inr idMapping_def)
next
  case (Some pp)
  note cs = copy_step [OF assms [unfolded duplicateSpaces_def Let_def Some option.case]]
  with Some show ?thesis by auto
qed

lemma duplicateSpaceShares_Inr:
  assumes "duplicateSpaceShares st spaceIds spaceMapping trx = Inr (newSpaceShare, trx')"
  shows "trx' = trx\<lparr>tables := (tables trx)(''space_share'' := tables trx ''space_share'' @
                   returning_rows st ''space_share'' (tables trx ''space_share'')
                     (map (createSpaceShare spaceMapping)
                        (whereIn ''space_id'' spaceIds (tables trx ''space_share''))))\<rparr>"
  using assms
  by (auto simp: duplicateSpaceShares_def Let_def split: if_splits dest: insert_rows_Inr)

lemma duplicateCharts_Inr:
  assumes "duplicateCharts st projectId spaceMapping trx = Inr ((chartIds, chartMapping), trx')"
  shows "trx' = trx\<lparr>tables := (tables trx)(''saved_queries'' := tables trx ''saved_queries'' @
                   returning_rows st ''saved_queries'' (tables trx ''saved_queries'')
                     (map (createChart spaceMapping)
                        (joinSpacesWhereProject (tables trx ''saved_queries'')
                           (tables trx ''spaces'') (JNum projectId))))\<rparr>
       \<and> chartIds = map (\<lambda>d. getProp d ''saved_query_id'')
                      (joinSpacesWhereProject (tables trx ''saved_queries'')
                         (tables trx ''spaces'') (JNum projectId))
       \<and> map id' chartMapping = chartIds
       \<and> map newId chartMapping = map (\<lambda>d. getProp d ''saved_query_id'')
             (returning_rows st ''saved_queries'' (tables trx ''saved_queries'')
                (map (createChart spaceMapping)
                   (joinSpacesWhereProject (tables trx ''saved_queries'')
                      (tables trx ''spaces'') (JNum projectId))))"
  using copy_step [OF assms [unfolded duplicateCharts_def Let_def]] by simp

lemma duplicateChartVersions_Inr:
  assumes "duplicateChartVersions st chartIds chartMapping trx
             = Inr ((chartVersionIds, chartVersionMapping), trx')"
  shows "trx' = trx\<lparr>tables := (tables trx)(''saved_queries_versions'' :=
                   tables trx ''saved_queries_versions'' @
                   returning_rows st ''saved_queries_versions'' (tables trx ''saved_queries_versions'')
                     (map (createChartVersion chartMapping)
                        (chartVersions_of chartIds (tables trx ''saved_queries_versions''))))\<rparr>
       \<and> chartVersionIds = map (\<lambda>d. getProp d ''saved_queries_version_id'')
                      (chartVersions_of chartIds (tables trx ''saved_queries_versions''))
       \<and> map id' chartVersionMapping = chartVersionIds
       \<and> map newId chartVersionMapping = map (\<lambda>d. getProp d ''saved_queries_version_id'')
             (returning_rows st ''saved_queries_versions'' (tables trx ''saved_queries_versions'')
                (map (createChartVersion chartMapping)
                   (chartVersions_of chartIds (tables trx ''saved_queries_versions''))))"
  using copy_step [OF assms [unfolded duplicateChartVersions_def Let_def]] by simp

lemma copyChartVersionContent_Inr:
  assumes "copyChartVersionContent st chartVersionIds chartVersionMapping table fieldId trx
             = Inr (res, trx')"
  shows "trx' = trx\<lparr>tables := (tables trx)(table := tables trx table @
                   returning_rows st table (tables trx table)
                     (map (createContent chartVersionMapping fieldId)
                        (whereIn ''saved_queries_version_id'' chartVersionIds (tables trx table))))\<rparr>"
  using assms
  by (auto simp: copyChartVersionContent_def Let_def await_Inr split: if_splits
      dest: insert_rows_Inr)

lemma duplicateDashboards_Inr:
  assumes "duplicateDashboards st projectId spaceMapping trx
             = Inr ((dashboardIds, dashboardMapping), trx')"
  shows "trx' = trx\<lparr>tables := (tables trx)(''dashboards'' := tables trx ''dashboards'' @
                   returning_rows st ''dashboards'' (tables trx ''dashboards'')
                     (map (createDashboard spaceMapping)
                        (joinSpacesWhereProject (tables trx ''dashboards'')
                           (tables trx ''spaces'') (JNum projectId))))\<rparr>
       \<and> dashboardIds = map (\<lambda>d. getProp d ''dashboard_id'')
                      (joinSpacesWhereProject (tables trx ''dashboards'')
                         (tables trx ''spaces'') (JNum projectId))
       \<and> map id' dashboardMapping = dashboardIds
       \<and> map newId dashboardMapping = map (\<lambda>d. getProp d ''dashboard_id'')
             (returning_rows st ''dashboards'' (tables trx ''dashboards'')
                (map (createDashboard spaceMapping)
                   (joinSpacesWhereProject (tables trx ''dashboards'')
                      (tables trx ''spaces'') (JNum projectId))))"
  using copy_step [OF assms [unfolded duplicateDashboards_def Let_def]] by simp

lemma duplicateDashboardVersions_Inr:
  assumes "duplicateDashboardVersions st dashboardIds dashboardMapping trx
             = Inr ((dashboardVersionIds, dashboardVersionsMapping), trx')"
  shows "trx' = trx\<lparr>tables := (tables trx)(''dashboard_versions'' :=
                   tables trx ''dashboard_versions'' @
                   returning_rows st ''dashboard_versions'' (tables trx ''dashboard_versions'')
                     (map (createDashboardVersion dashboardMapping)
                        (whereIn ''dashboard_version_id'' dashboardVersionIds
                           (tables trx ''dashboard_versions''))))\<rparr>
       \<and> dashboardVersionIds =
           lastDashboardVersionsIds dashboardIds (tables trx ''dashboard_versions'')
       \<and> map id' dashboardVersionsMapping = map (\<lambda>d. getProp d ''dashboard_version_id'')
                      (whereIn ''dashboard_version_id'' dashboardVersionIds
                         (tables trx ''dashboard_versions''))
       \<and> map newId dashboardVersionsMapping = map (\<lambda>d. getProp d ''dashboard_version_id'')
             (returning_rows st ''dashboard_versions'' (tables trx ''dashboard_versions'')
                (map (createDashboardVersion dashboardMapping)
                   (whereIn ''dashboard_version_id'' dashboardVersionIds
                      (tables trx ''dashboard_versions''))))"
  using copy_step [OF assms [unfolded duplicateDashboardVersions_def Let_def]] by simp

lemma duplicateDashboardTiles_Inr:
  assumes "duplicateDashboardTiles st dashboardVersionIds dashboardVersionsMapping trx
             = Inr ((dashboardTileUuids, dashboardTilesMapping), trx')"
  shows "trx' = trx\<lparr>tables := (tables trx)(''dashboard_tiles'' := tables trx ''dashboard_tiles'' @
                   returning_rows st ''dashboard_tiles'' (tables trx ''dashboard_tiles'')
                     (map (createDashboardTile dashboardVersionsMapping)
                        (whereIn ''dashboard_version_id'' dashboardVersionIds
                           (tables trx ''dashboard_tiles''))))\<rparr>
       \<and> dashboardTileUuids = map (\<lambda>dv. getProp dv ''dashboard_tile_uuid'')
                      (whereIn ''dashboard_version_id'' dashboardVersionIds
                         (tables trx ''dashboard_tiles''))
       \<and> map id' dashboardTilesMapping = dashboardTileUuids
       \<and> map newId dashboardTilesMapping = map (\<lambda>dv. getProp dv ''dashboard_tile_uuid'')
             (returning_rows st ''dashboard_tiles'' (tables trx ''dashboard_tiles'')
                (map (createDashboardTile dashboardVersionsMapping)
                   (whereIn ''dashboard_version_id'' dashboardVersionIds
                      (tables trx ''dashboard_tiles''))))"
  using copy_step [OF assms [unfolded duplicateDashboardTiles_def Let_def]] by simp

lemma copyDashboardTileContent_Inr:
  assumes "copyDashboardTileContent st dashboardTileUuids dashboardVersionIds chartMapping
             dashboardVersionsMapping dashboardTilesMapping table trx = Inr (res, trx')"
  shows "trx' = trx\<lparr>tables := (tables trx)(table := tables trx table @
                   returning_rows st table (tables trx table)
                     (map (createTileContent chartMapping dashboardVersionsMapping
                             dashboardTilesMapping)
                        (whereIn ''dashboard_version_id'' dashboardVersionIds
                           (whereIn ''dashboard_tile_uuid'' dashboardTileUuids
                              (tables trx table)))))\<rparr>"
  using assms
  by (auto simp: copyDashboardTileContent_def Let_def await_Inr split: if_splits
      dest: insert_rows_Inr)

lemma insertPreviewContent_Inr:
  assumes "insertPreviewContent st p q m trx = Inr (u, trx')"
  shows "trx' = trx\<lparr>preview_content_table := preview_content_table trx @
           [\<lparr>pc_project_uuid = p, preview_project_uuid = q, content_mapping = m\<rparr>]\<rparr>"
  using assms by (auto simp: insertPreviewContent_def split: option.splits)


subsection \<open>The database after a successful call\<close>

lemma duplicateContent_success:
  assumes ok: "fst (duplicateContent st db p q) = Inr ()"
  obtains proj ppid sm cm cvm dm dvm tm nSp nSh nCh nCv nC1 nC2 nC3 nC4 nD nDv nT nT1 nT2 nT3 where
    "first [x \<leftarrow> projects_table db. project_uuid x = p] = Some proj"
    "snd (duplicateContent st db p q) =
     db\<lparr>tables := (tables db)
         (''spaces'' := tables db ''spaces'' @ nSp,
          ''space_share'' := tables db ''space_share'' @ nSh,
          ''saved_queries'' := tables db ''saved_queries'' @ nCh,
          ''saved_queries_versions'' := tables db ''saved_queries_versions'' @ nCv,
          ''saved_queries_version_table_calculations'' := tables db ''saved_queries_version_table_calculations'' @ nC1,
          ''saved_queries_version_sorts'' := tables db ''saved_queries_version_sorts'' @ nC2,
          ''saved_queries_version_fields'' := tables db ''saved_queries_version_fields'' @ nC3,
          ''saved_queries_version_additional_metrics'' := tables db ''saved_queries_version_additional_metrics'' @ nC4,
          ''dashboards'' := tables db ''dashboards'' @ nD,
          ''dashboard_versions'' := tables db ''dashboard_versions'' @ nDv,
          ''dashboard_tiles'' := tables db ''dashboard_tiles'' @ nT,
          ''dashboard_tile_charts'' := tables db ''dashboard_tile_charts'' @ nT1,
          ''dashboard_tile_looms'' := tables db ''dashboard_tile_looms'' @ nT2,
          ''dashboard_tile_markdowns'' := tables db ''dashboard_tile_markdowns'' @ nT3),
       preview_content_table := preview_content_table db @
         [\<lparr>pc_project_uuid = p, preview_project_uuid = q,
           content_mapping = \<lparr>charts = cm, chartVersions = cvm, spaces = sm, dashboards = dm, dashboardVersions = dvm\<rparr>\<rparr>]\<rparr>"
    "whereEq ''project_id'' (JNum (project_id proj)) (tables db ''spaces'') \<noteq> [] \<Longrightarrow>
       \<exists>pp. first [x \<leftarrow> projects_table db. project_uuid x = q] = Some pp \<and> project_id pp = ppid"
    "nSp = returning_rows st ''spaces'' (tables db ''spaces'')
       (map (createSpace ppid) (whereEq ''project_id'' (JNum (project_id proj)) (tables db ''spaces'')))"
    "nSh = returning_rows st ''space_share'' (tables db ''space_share'')
       (map (createSpaceShare sm) (whereIn ''space_id'' (map id' sm) (tables db ''space_share'')))"
    "nCh = returning_rows st ''saved_queries'' (tables db ''saved_queries'')
       (map (createChart sm) (joinSpacesWhereProject (tables db ''saved_queries'') (tables db ''spaces'' @ nSp) (JNum (project_id proj))))"
    "nCv = returning_rows st ''saved_queries_versions'' (tables db ''saved_queries_versions'')
       (map (createChartVersion cm) (chartVersions_of (map id' cm) (tables db ''saved_queries_versions'')))"
    "nC1 = returning_rows st ''saved_queries_version_table_calculations'' (tables db ''saved_queries_version_table_calculations'')
       (map (createContent cvm ''saved_queries_version_table_calculation_id'') (whereIn ''saved_queries_version_id'' (map id' cvm) (tables db ''saved_queries_version_table_calculations'')))"
    "nC2 = returning_rows st ''saved_queries_version_sorts'' (tables db ''saved_queries_version_sorts'')
       (map (createContent cvm ''saved_queries_version_sort_id'') (whereIn ''saved_queries_version_id'' (map id' cvm) (tables db ''saved_queries_version_sorts'')))"
    "nC3 = returning_rows st ''saved_queries_version_fields'' (tables db ''saved_queries_version_fields'')
       (map (createContent cvm ''saved_queries_version_field_id'') (whereIn ''saved_queries_version_id'' (map id' cvm) (tables db ''saved_queries_version_fields'')))"
    "nC4 = returning_rows st ''saved_queries_version_additional_metrics'' (tables db ''saved_queries_version_additional_metrics'')
       (map (createContent cvm ''saved_queries_version_additional_metric_id'') (whereIn ''saved_queries_version_id'' (map id' cvm) (tables db ''saved_queries_version_additional_metrics'')))"
    "nD = returning_rows st ''dashboards'' (tables db ''dashboards'')
       (map (createDashboard sm) (joinSpacesWhereProject (tables db ''dashboards'') (tables db ''spaces'' @ nSp) (JNum (project_id proj))))"
    "nDv = returning_rows st ''dashboard_versions'' (tables db ''dashboard_versions'')
       (map (createDashboardVersion dm) (whereIn ''dashboard_version_id'' (lastDashboardVersionsIds (map id' dm) (tables db ''dashboard_versions'')) (tables db ''dashboard_versions'')))"
    "nT = returning_rows st ''dashboard_tiles'' (tables db ''dashboard_tiles'')
       (map (createDashboardTile dvm) (whereIn ''dashboard_version_id'' (lastDashboardVersionsIds (map id' dm) (tables db ''dashboard_versions'')) (tables db ''dashboard_tiles'')))"
    "nT1 = returning_rows st ''dashboard_tile_charts'' (tables db ''dashboard_tile_charts'')
       (map (createTileContent cm dvm tm) (whereIn ''dashboard_version_id'' (lastDashboardVersionsIds (map id' dm) (tables db ''dashboard_versions'')) (whereIn ''dashboard_tile_uuid'' (map id' tm) (tables db ''dashboard_tile_charts''))))"
    "nT2 = returning_rows st ''dashboard_tile_looms'' (tables db ''dashboard_tile_looms'')
       (map (createTileContent cm dvm tm) (whereIn ''dashboard_version_id'' (lastDashboardVersionsIds (map id' dm) (tables db ''dashboard_versions'')) (whereIn ''dashboard_tile_uuid'' (map id' tm) (tables db ''dashboard_tile_looms''))))"
    "nT3 = returning_rows st ''dashboard_tile_markdowns'' (tables db ''dashboard_tile_markdowns'')
       (map (createTileContent cm dvm tm) (whereIn ''dashboard_version_id'' (lastDashboardVersionsIds (map id' dm) (tables db ''dashboard_versions'')) (whereIn ''dashboard_tile_uuid'' (map id' tm) (tables db ''dashboard_tile_markdowns''))))"
    "map id' sm = map (\<lambda>s. getProp s ''space_id'') (whereEq ''project_id'' (JNum (project_id proj)) (tables db ''spaces''))"
    "map id' cm = map (\<lambda>d. getProp d ''saved_query_id'') (joinSpacesWhereProject (tables db ''saved_queries'') (tables db ''spaces'' @ nSp) (JNum (project_id proj)))"
    "map id' cvm = map (\<lambda>d. getProp d ''saved_queries_version_id'') (chartVersions_of (map id' cm) (tables db ''saved_queries_versions''))"
    "map id' dm = map (\<lambda>d. getProp d ''dashboard_id'') (joinSpacesWhereProject (tables db ''dashboards'') (tables db ''spaces'' @ nSp) (JNum (project_id proj)))"
    "map id' dvm = map (\<lambda>d. getProp d ''dashboard_version_id'') (whereIn ''dashboard_version_id'' (lastDashboardVersionsIds (map id' dm) (tables db ''dashboard_versions'')) (tables db ''dashboard_versions''))"
    "map id' tm = map (\<lambda>dv. getProp dv ''dashboard_tile_uuid'') (whereIn ''dashboard_version_id'' (lastDashboardVersionsIds (map id' dm) (tables db ''dashboard_versions'')) (tables db ''dashboard_tiles''))"
    "map newId sm = map (\<lambda>s. getProp s ''space_id'') nSp"
    "map newId cm = map (\<lambda>d. getProp d ''saved_query_id'') nCh"
    "map newId cvm = map (\<lambda>d. getProp d ''saved_queries_version_id'') nCv"
    "map newId dm = map (\<lambda>d. getProp d ''dashboard_id'') nD"
    "map newId dvm = map (\<lambda>d. getProp d ''dashboard_version_id'') nDv"
    "map newId tm = map (\<lambda>dv. getProp dv ''dashboard_tile_uuid'') nT"
proof -
  from ok obtain trxF where cb: "duplicateContent_callback st p q db = Inr ((), trxF)"
    and res: "snd (duplicateContent st db p q) = trxF"
    by (auto simp: duplicateContent_def transaction_def split: sum.splits prod.splits)
  from cb obtain proj where proj: "first [x \<leftarrow> projects_table db. project_uuid x = p] = Some proj"
    by (auto simp: duplicateContent_callback_def Let_def split: option.splits)
  note r0 = cb [unfolded duplicateContent_callback_def Let_def proj option.case]
  from r0 obtain spaceIds sm trx1 newSpaceShare trx2 chartIds cm trx3 chartVersionIds cvm trx4
      c1 trx5 c2 trx6 c3 trx7 c4 trx8 dashboardIds dm trx9 dashboardVersionIds dvm trx10
      dashboardTileUuids tm trx11 t1 trx12 t2 trx13 t3 trx14 where
    s1: "duplicateSpaces st (first [x \<leftarrow> projects_table db. project_uuid x = q]) (project_id proj) db
           = Inr ((spaceIds, sm), trx1)"
    and s2: "duplicateSpaceShares st spaceIds sm trx1 = Inr (newSpaceShare, trx2)"
    and s3: "duplicateCharts st (project_id proj) sm trx2 = Inr ((chartIds, cm), trx3)"
    and s4: "duplicateChartVersions st chartIds cm trx3 = Inr ((chartVersionIds, cvm), trx4)"
    and s5: "copyChartVersionContent st chartVersionIds cvm
               ''saved_queries_version_table_calculations''
               ''saved_queries_version_table_calculation_id'' trx4 = Inr (c1, trx5)"
    and s6: "copyChartVersionContent st chartVersionIds cvm
               ''saved_queries_version_sorts''
               ''saved_queries_version_sort_id'' trx5 = Inr (c2, trx6)"
    and s7: "copyChartVersionContent st chartVersionIds cvm
               ''saved_queries_version_fields''
               ''saved_queries_version_field_id'' trx6 = Inr (c3, trx7)"
    and s8: "copyChartVersionContent st chartVersionIds cvm
               ''saved_queries_version_additional_metrics''
               ''saved_queries_version_additional_metric_id'' trx7 = Inr (c4, trx8)"
    and s9: "duplicateDashboards st (project_id proj) sm trx8 = Inr ((dashboardIds, dm), trx9)"
    and s10: "duplicateDashboardVersions st dashboardIds dm trx9
                = Inr ((dashboardVersionIds, dvm), trx10)"
    and s11: "duplicateDashboardTiles st dashboardVersionIds dvm trx10
                = Inr ((dashboardTileUuids, tm), trx11)"
    and s12: "copyDashboardTileContent st dashboardTileUuids dashboardVersionIds cm dvm tm
                ''dashboard_tile_charts'' trx11 = Inr (t1, trx12)"
    and s13: "copyDashboardTileContent st dashboardTileUuids dashboardVersionIds cm dvm tm
                ''dashboard_tile_looms'' trx12 = Inr (t2, trx13)"
    and s14: "copyDashboardTileContent st dashboardTileUuids dashboardVersionIds cm dvm tm
                ''dashboard_tile_markdowns'' trx13 = Inr (t3, trx14)"
    and s15: "insertPreviewContent st p q
                \<lparr>charts = cm, chartVersions = cvm, spaces = sm, dashboards = dm,
                 dashboardVersions = dvm\<rparr> trx14 = Inr ((), trxF)"
    by (auto simp: await_Inr)
  from duplicateSpaces_Inr [OF s1] obtain ppid where
    e1: "trx1 = db\<lparr>tables := (tables db)(''spaces'' := tables db ''spaces'' @
                   returning_rows st ''spaces'' (tables db ''spaces'')
                     (map (createSpace ppid) (whereEq ''project_id'' (JNum (project_id proj)) (tables db ''spaces''))))\<rparr>"
    and pp: "whereEq ''project_id'' (JNum (project_id proj)) (tables db ''spaces'') \<noteq> [] \<longrightarrow>
       (\<exists>pp. first [x \<leftarrow> projects_table db. project_uuid x = q] = Some pp \<and> project_id pp = ppid)"
    and i1: "spaceIds = map (\<lambda>s. getProp s ''space_id'') (whereEq ''project_id'' (JNum (project_id proj)) (tables db ''spaces''))"
    and m1: "map id' sm = spaceIds"
    and n1: "map newId sm = map (\<lambda>s. getProp s ''space_id'')
               (returning_rows st ''spaces'' (tables db ''spaces'')
                  (map (createSpace ppid) (whereEq ''project_id'' (JNum (project_id proj)) (tables db ''spaces''))))"
    by blast
  define nSp where "nSp = returning_rows st ''spaces'' (tables db ''spaces'')
       (map (createSpace ppid) (whereEq ''project_id'' (JNum (project_id proj)) (tables db ''spaces'')))"
  have t1: "trx1 = db\<lparr>tables := (tables db)(''spaces'' := tables db ''spaces'' @ nSp)\<rparr>"
    using e1 by (simp add: nSp_def)
  have sm: "map id' sm = map (\<lambda>s. getProp s ''space_id'') (whereEq ''project_id'' (JNum (project_id proj)) (tables db ''spaces''))"
    using i1 m1 by simp
  have ids1: "spaceIds = map id' sm"
    using m1 by simp
  have smN: "map newId sm = map (\<lambda>s. getProp s ''space_id'') nSp"
    using n1 by (simp add: nSp_def)
  have rd2_0: "tables trx1 ''space_share'' = tables db ''space_share''"
    by (simp add: t1)
  define nSh where "nSh = returning_rows st ''space_share'' (tables db ''space_share'')
       (map (createSpaceShare sm) (whereIn ''space_id'' (map id' sm) (tables db ''space_share'')))"
  note e2 = duplicateSpaceShares_Inr [OF s2, unfolded rd2_0 ids1]
  have t2: "trx2 = db\<lparr>tables := (tables db)
         (''spaces'' := tables db ''spaces'' @ nSp,
          ''space_share'' := tables db ''space_share'' @ nSh)\<rparr>"
    using e2 by (simp add: t1 nSh_def)
  have rd3_0: "tables trx2 ''saved_queries'' = tables db ''saved_queries''"
    by (simp add: t2)
  have rd3_1: "tables trx2 ''spaces'' = tables db ''spaces'' @ nSp"
    by (simp add: t2)
  define nCh where "nCh = returning_rows st ''saved_queries'' (tables db ''saved_queries'')
       (map (createChart sm) (joinSpacesWhereProject (tables db ''saved_queries'') (tables db ''spaces'' @ nSp) (JNum (project_id proj))))"
  note e3 = duplicateCharts_Inr [OF s3, unfolded rd3_0 rd3_1 ]
  have t3: "trx3 = db\<lparr>tables := (tables db)
         (''spaces'' := tables db ''spaces'' @ nSp,
          ''space_share'' := tables db ''space_share'' @ nSh,
          ''saved_queries'' := tables db ''saved_queries'' @ nCh)\<rparr>"
    using e3 by (simp add: t2 nCh_def)
  have cm: "map id' cm = map (\<lambda>d. getProp d ''saved_query_id'') (joinSpacesWhereProject (tables db ''saved_queries'') (tables db ''spaces'' @ nSp) (JNum (project_id proj)))"
    using e3 by simp
  have ids3: "chartIds = map id' cm"
    using e3 by simp
  have cmN: "map newId cm = map (\<lambda>d. getProp d ''saved_query_id'') nCh"
    using e3 by (simp add: nCh_def)
  have rd4_0: "tables trx3 ''saved_queries_versions'' = tables db ''saved_queries_versions''"
    by (simp add: t3)
  define nCv where "nCv = returning_rows st ''saved_queries_versions'' (tables db ''saved_queries_versions'')
       (map (createChartVersion cm) (chartVersions_of (map id' cm) (tables db ''saved_queries_versions'')))"
  note e4 = duplicateChartVersions_Inr [OF s4, unfolded rd4_0 ids3]
  have t4: "trx4 = db\<lparr>tables := (tables db)
         (''spaces'' := tables db ''spaces'' @ nSp,
          ''space_share'' := tables db ''space_share'' @ nSh,
          ''saved_queries'' := tables db ''saved_queries'' @ nCh,
          ''saved_queries_versions'' := tables db ''saved_queries_versions'' @ nCv)\<rparr>"
    using e4 by (simp add: t3 nCv_def)
  have cvm: "map id' cvm = map (\<lambda>d. getProp d ''saved_queries_version_id'') (chartVersions_of (map id' cm) (tables db ''saved_queries_versions''))"
    using e4 by simp
  have ids4: "chartVersionIds = map id' cvm"
    using e4 by simp
  have cvmN: "map newId cvm = map (\<lambda>d. getProp d ''saved_queries_version_id'') nCv"
    using e4 by (simp add: nCv_def)
  have rd5_0: "tables trx4 ''saved_queries_version_table_calculations'' = tables db ''saved_queries_version_table_calculations''"
    by (simp add: t4)
  define nC1 where "nC1 = returning_rows st ''saved_queries_version_table_calculations'' (tables db ''saved_queries_version_table_calculations'')
       (map (createContent cvm ''saved_queries_version_table_calculation_id'') (whereIn ''saved_queries_version_id'' (map id' cvm) (tables db ''saved_queries_version_table_calculations'')))"
  note e5 = copyChartVersionContent_Inr [OF s5, unfolded rd5_0 ids4]
  have t5: "trx5 = db\<lparr>tables := (tables db)
         (''spaces'' := tables db ''spaces'' @ nSp,
          ''space_share'' := tables db ''space_share'' @ nSh,
          ''saved_queries'' := tables db ''saved_queries'' @ nCh,
          ''saved_queries_versions'' := tables db ''saved_queries_versions'' @ nCv,
          ''saved_queries_version_table_calculations'' := tables db ''saved_queries_version_table_calculations'' @ nC1)\<rparr>"
    using e5 by (simp add: t4 nC1_def)
  have rd6_0: "tables trx5 ''saved_queries_version_sorts'' = tables db ''saved_queries_version_sorts''"
    by (simp add: t5)
  define nC2 where "nC2 = returning_rows st ''saved_queries_version_sorts'' (tables db ''saved_queries_version_sorts'')
       (map (createContent cvm ''saved_queries_version_sort_id'') (whereIn ''saved_queries_version_id'' (map id' cvm) (tables db ''saved_queries_version_sorts'')))"
  note e6 = copyChartVersionContent_Inr [OF s6, unfolded rd6_0 ids4]
  have t6: "trx6 = db\<lparr>tables := (tables db)
         (''spaces'' := tables db ''spaces'' @ nSp,
          ''space_share'' := tables db ''space_share'' @ nSh,
          ''saved_queries'' := tables db ''saved_queries'' @ nCh,
          ''saved_queries_versions'' := tables db ''saved_queries_versions'' @ nCv,
          ''saved_queries_version_table_calculations'' := tables db ''saved_queries_version_table_calculations'' @ nC1,
          ''saved_queries_version_sorts'' := tables db ''saved_queries_version_sorts'' @ nC2)\<rparr>"
    using e6 by (simp add: t5 nC2_def)
  have rd7_0: "tables trx6 ''saved_queries_version_fields'' = tables db ''saved_queries_version_fields''"
    by (simp add: t6)
  define nC3 where "nC3 = returning_rows st ''saved_queries_version_fields'' (tables db ''saved_queries_version_fields'')
       (map (createContent cvm ''saved_queries_version_field_id'') (whereIn ''saved_queries_version_id'' (map id' cvm) (tables db ''saved_queries_version_fields'')))"
  note e7 = copyChartVersionContent_Inr [OF s7, unfolded rd7_0 ids4]
  have t7: "trx7 = db\<lparr>tables := (tables db)
         (''spaces'' := tables db ''spaces'' @ nSp,
          ''space_share'' := tables db ''space_share'' @ nSh,
          ''saved_queries'' := tables db ''saved_queries'' @ nCh,
          ''saved_queries_versions'' := tables db ''saved_queries_versions'' @ nCv,
          ''saved_queries_version_table_calculations'' := tables db ''saved_queries_version_table_calculations'' @ nC1,
          ''saved_queries_version_sorts'' := tables db ''saved_queries_version_sorts'' @ nC2,
          ''saved_queries_version_fields'' := tables db ''saved_queries_version_fields'' @ nC3)\<rparr>"
    using e7 by (simp add: t6 nC3_def)
  have rd8_0: "tables trx7 ''saved_queries_version_additional_metrics'' = tables db ''saved_queries_version_additional_metrics''"
    by (simp add: t7)
  define nC4 where "nC4 = returning_rows st ''saved_queries_version_additional_metrics'' (tables db ''saved_queries_version_additional_metrics'')
       (map (createContent cvm ''saved_queries_version_additional_metric_id'') (whereIn ''saved_queries_version_id'' (map id' cvm) (tables db ''saved_queries_version_additional_metrics'')))"
  note e8 = copyChartVersionContent_Inr [OF s8, unfolded rd8_0 ids4]
  have t8: "trx8 = db\<lparr>tables := (tables db)
         (''spaces'' := tables db ''spaces'' @ nSp,
          ''space_share'' := tables db ''space_share'' @ nSh,
          ''saved_queries'' := tables db ''saved_queries'' @ nCh,
          ''saved_queries_versions'' := tables db ''saved_queries_versions'' @ nCv,
          ''saved_queries_version_table_calculations'' := tables db ''saved_queries_version_table_calculations'' @ nC1,
          ''saved_queries_version_sorts'' := tables db ''saved_queries_version_sorts'' @ nC2,
          ''saved_queries_version_fields'' := tables db ''saved_queries_version_fields'' @ nC3,
          ''saved_queries_version_additional_metrics'' := tables db ''saved_queries_version_additional_metrics'' @ nC4)\<rparr>"
    using e8 by (simp add: t7 nC4_def)
  have rd9_0: "tables trx8 ''dashboards'' = tables db ''dashboards''"
    by (simp add: t8)
  have rd9_1: "tables trx8 ''spaces'' = tables db ''spaces'' @ nSp"
    by (simp add: t8)
  define nD where "nD = returning_rows st ''dashboards'' (tables db ''dashboards'')
       (map (createDashboard sm) (joinSpacesWhereProject (tables db ''dashboards'') (tables db ''spaces'' @ nSp) (JNum (project_id proj))))"
  note e9 = duplicateDashboards_Inr [OF s9, unfolded rd9_0 rd9_1 ]
  have t9: "trx9 = db\<lparr>tables := (tables db)
         (''spaces'' := tables db ''spaces'' @ nSp,
          ''space_share'' := tables db ''space_share'' @ nSh,
          ''saved_queries'' := tables db ''saved_queries'' @ nCh,
          ''saved_queries_versions'' := tables db ''saved_queries_versions'' @ nCv,
          ''saved_queries_version_table_calculations'' := tables db ''saved_queries_version_table_calculations'' @ nC1,
          ''saved_queries_version_sorts'' := tables db ''saved_queries_version_sorts'' @ nC2,
          ''saved_queries_version_fields'' := tables db ''saved_queries_version_fields'' @ nC3,
          ''saved_queries_version_additional_metrics'' := tables db ''saved_queries_version_additional_metrics'' @ nC4,
          ''dashboards'' := tables db ''dashboards'' @ nD)\<rparr>"
    using e9 by (simp add: t8 nD_def)
  have dm: "map id' dm = map (\<lambda>d. getProp d ''dashboard_id'') (joinSpacesWhereProject (tables db ''dashboards'') (tables db ''spaces'' @ nSp) (JNum (project_id proj)))"
    using e9 by simp
  have ids9: "dashboardIds = map id' dm"
    using e9 by simp
  have dmN: "map newId dm = map (\<lambda>d. getProp d ''dashboard_id'') nD"
    using e9 by (simp add: nD_def)
  have rd10_0: "tables trx9 ''dashboard_versions'' = tables db ''dashboard_versions''"
    by (simp add: t9)
  note e10 = duplicateDashboardVersions_Inr [OF s10, unfolded rd10_0 ids9]
  have ids10: "dashboardVersionIds = lastDashboardVersionsIds (map id' dm) (tables db ''dashboard_versions'')"
    using e10 by simp
  define nDv where "nDv = returning_rows st ''dashboard_versions'' (tables db ''dashboard_versions'')
       (map (createDashboardVersion dm) (whereIn ''dashboard_version_id'' (lastDashboardVersionsIds (map id' dm) (tables db ''dashboard_versions'')) (tables db ''dashboard_versions'')))"
  have t10: "trx10 = db\<lparr>tables := (tables db)
         (''spaces'' := tables db ''spaces'' @ nSp,
          ''space_share'' := tables db ''space_share'' @ nSh,
          ''saved_queries'' := tables db ''saved_queries'' @ nCh,
          ''saved_queries_versions'' := tables db ''saved_queries_versions'' @ nCv,
          ''saved_queries_version_table_calculations'' := tables db ''saved_queries_version_table_calculations'' @ nC1,
          ''saved_queries_version_sorts'' := tables db ''saved_queries_version_sorts'' @ nC2,
          ''saved_queries_version_fields'' := tables db ''saved_queries_version_fields'' @ nC3,
          ''saved_queries_version_additional_metrics'' := tables db ''saved_queries_version_additional_metrics'' @ nC4,
          ''dashboards'' := tables db ''dashboards'' @ nD,
          ''dashboard_versions'' := tables db ''dashboard_versions'' @ nDv)\<rparr>"
    using e10 by (simp add: t9 nDv_def)
  have dvm: "map id' dvm = map (\<lambda>d. getProp d ''dashboard_version_id'') (whereIn ''dashboard_version_id'' (lastDashboardVersionsIds (map id' dm) (tables db ''dashboard_versions'')) (tables db ''dashboard_versions''))"
    using e10 by simp
  have dvmN: "map newId dvm = map (\<lambda>d. getProp d ''dashboard_version_id'') nDv"
    using e10 by (simp add: nDv_def)
  have rd11_0: "tables trx10 ''dashboard_tiles'' = tables db ''dashboard_tiles''"
    by (simp add: t10)
  define nT where "nT = returning_rows st ''dashboard_tiles'' (tables db ''dashboard_tiles'')
       (map (createDashboardTile dvm) (whereIn ''dashboard_version_id'' (lastDashboardVersionsIds (map id' dm) (tables db ''dashboard_versions'')) (tables db ''dashboard_tiles'')))"
  note e11 = duplicateDashboardTiles_Inr [OF s11, unfolded rd11_0 ids10]
  have t11: "trx11 = db\<lparr>tables := (tables db)
         (''spaces'' := tables db ''spaces'' @ nSp,
          ''space_share'' := tables db ''space_share'' @ nSh,
          ''saved_queries'' := tables db ''saved_queries'' @ nCh,
          ''saved_queries_versions'' := tables db ''saved_queries_versions'' @ nCv,
          ''saved_queries_version_table_calculations'' := tables db ''saved_queries_version_table_calculations'' @ nC1,
          ''saved_queries_version_sorts'' := tables db ''saved_queries_version_sorts'' @ nC2,
          ''saved_queries_version_fields'' := tables db ''saved_queries_version_fields'' @ nC3,
          ''saved_queries_version_additional_metrics'' := tables db ''saved_queries_version_additional_metrics'' @ nC4,
          ''dashboards'' := tables db ''dashboards'' @ nD,
          ''dashboard_versions'' := tables db ''dashboard_versions'' @ nDv,
          ''dashboard_tiles'' := tables db ''dashboard_tiles'' @ nT)\<rparr>"
    using e11 by (simp add: t10 nT_def)
  have tm: "map id' tm = map (\<lambda>dv. getProp dv ''dashboard_tile_uuid'') (whereIn ''dashboard_version_id'' (lastDashboardVersionsIds (map id' dm) (tables db ''dashboard_versions'')) (tables db ''dashboard_tiles''))"
    using e11 by simp
  have ids11: "dashboardTileUuids = map id' tm"
    using e11 by simp
  have tmN: "map newId tm = map (\<lambda>dv. getProp dv ''dashboard_tile_uuid'') nT"
    using e11 by (simp add: nT_def)
  have rd12_0: "tables trx11 ''dashboard_tile_charts'' = tables db ''dashboard_tile_charts''"
    by (simp add: t11)
  define nT1 where "nT1 = returning_rows st ''dashboard_tile_charts'' (tables db ''dashboard_tile_charts'')
       (map (createTileContent cm dvm tm) (whereIn ''dashboard_version_id'' (lastDashboardVersionsIds (map id' dm) (tables db ''dashboard_versions'')) (whereIn ''dashboard_tile_uuid'' (map id' tm) (tables db ''dashboard_tile_charts''))))"
  note e12 = copyDashboardTileContent_Inr [OF s12, unfolded rd12_0 ids10 ids11]
  have t12: "trx12 = db\<lparr>tables := (tables db)
         (''spaces'' := tables db ''spaces'' @ nSp,
          ''space_share'' := tables db ''space_share'' @ nSh,
          ''saved_queries'' := tables db ''saved_queries'' @ nCh,
          ''saved_queries_versions'' := tables db ''saved_queries_versions'' @ nCv,
          ''saved_queries_version_table_calculations'' := tables db ''saved_queries_version_table_calculations'' @ nC1,
          ''saved_queries_version_sorts'' := tables db ''saved_queries_version_sorts'' @ nC2,
          ''saved_queries_version_fields'' := tables db ''saved_queries_version_fields'' @ nC3,
          ''saved_queries_version_additional_metrics'' := tables db ''saved_queries_version_additional_metrics'' @ nC4,
          ''dashboards'' := tables db ''dashboards'' @ nD,
          ''dashboard_versions'' := tables db ''dashboard_versions'' @ nDv,
          ''dashboard_tiles'' := tables db ''dashboard_tiles'' @ nT,
          ''dashboard_tile_charts'' := tables db ''dashboard_tile_charts'' @ nT1)\<rparr>"
    using e12 by (simp add: t11 nT1_def)
  have rd13_0: "tables trx12 ''dashboard_tile_looms'' = tables db ''dashboard_tile_looms''"
    by (simp add: t12)
  define nT2 where "nT2 = returning_rows st ''dashboard_tile_looms'' (tables db ''dashboard_tile_looms'')
       (map (createTileContent cm dvm tm) (whereIn ''dashboard_version_id'' (lastDashboardVersionsIds (map id' dm) (tables db ''dashboard_versions'')) (whereIn ''dashboard_tile_uuid'' (map id' tm) (tables db ''dashboard_tile_looms''))))"
  note e13 = copyDashboardTileContent_Inr [OF s13, unfolded rd13_0 ids10 ids11]
  have t13: "trx13 = db\<lparr>tables := (tables db)
         (''spaces'' := tables db ''spaces'' @ nSp,
          ''space_share'' := tables db ''space_share'' @ nSh,
          ''saved_queries'' := tables db ''saved_queries'' @ nCh,
          ''saved_queries_versions'' := tables db ''saved_queries_versions'' @ nCv,
          ''saved_queries_version_table_calculations'' := tables db ''saved_queries_version_table_calculations'' @ nC1,
          ''saved_queries_version_sorts'' := tables db ''saved_queries_version_sorts'' @ nC2,
          ''saved_queries_version_fields'' := tables db ''saved_queries_version_fields'' @ nC3,
          ''saved_queries_version_additional_metrics'' := tables db ''saved_queries_version_additional_metrics'' @ nC4,
          ''dashboards'' := tables db ''dashboards'' @ nD,
          ''dashboard_versions'' := tables db ''dashboard_versions'' @ nDv,
          ''dashboard_tiles'' := tables db ''dashboard_tiles'' @ nT,
          ''dashboard_tile_charts'' := tables db ''dashboard_tile_charts'' @ nT1,
          ''dashboard_tile_looms'' := tables db ''dashboard_tile_looms'' @ nT2)\<rparr>"
    using e13 by (simp add: t12 nT2_def)
  have rd14_0: "tables trx13 ''dashboard_tile_markdowns'' = tables db ''dashboard_tile_markdowns''"
    by (simp add: t13)
  define nT3 where "nT3 = returning_rows st ''dashboard_tile_markdowns'' (tables db ''dashboard_tile_markdowns'')
       (map (createTileContent cm dvm tm) (whereIn ''dashboard_version_id'' (lastDashboardVersionsIds (map id' dm) (tables db ''dashboard_versions'')) (whereIn ''dashboard_tile_uuid'' (map id' tm) (tables db ''dashboard_tile_markdowns''))))"
  note e14 = copyDashboardTileContent_Inr [OF s14, unfolded rd14_0 ids10 ids11]
  have t14: "trx14 = db\<lparr>tables := (tables db)
         (''spaces'' := tables db ''spaces'' @ nSp,
          ''space_share'' := tables db ''space_share'' @ nSh,
          ''saved_queries'' := tables db ''saved_queries'' @ nCh,
          ''saved_queries_versions'' := tables db ''saved_queries_versions'' @ nCv,
          ''saved_queries_version_table_calculations'' := tables db ''saved_queries_version_table_calculations'' @ nC1,
          ''saved_queries_version_sorts'' := tables db ''saved_queries_version_sorts'' @ nC2,
          ''saved_queries_version_fields'' := tables db ''saved_queries_version_fields'' @ nC3,
          ''saved_queries_version_additional_metrics'' := tables db ''saved_queries_version_additional_metrics'' @ nC4,
          ''dashboards'' := tables db ''dashboards'' @ nD,
          ''dashboard_versions'' := tables db ''dashboard_versions'' @ nDv,
          ''dashboard_tiles'' := tables db ''dashboard_tiles'' @ nT,
          ''dashboard_tile_charts'' := tables db ''dashboard_tile_charts'' @ nT1,
          ''dashboard_tile_looms'' := tables db ''dashboard_tile_looms'' @ nT2,
          ''dashboard_tile_markdowns'' := tables db ''dashboard_tile_markdowns'' @ nT3)\<rparr>"
    using e14 by (simp add: t13 nT3_def)
  have pp': "whereEq ''project_id'' (JNum (project_id proj)) (tables db ''spaces'') \<noteq> [] \<Longrightarrow>
       \<exists>pp. first [x \<leftarrow> projects_table db. project_uuid x = q] = Some pp \<and> project_id pp = ppid"
    using pp by simp
  have final: "snd (duplicateContent st db p q) =
     db\<lparr>tables := (tables db)
         (''spaces'' := tables db ''spaces'' @ nSp,
          ''space_share'' := tables db ''space_share'' @ nSh,
          ''saved_queries'' := tables db ''saved_queries'' @ nCh,
          ''saved_queries_versions'' := tables db ''saved_queries_versions'' @ nCv,
          ''saved_queries_version_table_calculations'' := tables db ''saved_queries_version_table_calculations'' @ nC1,
          ''saved_queries_version_sorts'' := tables db ''saved_queries_version_sorts'' @ nC2,
          ''saved_queries_version_fields'' := tables db ''saved_queries_version_fields'' @ nC3,
          ''saved_queries_version_additional_metrics'' := tables db ''saved_queries_version_additional_metrics'' @ nC4,
          ''dashboards'' := tables db ''dashboards'' @ nD,
          ''dashboard_versions'' := tables db ''dashboard_versions'' @ nDv,
          ''dashboard_tiles'' := tables db ''dashboard_tiles'' @ nT,
          ''dashboard_tile_charts'' := tables db ''dashboard_tile_charts'' @ nT1,
          ''dashboard_tile_looms'' := tables db ''dashboard_tile_looms'' @ nT2,
          ''dashboard_tile_markdowns'' := tables db ''dashboard_tile_markdowns'' @ nT3),
       preview_content_table := preview_content_table db @
         [\<lparr>pc_project_uuid = p, preview_project_uuid = q,
           content_mapping = \<lparr>charts = cm, chartVersions = cvm, spaces = sm, dashboards = dm, dashboardVersions = dvm\<rparr>\<rparr>]\<rparr>"
    using insertPreviewContent_Inr [OF s15] by (simp add: res t14)
  show thesis
    by (rule that [OF proj final pp' nSp_def nSh_def nCh_def nCv_def nC1_def nC2_def nC3_def nC4_def nD_def nDv_def nT_def nT1_def nT2_def nT3_def sm cm cvm dm dvm tm
        smN cmN cvmN dmN dvmN tmN])
qed


subsection \<open>An absent source project\<close>

text \<open>
  Claim C10.  When no project row has the source uuid, \<^verbatim>\<open>duplicateContent\<close> rejects with
  the \<^verbatim>\<open>TypeError\<close> of reading \<^verbatim>\<open>project_id\<close> of \<^verbatim>\<open>undefined\<close>: it neither raises the
  not-found error nor resolves, and the database is left as it was.
\<close>

theorem duplicateContent_no_project:
  assumes "[x \<leftarrow> projects_table db. project_uuid x = projectUuid] = []"
  shows "duplicateContent st db projectUuid previewProjectUuid = (Inl TypeError, db)"
  using assms
  by (simp add: duplicateContent_def transaction_def duplicateContent_callback_def first_def Let_def)

theorem duplicateContent_no_project_witness:
  "[x \<leftarrow> projects_table db0. project_uuid x = ''nope''] = []
   \<and> duplicateContent st0 db0 ''nope'' ''prev'' = (Inl TypeError, db0)"
proof -
  have h: "[x \<leftarrow> projects_table db0. project_uuid x = ''nope''] = []"
    by (simp add: db0_def)
  from duplicateContent_no_project [OF h] h show ?thesis by blast
qed

subsection \<open>All or nothing\<close>

text \<open>
  Claim C1.  \<^verbatim>\<open>duplicateContent\<close> is all-or-nothing.  If the call rejects, whatever the step
  that failed, the database is the one before the call.  If it resolves, the mapping
  record has been appended to \<^verbatim>\<open>preview_content\<close>, no row of any table has been lost or
  changed, and every table holds its copies: as many new spaces, charts, chart versions,
  dashboards and dashboard versions as the mapping record lists (and as many spaces as the
  source project has), and one new row for each selected row of the space shares, of the
  four chart-version content tables, of the tiles and of the three tile content tables.
\<close>

theorem duplicateContent_all_or_nothing:
  "(\<forall>e. fst (duplicateContent st db p q) = Inl e \<longrightarrow>
          snd (duplicateContent st db p q) = db)
   \<and> (fst (duplicateContent st db p q) = Inr () \<longrightarrow>
        (\<exists>proj m.
           first [x \<leftarrow> projects_table db. project_uuid x = p] = Some proj
         \<and> projects_table (snd (duplicateContent st db p q)) = projects_table db
         \<and> preview_content_table (snd (duplicateContent st db p q))
             = preview_content_table db @
               [\<lparr>pc_project_uuid = p, preview_project_uuid = q, content_mapping = m\<rparr>]
         \<and> (let T = tables db;
                 T' = tables (snd (duplicateContent st db p q));
                 vids = lastDashboardVersionsIds (map id' (dashboards m)) (T ''dashboard_versions'');
                 tiles = whereIn ''dashboard_version_id'' vids (T ''dashboard_tiles'')
             in (\<forall>t. take (length (T t)) (T' t) = T t)
              \<and> length (spaces m)
                  = length (whereEq ''project_id'' (JNum (project_id proj)) (T ''spaces''))
              \<and> length (T' ''spaces'') = length (T ''spaces'') + length (spaces m)
              \<and> length (T' ''space_share'') = length (T ''space_share'')
                  + length (whereIn ''space_id'' (map id' (spaces m)) (T ''space_share''))
              \<and> length (T' ''saved_queries'') = length (T ''saved_queries'') + length (charts m)
              \<and> length (T' ''saved_queries_versions'')
                  = length (T ''saved_queries_versions'') + length (chartVersions m)
              \<and> (\<forall>t \<in> {''saved_queries_version_table_calculations'',
                         ''saved_queries_version_sorts'',
                         ''saved_queries_version_fields'',
                         ''saved_queries_version_additional_metrics''}.
                    length (T' t) = length (T t)
                      + length (whereIn ''saved_queries_version_id''
                                  (map id' (chartVersions m)) (T t)))
              \<and> length (T' ''dashboards'') = length (T ''dashboards'') + length (dashboards m)
              \<and> length (T' ''dashboard_versions'')
                  = length (T ''dashboard_versions'') + length (dashboardVersions m)
              \<and> length (T' ''dashboard_tiles'') = length (T ''dashboard_tiles'') + length tiles
              \<and> (\<forall>t \<in> {''dashboard_tile_charts'', ''dashboard_tile_looms'',
                         ''dashboard_tile_markdowns''}.
                    length (T' t) = length (T t)
                      + length (whereIn ''dashboard_version_id'' vids
                                  (whereIn ''dashboard_tile_uuid''
                                     (map (\<lambda>dv. getProp dv ''dashboard_tile_uuid'') tiles)
                                     (T t)))))))"
proof (intro conjI allI impI)
  fix e assume "fst (duplicateContent st db p q) = Inl e"
  then show "snd (duplicateContent st db p q) = db"
    by (rule duplicateContent_fails)
next
  assume ok: "fst (duplicateContent st db p q) = Inr ()"
  show "(\<exists>proj m.
           first [x \<leftarrow> projects_table db. project_uuid x = p] = Some proj
         \<and> projects_table (snd (duplicateContent st db p q)) = projects_table db
         \<and> preview_content_table (snd (duplicateContent st db p q))
             = preview_content_table db @
               [\<lparr>pc_project_uuid = p, preview_project_uuid = q, content_mapping = m\<rparr>]
         \<and> (let T = tables db;
                 T' = tables (snd (duplicateContent st db p q));
                 vids = lastDashboardVersionsIds (map id' (dashboards m)) (T ''dashboard_versions'');
                 tiles = whereIn ''dashboard_version_id'' vids (T ''dashboard_tiles'')
             in (\<forall>t. take (length (T t)) (T' t) = T t)
              \<and> length (spaces m)
                  = length (whereEq ''project_id'' (JNum (project_id proj)) (T ''spaces''))
              \<and> length (T' ''spaces'') = length (T ''spaces'') + length (spaces m)
              \<and> length (T' ''space_share'') = length (T ''space_share'')
                  + length (whereIn ''space_id'' (map id' (spaces m)) (T ''space_share''))
              \<and> length (T' ''saved_queries'') = length (T ''saved_queries'') + length (charts m)
              \<and> length (T' ''saved_queries_versions'')
                  = length (T ''saved_queries_versions'') + length (chartVersions m)
              \<and> (\<forall>t \<in> {''saved_queries_version_table_calculations'',
                         ''saved_queries_version_sorts'',
                         ''saved_queries_version_fields'',
                         ''saved_queries_version_additional_metrics''}.
                    length (T' t) = length (T t)
                      + length (whereIn ''saved_queries_version_id''
                                  (map id' (chartVersions m)) (T t)))
              \<and> length (T' ''dashboards'') = length (T ''dashboards'') + length (dashboards m)
              \<and> length (T' ''dashboard_versions'')
                  = length (T ''dashboard_versions'') + length (dashboardVersions m)
              \<and> length (T' ''dashboard_tiles'') = length (T ''dashboard_tiles'') + length tiles
              \<and> (\<forall>t \<in> {''dashboard_tile_charts'', ''dashboard_tile_looms'',
                         ''dashboard_tile_markdowns''}.
                    length (T' t) = length (T t)
                      + length (whereIn ''dashboard_version_id'' vids
                                  (whereIn ''dashboard_tile_uuid''
                                     (map (\<lambda>dv. getProp dv ''dashboard_tile_uuid'') tiles)
                                     (T t))))))"
  proof (rule duplicateContent_success [OF ok], goal_cases)
    case (1 proj ppid sm cm cvm dm dvm tm nSp nSh nCh nCv nC1 nC2 nC3 nC4 nD nDv nT nT1 nT2 nT3)
    have l_nSp: "length nSp = length (whereEq ''project_id'' (JNum (project_id proj)) (tables db ''spaces''))"
      by (simp add: 1(4) length_returning_rows)
    have l_nSh: "length nSh = length (whereIn ''space_id'' (map id' sm) (tables db ''space_share''))"
      by (simp add: 1(5) length_returning_rows)
    have l_nCh: "length nCh = length (joinSpacesWhereProject (tables db ''saved_queries'') (tables db ''spaces'' @ nSp) (JNum (project_id proj)))"
      by (simp add: 1(6) length_returning_rows)
    have l_nCv: "length nCv = length (chartVersions_of (map id' cm) (tables db ''saved_queries_versions''))"
      by (simp add: 1(7) length_returning_rows)
    have l_nC1: "length nC1 = length (whereIn ''saved_queries_version_id'' (map id' cvm) (tables db ''saved_queries_version_table_calculations''))"
      by (simp add: 1(8) length_returning_rows)
    have l_nC2: "length nC2 = length (whereIn ''saved_queries_version_id'' (map id' cvm) (tables db ''saved_queries_version_sorts''))"
      by (simp add: 1(9) length_returning_rows)
    have l_nC3: "length nC3 = length (whereIn ''saved_queries_version_id'' (map id' cvm) (tables db ''saved_queries_version_fields''))"
      by (simp add: 1(10) length_returning_rows)
    have l_nC4: "length nC4 = length (whereIn ''saved_queries_version_id'' (map id' cvm) (tables db ''saved_queries_version_additional_metrics''))"
      by (simp add: 1(11) length_returning_rows)
    have l_nD: "length nD = length (joinSpacesWhereProject (tables db ''dashboards'') (tables db ''spaces'' @ nSp) (JNum (project_id proj)))"
      by (simp add: 1(12) length_returning_rows)
    have l_nDv: "length nDv = length (whereIn ''dashboard_version_id'' (lastDashboardVersionsIds (map id' dm) (tables db ''dashboard_versions'')) (tables db ''dashboard_versions''))"
      by (simp add: 1(13) length_returning_rows)
    have l_nT: "length nT = length (whereIn ''dashboard_version_id'' (lastDashboardVersionsIds (map id' dm) (tables db ''dashboard_versions'')) (tables db ''dashboard_tiles''))"
      by (simp add: 1(14) length_returning_rows)
    have l_nT1: "length nT1 = length (whereIn ''dashboard_version_id'' (lastDashboardVersionsIds (map id' dm) (tables db ''dashboard_versions'')) (whereIn ''dashboard_tile_uuid'' (map id' tm) (tables db ''dashboard_tile_charts'')))"
      by (simp add: 1(15) length_returning_rows)
    have l_nT2: "length nT2 = length (whereIn ''dashboard_version_id'' (lastDashboardVersionsIds (map id' dm) (tables db ''dashboard_versions'')) (whereIn ''dashboard_tile_uuid'' (map id' tm) (tables db ''dashboard_tile_looms'')))"
      by (simp add: 1(16) length_returning_rows)
    have l_nT3: "length nT3 = length (whereIn ''dashboard_version_id'' (lastDashboardVersionsIds (map id' dm) (tables db ''dashboard_versions'')) (whereIn ''dashboard_tile_uuid'' (map id' tm) (tables db ''dashboard_tile_markdowns'')))"
      by (simp add: 1(17) length_returning_rows)
    have l_sm: "length sm = length (map (\<lambda>s. getProp s ''space_id'') (whereEq ''project_id'' (JNum (project_id proj)) (tables db ''spaces'')))"
      using arg_cong [OF 1(18), of length] by simp
    have l_cm: "length cm = length (map (\<lambda>d. getProp d ''saved_query_id'') (joinSpacesWhereProject (tables db ''saved_queries'') (tables db ''spaces'' @ nSp) (JNum (project_id proj))))"
      using arg_cong [OF 1(19), of length] by simp
    have l_cvm: "length cvm = length (map (\<lambda>d. getProp d ''saved_queries_version_id'') (chartVersions_of (map id' cm) (tables db ''saved_queries_versions'')))"
      using arg_cong [OF 1(20), of length] by simp
    have l_dm: "length dm = length (map (\<lambda>d. getProp d ''dashboard_id'') (joinSpacesWhereProject (tables db ''dashboards'') (tables db ''spaces'' @ nSp) (JNum (project_id proj))))"
      using arg_cong [OF 1(21), of length] by simp
    have l_dvm: "length dvm = length (map (\<lambda>d. getProp d ''dashboard_version_id'') (whereIn ''dashboard_version_id'' (lastDashboardVersionsIds (map id' dm) (tables db ''dashboard_versions'')) (tables db ''dashboard_versions'')))"
      using arg_cong [OF 1(22), of length] by simp
    show ?case
      apply (rule exI [of _ proj])
      apply (rule exI [of _ "\<lparr>charts = cm, chartVersions = cvm, spaces = sm, dashboards = dm, dashboardVersions = dvm\<rparr>"])
      apply (simp add: 1(1) 1(2) Let_def l_nSp l_nSh l_nCh l_nCv l_nC1 l_nC2 l_nC3 l_nC4 l_nD l_nDv l_nT
          l_nT1 l_nT2 l_nT3 l_sm l_cm l_cvm l_dm l_dvm 1(23))
      done
  qed
qed

theorem duplicateContent_all_or_nothing_witness:
  "fst (duplicateContent st_fault db0 ''src'' ''prev'') = Inl (DatabaseError ''preview_content_pkey'')
   \<and> snd (duplicateContent st_fault db0 ''src'' ''prev'') = db0
   \<and> fst (duplicateContent st0 db0 ''src'' ''prev'') = Inr ()
   \<and> (\<exists>proj m.
           first [x \<leftarrow> projects_table db0. project_uuid x = ''src''] = Some proj
         \<and> projects_table (snd (duplicateContent st0 db0 ''src'' ''prev'')) = projects_table db0
         \<and> preview_content_table (snd (duplicateContent st0 db0 ''src'' ''prev''))
             = preview_content_table db0 @
               [\<lparr>pc_project_uuid = ''src'', preview_project_uuid = ''prev'', content_mapping = m\<rparr>]
         \<and> (let T = tables db0;
                 T' = tables (snd (duplicateContent st0 db0 ''src'' ''prev''));
                 vids = lastDashboardVersionsIds (map id' (dashboards m)) (T ''dashboard_versions'');
                 tiles = whereIn ''dashboard_version_id'' vids (T ''dashboard_tiles'')
             in (\<forall>t. take (length (T t)) (T' t) = T t)
              \<and> length (spaces m)
                  = length (whereEq ''project_id'' (JNum (project_id proj)) (T ''spaces''))
              \<and> length (T' ''spaces'') = length (T ''spaces'') + length (spaces m)
              \<and> length (T' ''space_share'') = length (T ''space_share'')
                  + length (whereIn ''space_id'' (map id' (spaces m)) (T ''space_share''))
              \<and> length (T' ''saved_queries'') = length (T ''saved_queries'') + length (charts m)
              \<and> length (T' ''saved_queries_versions'')
                  = length (T ''saved_queries_versions'') + length (chartVersions m)
              \<and> (\<forall>t \<in> {''saved_queries_version_table_calculations'',
                         ''saved_queries_version_sorts'',
                         ''saved_queries_version_fields'',
                         ''saved_queries_version_additional_metrics''}.
                    length (T' t) = length (T t)
                      + length (whereIn ''saved_queries_version_id''
                                  (map id' (chartVersions m)) (T t)))
              \<and> length (T' ''dashboards'') = length (T ''dashboards'') + length (dashboards m)
              \<and> length (T' ''dashboard_versions'')
                  = length (T ''dashboard_versions'') + length (dashboardVersions m)
              \<and> length (T' ''dashboard_tiles'') = length (T ''dashboard_tiles'') + length tiles
              \<and> (\<forall>t \<in> {''dashboard_tile_charts'', ''dashboard_tile_looms'',
                         ''dashboard_tile_markdowns''}.
                    length (T' t) = length (T t)
                      + length (whereIn ''dashboard_version_id'' vids
                                  (whereIn ''dashboard_tile_uuid''
                                     (map (\<lambda>dv. getProp dv ''dashboard_tile_uuid'') tiles)
                                     (T t))))))"
proof -
  have a: "fst (duplicateContent st_fault db0 ''src'' ''prev'') = Inl (DatabaseError ''preview_content_pkey'')"
    by code_simp
  have b: "fst (duplicateContent st0 db0 ''src'' ''prev'') = Inr ()"
    by code_simp
  from duplicateContent_all_or_nothing [of st_fault db0 "''src''" "''prev''"] a
  have c: "snd (duplicateContent st_fault db0 ''src'' ''prev'') = db0"
    by blast
  from duplicateContent_all_or_nothing [of st0 db0 "''src''" "''prev''"] b
  have d: "(\<exists>proj m.
           first [x \<leftarrow> projects_table db0. project_uuid x = ''src''] = Some proj
         \<and> projects_table (snd (duplicateContent st0 db0 ''src'' ''prev'')) = projects_table db0
         \<and> preview_content_table (snd (duplicateContent st0 db0 ''src'' ''prev''))
             = preview_content_table db0 @
               [\<lparr>pc_project_uuid = ''src'', preview_project_uuid = ''prev'', content_mapping = m\<rparr>]
         \<and> (let T = tables db0;
                 T' = tables (snd (duplicateContent st0 db0 ''src'' ''prev''));
                 vids = lastDashboardVersionsIds (map id' (dashboards m)) (T ''dashboard_versions'');
                 tiles = whereIn ''dashboard_version_id'' vids (T ''dashboard_tiles'')
             in (\<forall>t. take (length (T t)) (T' t) = T t)
              \<and> length (spaces m)
                  = length (whereEq ''project_id'' (JNum (project_id proj)) (T ''spaces''))
              \<and> length (T' ''spaces'') = length (T ''spaces'') + length (spaces m)
              \<and> length (T' ''space_share'') = length (T ''space_share'')
                  + length (whereIn ''space_id'' (map id' (spaces m)) (T ''space_share''))
              \<and> length (T' ''saved_queries'') = length (T ''saved_queries'') + length (charts m)
              \<and> length (T' ''saved_queries_versions'')
                  = length (T ''saved_queries_versions'') + length (chartVersions m)
              \<and> (\<forall>t \<in> {''saved_queries_version_table_calculations'',
                         ''saved_queries_version_sorts'',
                         ''saved_queries_version_fields'',
                         ''saved_queries_version_additional_metrics''}.
                    length (T' t) = length (T t)
                      + length (whereIn ''saved_queries_version_id''
                                  (map id' (chartVersions m)) (T t)))
              \<and> length (T' ''dashboards'') = length (T ''dashboards'') + length (dashboards m)
              \<and> length (T' ''dashboard_versions'')
                  = length (T ''dashboard_versions'') + length (dashboardVersions m)
              \<and> length (T' ''dashboard_tiles'') = length (T ''dashboard_tiles'') + length tiles
              \<and> (\<forall>t \<in> {''dashboard_tile_charts'', ''dashboard_tile_looms'',
                         ''dashboard_tile_markdowns''}.
                    length (T' t) = length (T t)
                      + length (whereIn ''dashboard_version_id'' vids
                                  (whereIn ''dashboard_tile_uuid''
                                     (map (\<lambda>dv. getProp dv ''dashboard_tile_uuid'') tiles)
                                     (T t))))))"
    by blast
  from a b c d show ?thesis by blast
qed


subsection \<open>Tile uuids\<close>

text \<open>
  Claim C4.  After a successful \<^verbatim>\<open>duplicateContent\<close> the tiles that were in
  \<^verbatim>\<open>dashboard_tiles\<close> are still there, and the tiles added after them carry, row for row,
  the \<^verbatim>\<open>dashboard_tile_uuid\<close> of the source tiles of the latest versions of the copied
  dashboards; so the two sets of uuids are equal and no uuid is generated anew.  The source
  tiles are rows as the database returns them (no \<^verbatim>\<open>undefined\<close> uuid).
\<close>

theorem duplicateContent_tile_uuids:
  assumes ok: "fst (duplicateContent st db p q) = Inr ()"
    and wf: "no_undefined ''dashboard_tile_uuid'' (tables db ''dashboard_tiles'')"
  shows "let db' = snd (duplicateContent st db p q);
             m = content_mapping (last (preview_content_table db'));
             vids = lastDashboardVersionsIds (map id' (dashboards m)) (tables db ''dashboard_versions'');
             sourceTiles = whereIn ''dashboard_version_id'' vids (tables db ''dashboard_tiles'');
             n = length (tables db ''dashboard_tiles'');
             newTiles = drop n (tables db' ''dashboard_tiles'')
         in take n (tables db' ''dashboard_tiles'') = tables db ''dashboard_tiles''
          \<and> map (\<lambda>r. getProp r ''dashboard_tile_uuid'') newTiles
              = map (\<lambda>r. getProp r ''dashboard_tile_uuid'') sourceTiles
          \<and> (\<lambda>r. getProp r ''dashboard_tile_uuid'') ` set newTiles
              = (\<lambda>r. getProp r ''dashboard_tile_uuid'') ` set sourceTiles"
proof (rule duplicateContent_success [OF ok], goal_cases)
  case (1 proj ppid sm cm cvm dm dvm tm nSp nSh nCh nCv nC1 nC2 nC3 nC4 nD nDv nT nT1 nT2 nT3)
  let ?src = "whereIn ''dashboard_version_id''
                (lastDashboardVersionsIds (map id' dm) (tables db ''dashboard_versions''))
                (tables db ''dashboard_tiles'')"
  have nT: "nT = returning_rows st ''dashboard_tiles'' (tables db ''dashboard_tiles'')
                   (map (createDashboardTile dvm) ?src)"
    by (rule 1(14))
  have src: "\<And>d. d \<in> set ?src \<Longrightarrow> d ''dashboard_tile_uuid'' \<noteq> Some JUndefined"
    using wf by (auto simp: no_undefined_def whereIn_def)
  have uu: "map (\<lambda>r. getProp r ''dashboard_tile_uuid'') nT
              = map (\<lambda>r. getProp r ''dashboard_tile_uuid'') ?src"
  proof -
    have "map (\<lambda>r. getProp r ''dashboard_tile_uuid'') nT
            = map (\<lambda>c. getProp ((\<lambda>d. d) c) ''dashboard_tile_uuid'')
                (map (createDashboardTile dvm) ?src)"
      unfolding nT
    proof (rule map_returning_rows)
      fix n r assume "r \<in> set (map (createDashboardTile dvm) ?src)"
      then obtain d where d: "d \<in> set ?src" and r: "r = createDashboardTile dvm d" by auto
      from src [OF d] have "r ''dashboard_tile_uuid'' \<noteq> Some JUndefined"
        by (simp add: r createDashboardTile_def)
      then show "getProp (stored_row st ''dashboard_tiles'' n r) ''dashboard_tile_uuid''
                   = getProp r ''dashboard_tile_uuid''"
        by (simp add: stored_row_def getProp_def serial_column_def uuid_column_def)
    qed
    also have "\<dots> = map (\<lambda>r. getProp r ''dashboard_tile_uuid'') ?src"
      by (simp add: createDashboardTile_def getProp_def)
    finally show ?thesis .
  qed
  have "map (\<lambda>r. getProp r ''dashboard_tile_uuid'') nT
          = map (\<lambda>r. getProp r ''dashboard_tile_uuid'') ?src
        \<and> (\<lambda>r. getProp r ''dashboard_tile_uuid'') ` set nT
          = (\<lambda>r. getProp r ''dashboard_tile_uuid'') ` set ?src"
  proof
    show "map (\<lambda>r. getProp r ''dashboard_tile_uuid'') nT
          = map (\<lambda>r. getProp r ''dashboard_tile_uuid'') ?src"
      by (rule uu)
    have "set (map (\<lambda>r. getProp r ''dashboard_tile_uuid'') nT)
          = set (map (\<lambda>r. getProp r ''dashboard_tile_uuid'') ?src)"
      by (simp only: uu)
    then show "(\<lambda>r. getProp r ''dashboard_tile_uuid'') ` set nT
          = (\<lambda>r. getProp r ''dashboard_tile_uuid'') ` set ?src"
      by (simp only: set_map)
  qed
  then show ?case
    by (simp add: 1(2) Let_def)
qed

theorem duplicateContent_tile_uuids_witness:
  "fst (duplicateContent st0 db0 ''src'' ''prev'') = Inr ()
   \<and> no_undefined ''dashboard_tile_uuid'' (tables db0 ''dashboard_tiles'')
   \<and> (let db' = snd (duplicateContent st0 db0 ''src'' ''prev'');
             m = content_mapping (last (preview_content_table db'));
             vids = lastDashboardVersionsIds (map id' (dashboards m)) (tables db0 ''dashboard_versions'');
             sourceTiles = whereIn ''dashboard_version_id'' vids (tables db0 ''dashboard_tiles'');
             n = length (tables db0 ''dashboard_tiles'');
             newTiles = drop n (tables db' ''dashboard_tiles'')
         in take n (tables db' ''dashboard_tiles'') = tables db0 ''dashboard_tiles''
          \<and> map (\<lambda>r. getProp r ''dashboard_tile_uuid'') newTiles
              = map (\<lambda>r. getProp r ''dashboard_tile_uuid'') sourceTiles
          \<and> (\<lambda>r. getProp r ''dashboard_tile_uuid'') ` set newTiles
              = (\<lambda>r. getProp r ''dashboard_tile_uuid'') ` set sourceTiles)
   \<and> map (\<lambda>r. getProp r ''dashboard_tile_uuid'')
        (drop 3 (tables (snd (duplicateContent st0 db0 ''src'' ''prev'')) ''dashboard_tiles''))
      = [JStr ''t1'', JStr ''t2'']"
proof -
  have a: "fst (duplicateContent st0 db0 ''src'' ''prev'') = Inr ()"
    by code_simp
  have b: "no_undefined ''dashboard_tile_uuid'' (tables db0 ''dashboard_tiles'')"
    by (simp add: no_undefined_def db0_def)
  have c: "map (\<lambda>r. getProp r ''dashboard_tile_uuid'')
        (drop 3 (tables (snd (duplicateContent st0 db0 ''src'' ''prev'')) ''dashboard_tiles''))
      = [JStr ''t1'', JStr ''t2'']"
    by code_simp
  from duplicateContent_tile_uuids [OF a b] a b c show ?thesis by blast
qed

subsection \<open>Stored copies\<close>

lemma list_all2_number_from:
  assumes "\<And>n d. d \<in> set src \<Longrightarrow> P d (g n (f d))"
  shows "list_all2 P src (map (\<lambda>(n, r). g n r) (number_from k (map f src)))"
  using assms by (induction src arbitrary: k) auto

lemma list_all2_returning_rows:
  assumes "\<And>n d. d \<in> set src \<Longrightarrow> P d (stored_row st T n (f d))"
  shows "list_all2 P src (returning_rows st T ex (map f src))"
  unfolding returning_rows_def
  by (rule list_all2_number_from [where g="stored_row st T"]) (rule assms)

lemma number_from_fst:
  "(n, x) \<in> set (number_from k xs) \<Longrightarrow> k \<le> n"
  by (induction xs arbitrary: k) force+

lemma distinct_number_from: "distinct (map fst (number_from k xs))"
proof (induction xs arbitrary: k)
  case Nil
  then show ?case by simp
next
  case (Cons a xs)
  have "k \<notin> fst ` set (number_from (k + 1) xs)"
    using number_from_fst [of k _ "k + 1" xs] by force
  with Cons show ?case by simp
qed

lemma fold_max_ge: "(a::int) \<le> fold max xs a"
proof (induction xs arbitrary: a)
  case Nil
  then show ?case by simp
next
  case (Cons y ys)
  have "a \<le> max y a" by simp
  also have "\<dots> \<le> fold max ys (max y a)" by (rule Cons.IH)
  finally show ?case by simp
qed

lemma fold_max_mem: "(x::int) \<in> set xs \<Longrightarrow> x \<le> fold max xs a"
proof (induction xs arbitrary: a)
  case Nil
  then show ?case by simp
next
  case (Cons y ys)
  show ?case
  proof (cases "x = y")
    case True
    have "max y a \<le> fold max ys (max y a)" by (rule fold_max_ge)
    with True show ?thesis by simp
  next
    case False
    with Cons show ?thesis by simp
  qed
qed

lemma next_id_gt:
  assumes "serial_column T = Some col" "x \<in> set ex"
  shows "num (getProp x col) < next_id T ex"
proof -
  from assms(2) have "num (getProp x col) \<in> set (map (\<lambda>r. num (getProp r col)) ex)" by simp
  from fold_max_mem [OF this, of 0] assms(1) show ?thesis by (simp add: next_id_def)
qed

lemma returning_rows_fresh:
  assumes ser: "serial_column T = Some col"
    and und: "\<And>d. d \<in> set src \<Longrightarrow> getProp (f d) col = JUndefined"
  shows "fresh_ids col ex (returning_rows st T ex (map f src))"
proof -
  let ?k = "next_id T ex"
  let ?N = "number_from ?k (map f src)"
  have snd_in: "r \<in> set (map f src)" if "(n, r) \<in> set (number_from k (map f src))" for n r k
    using that by (induction src arbitrary: k) auto
  have val: "getProp (stored_row st T n r) col = JNum n" if "(n, r) \<in> set ?N" for n r
  proof -
    from snd_in [OF that] und have "getProp r col = JUndefined" by auto
    with ser show ?thesis by (simp add: stored_row_def getProp_def)
  qed
  have m: "map (\<lambda>r. getProp r col) (returning_rows st T ex (map f src)) = map (\<lambda>x. JNum (fst x)) ?N"
    unfolding returning_rows_def using val by auto
  have "distinct (map (\<lambda>x. JNum (fst x)) ?N)"
    using distinct_number_from [of ?k "map f src"] by (simp add: distinct_map inj_on_def)
  then have d: "distinct (map (\<lambda>r. getProp r col) (returning_rows st T ex (map f src)))"
    by (simp only: m)
  have b: "getProp r col = JNum (num (getProp r col))
           \<and> (\<forall>x \<in> set ex. num (getProp x col) < num (getProp r col))"
    if "r \<in> set (returning_rows st T ex (map f src))" for r
  proof -
    from that obtain n r0 where nr: "(n, r0) \<in> set ?N" and r: "r = stored_row st T n r0"
      by (auto simp: returning_rows_def)
    from val [OF nr] r have v: "getProp r col = JNum n" by simp
    from number_from_fst [OF nr] have "?k \<le> n" .
    with next_id_gt [OF ser] have "\<forall>x \<in> set ex. num (getProp x col) < n" by fastforce
    with v show ?thesis by (simp add: num_def)
  qed
  from b d show ?thesis unfolding fresh_ids_def by blast
qed

lemma remap_found:
  assumes "x \<in> set (map id' M)"
  shows "\<exists>e \<in> set M. id' e = x \<and> remap M x = newId e \<and> newIdOf M x = newId e"
proof -
  from assms have "List.find (\<lambda>e. id' e = x) M \<noteq> None"
    by (auto simp: find_None_iff)
  then obtain e where e: "List.find (\<lambda>e. id' e = x) M = Some e" by auto
  then have "e \<in> set M" "id' e = x"
    by (auto simp: find_Some_iff)
  with e show ?thesis by (auto simp: remap_def newIdOf_def)
qed

lemma remap_missing:
  assumes "x \<notin> set (map id' M)"
  shows "remap M x = JNull" "newIdOf M x = JUndefined"
proof -
  from assms have "List.find (\<lambda>e. id' e = x) M = None"
    by (auto simp: find_None_iff)
  then show "remap M x = JNull" "newIdOf M x = JUndefined"
    by (simp_all add: remap_def newIdOf_def)
qed

text \<open>The stored value of a column that was written with a lookup.\<close>

lemma stored_remap:
  assumes r: "r col = Some (newIdOf M x)"
    and defd: "\<And>e. e \<in> set M \<Longrightarrow> id' e = x \<Longrightarrow> newId e \<noteq> JUndefined"
    and ser: "serial_column T \<noteq> Some col" "uuid_column T \<noteq> Some col"
  shows "getProp (stored_row st T n r) col = remap M x"
proof (cases "x \<in> set (map id' M)")
  case True
  from remap_found [OF True] obtain e where e: "e \<in> set M" "id' e = x"
    "remap M x = newId e" "newIdOf M x = newId e" by blast
  with defd have "newId e \<noteq> JUndefined" by blast
  with e r ser show ?thesis by (simp add: stored_row_def getProp_def)
next
  case False
  from remap_missing [OF False] r ser show ?thesis
    by (simp add: stored_row_def getProp_def)
qed

lemma stored_copy_except:
  assumes keep: "\<And>k. k \<notin> set cols \<Longrightarrow> r k = d k"
    and ser: "\<And>k. serial_column T = Some k \<Longrightarrow> k \<in> set cols"
    and uu: "\<And>k. uuid_column T = Some k \<Longrightarrow> k \<in> set cols"
  shows "copy_except cols d (stored_row st T n r)"
  unfolding copy_except_def
proof (intro allI impI)
  fix k assume k: "k \<notin> set cols"
  with ser uu have "serial_column T \<noteq> Some k" "uuid_column T \<noteq> Some k" by auto
  with keep [OF k] show "stored_row st T n r k = (if d k = Some JUndefined then Some JNull else d k)"
    by (simp add: stored_row_def)
qed

lemma remap_inj:
  assumes d: "distinct (map newId M)"
    and x: "x \<in> set (map id' M)" and y: "y \<in> set (map id' M)"
    and eq: "remap M x = remap M y"
  shows "x = y"
proof -
  from remap_found [OF x] obtain e where e: "e \<in> set M" "id' e = x" "remap M x = newId e" by blast
  from remap_found [OF y] obtain f where f: "f \<in> set M" "id' f = y" "remap M y = newId f" by blast
  from d have "inj_on newId (set M)" by (simp add: distinct_map)
  with e f eq have "e = f" by (auto dest: inj_onD)
  with e f show ?thesis by simp
qed

lemma list_all2_filter_length:
  "list_all2 (\<lambda>a b. P a \<longleftrightarrow> Q b) xs ys \<Longrightarrow> length (filter P xs) = length (filter Q ys)"
  by (induction xs ys rule: list_all2_induct) auto

lemma resolved_toI:
  assumes "getProp d col \<in> set (map id' M)" "getProp r col = remap M (getProp d col)"
  shows "resolved_to M col d r"
proof -
  from assms(1) have "List.find (\<lambda>e. id' e = getProp d col) M \<noteq> None"
    by (auto simp: find_None_iff)
  with assms(2) show ?thesis
    by (auto simp: resolved_to_def remap_def)
qed

lemma resolved_toD:
  assumes "resolved_to M col d r"
  shows "getProp d col \<in> set (map id' M)" "getProp r col = remap M (getProp d col)"
proof -
  from assms obtain e where e: "List.find (\<lambda>e. id' e = getProp d col) M = Some e"
    "getProp r col = newId e"
    by (auto simp: resolved_to_def split: option.splits)
  then have "e \<in> set M" "id' e = getProp d col" by (auto simp: find_Some_iff)
  then show "getProp d col \<in> set (map id' M)" by force
  from e show "getProp r col = remap M (getProp d col)" by (simp add: remap_def)
qed

lemma fresh_newId:
  assumes "fresh_ids col ex new" "map newId M = map (\<lambda>r. getProp r col) new" "e \<in> set M"
  shows "newId e \<noteq> JUndefined"
proof -
  from assms(3) have "newId e \<in> set (map newId M)" by simp
  then have "newId e \<in> set (map (\<lambda>r. getProp r col) new)" by (simp only: assms(2))
  then obtain r where "r \<in> set new" "newId e = getProp r col" by auto
  with assms(1) have "newId e = JNum (num (getProp r col))" by (simp add: fresh_ids_def)
  then show ?thesis by simp
qed

lemma fresh_distinct_newId:
  assumes "fresh_ids col ex new" "map newId M = map (\<lambda>r. getProp r col) new"
  shows "distinct (map newId M)"
  using assms by (simp add: fresh_ids_def)

lemma whereEq_JNum: "whereEq col (JNum n) rows = [s \<leftarrow> rows. getProp s col = JNum n]"
  unfolding whereEq_def by (rule filter_cong) (auto simp: sql_eq_def)

lemma whereIn_whereIn:
  "whereIn c1 v1 (whereIn c2 v2 rows)
     = [d \<leftarrow> rows. (\<exists>u \<in> set v2. sql_eq (getProp d c2) u) \<and> (\<exists>c \<in> set v1. sql_eq (getProp d c1) c)]"
  by (simp add: whereIn_def)

lemma whereIn_cong_set:
  assumes "\<And>x. (\<exists>v \<in> set vs. sql_eq x v) \<longleftrightarrow> (\<exists>v \<in> set ws. sql_eq x v)"
  shows "whereIn col vs rows = whereIn col ws rows"
  unfolding whereIn_def using assms by (intro filter_cong) auto

text \<open>A mapping entry pairs a source row with the row stored for it.\<close>

lemma mapping_entry:
  assumes ids: "map id' M = map f src" and news: "map newId M = map g new"
    and rel: "list_all2 P src new" and e: "e \<in> set M"
  shows "\<exists>d r. d \<in> set src \<and> r \<in> set new \<and> P d r \<and> id' e = f d \<and> newId e = g r"
proof -
  from e obtain i where i: "i < length M" "M ! i = e" by (auto simp: in_set_conv_nth)
  from ids have l1: "length M = length src" by (metis length_map)
  from rel have l2: "length src = length new" by (rule list_all2_lengthD)
  from i l1 l2 have a: "src ! i \<in> set src" "new ! i \<in> set new" by auto
  from rel i l1 have b: "P (src ! i) (new ! i)" by (auto dest: list_all2_nthD)
  from i l1 have "id' e = map id' M ! i" by simp
  also have "\<dots> = f (src ! i)" using i l1 by (simp only: ids) simp
  finally have c: "id' e = f (src ! i)" .
  from i have "newId e = map newId M ! i" by simp
  also have "\<dots> = g (new ! i)" using i l1 l2 by (simp only: news) simp
  finally have d: "newId e = g (new ! i)" .
  from a b c d show ?thesis by blast
qed

subsection \<open>Selections\<close>

lemma primary_key_inj:
  assumes "primary_key col rows" "r \<in> set rows" "w \<in> set rows"
    and "getProp r col = getProp w col"
  shows "r = w"
proof -
  from assms(1) have "distinct (map (\<lambda>r. getProp r col) rows)"
    by (simp add: primary_key_def)
  then have "inj_on (\<lambda>r. getProp r col) (set rows)"
    by (simp add: distinct_map)
  with assms(2-4) show ?thesis by (auto dest: inj_onD)
qed

lemma primary_key_num:
  assumes "primary_key col rows" "r \<in> set rows"
  shows "getProp r col = JNum (num (getProp r col))"
  using assms by (auto simp: primary_key_def num_def)

text \<open>The rows selected through the grouped maximum are the greatest rows of their groups.\<close>

lemma whereIn_groupByMax:
  assumes pk: "primary_key idCol rows"
  shows "whereIn idCol (groupByMax groupCol idCol (whereIn groupCol ids rows)) rows
       = [r \<leftarrow> rows. (\<exists>c \<in> set ids. sql_eq (getProp r groupCol) c)
                     \<and> (\<forall>w \<in> set rows. getProp w groupCol = getProp r groupCol
                            \<longrightarrow> num (getProp w idCol) \<le> num (getProp r idCol))]"
proof -
  let ?key = "\<lambda>r. getProp r groupCol"
  let ?nid = "\<lambda>r. num (getProp r idCol)"
  let ?inS = "\<lambda>r. \<exists>c \<in> set ids. sql_eq (?key r) c"
  let ?F = "whereIn groupCol ids rows"
  let ?G = "groupByMax groupCol idCol ?F"
  have F: "set ?F = {r \<in> set rows. ?inS r}"
    by (auto simp: whereIn_def)
  have G: "set ?G = (\<lambda>g. JNum (Max (?nid ` {w \<in> set ?F. ?key w = g}))) ` (?key ` set ?F)"
    by (auto simp: groupByMax_def intro!: image_eqI)
  have "(\<exists>v \<in> set ?G. sql_eq (getProp r idCol) v)
          \<longleftrightarrow> (?inS r \<and> (\<forall>w \<in> set rows. ?key w = ?key r \<longrightarrow> ?nid w \<le> ?nid r))"
    if r: "r \<in> set rows" for r
  proof
    assume "\<exists>v \<in> set ?G. sql_eq (getProp r idCol) v"
    then obtain g where g: "g \<in> ?key ` set ?F"
      and eq: "getProp r idCol = JNum (Max (?nid ` {w \<in> set ?F. ?key w = g}))"
      unfolding G by (auto simp: sql_eq_def)
    let ?A = "{w \<in> set ?F. ?key w = g}"
    have fin: "finite (?nid ` ?A)" by simp
    from g have ne: "?nid ` ?A \<noteq> {}" by auto
    from Max_in [OF fin ne] obtain w where w: "w \<in> ?A" and wm: "?nid w = Max (?nid ` ?A)"
      by auto
    from w have wr: "w \<in> set rows" by (simp add: F)
    from primary_key_num [OF pk wr] wm eq have "getProp r idCol = getProp w idCol"
      by simp
    from primary_key_inj [OF pk r wr this] have rw: "r = w" .
    with w have rA: "r \<in> ?A" by simp
    then have inS: "?inS r" by (auto simp: F)
    have "?nid w' \<le> ?nid r" if w': "w' \<in> set rows" and k: "?key w' = ?key r" for w'
    proof -
      from inS k have "?inS w'" by simp
      with w' k rA have "w' \<in> ?A" by (auto simp: F)
      then have "?nid w' \<le> Max (?nid ` ?A)" by (intro Max_ge) auto
      with wm rw show ?thesis by simp
    qed
    with inS show "?inS r \<and> (\<forall>w \<in> set rows. ?key w = ?key r \<longrightarrow> ?nid w \<le> ?nid r)"
      by blast
  next
    assume a: "?inS r \<and> (\<forall>w \<in> set rows. ?key w = ?key r \<longrightarrow> ?nid w \<le> ?nid r)"
    let ?A = "{w \<in> set ?F. ?key w = ?key r}"
    from a r have rA: "r \<in> ?A" by (simp add: F)
    have "Max (?nid ` ?A) = ?nid r"
    proof (rule Max_eqI)
      show "finite (?nid ` ?A)" by simp
      show "?nid r \<in> ?nid ` ?A" using rA by blast
      fix y assume "y \<in> ?nid ` ?A"
      then obtain w where "w \<in> ?A" "y = ?nid w" by blast
      with a show "y \<le> ?nid r" by (auto simp: F)
    qed
    moreover from pk r obtain n where "getProp r idCol = JNum n"
      by (auto simp: primary_key_def)
    ultimately have "sql_eq (getProp r idCol) (JNum (Max (?nid ` ?A)))"
      by (simp add: sql_eq_def num_def)
    moreover from rA have "JNum (Max (?nid ` ?A)) \<in> set ?G"
      unfolding G by blast
    ultimately show "\<exists>v \<in> set ?G. sql_eq (getProp r idCol) v" by blast
  qed
  then show ?thesis
    unfolding whereIn_def [of idCol] by (intro filter_cong) auto
qed

lemma length_filter_le_filter:
  assumes "\<And>x. x \<in> set xs \<Longrightarrow> P x \<Longrightarrow> Q x"
  shows "length (filter P xs) \<le> length (filter Q xs)"
  using assms by (induction xs) auto

lemma distinct_count_le_one:
  "distinct (map f xs) \<Longrightarrow> length [x \<leftarrow> xs. f x = k] \<le> 1"
proof (cases "k \<in> set (map f xs)")
  case True
  assume "distinct (map f xs)"
  from distinct_count_one [OF this True] show ?thesis by simp
next
  case False
  then have "\<forall>x \<in> set xs. f x \<noteq> k" by auto
  then have "[x \<leftarrow> xs. f x = k] = []" by (simp add: filter_empty_conv)
  then show ?thesis by simp
qed

text \<open>Exactly one row per parent that has a row, none for the others.\<close>

lemma latest_count:
  assumes pk: "primary_key idCol rows"
    and c: "c \<in> set ids"
  shows "length [v \<leftarrow> whereIn idCol (groupByMax groupCol idCol (whereIn groupCol ids rows)) rows.
                  getProp v groupCol = c]
       = (if [w \<leftarrow> rows. sql_eq (getProp w groupCol) c] = [] then 0 else 1)"
proof -
  let ?key = "\<lambda>r. getProp r groupCol"
  let ?nid = "\<lambda>r. num (getProp r idCol)"
  let ?P = "\<lambda>r. ((\<exists>c \<in> set ids. sql_eq (?key r) c)
               \<and> (\<forall>w \<in> set rows. ?key w = ?key r \<longrightarrow> ?nid w \<le> ?nid r)) \<and> ?key r = c"
  have sel: "[v \<leftarrow> whereIn idCol (groupByMax groupCol idCol (whereIn groupCol ids rows)) rows.
                ?key v = c] = filter ?P rows"
    by (simp add: whereIn_groupByMax [OF pk])
  show ?thesis
  proof (cases "[w \<leftarrow> rows. sql_eq (?key w) c] = []")
    case True
    then have "\<And>r. r \<in> set rows \<Longrightarrow> \<not> ?P r"
      by (auto simp: filter_empty_conv sql_eq_def)
    then have "filter ?P rows = []"
      by (simp add: filter_empty_conv)
    with True sel show ?thesis by simp
  next
    case False
    then obtain w0 where w0: "w0 \<in> set rows" "sql_eq (?key w0) c"
      by (auto simp: filter_empty_conv)
    let ?A = "{w \<in> set rows. ?key w = c}"
    from w0 have ne: "?nid ` ?A \<noteq> {}" by (auto simp: sql_eq_def)
    have fin: "finite (?nid ` ?A)" by simp
    from Max_in [OF fin ne] obtain r where r: "r \<in> ?A" and rm: "?nid r = Max (?nid ` ?A)"
      by auto
    have Pr: "?P r"
    proof -
      from r w0 have "sql_eq (?key r) c" by (auto simp: sql_eq_def)
      with c have "\<exists>c \<in> set ids. sql_eq (?key r) c" by blast
      moreover have "?nid w \<le> ?nid r" if "w \<in> set rows" "?key w = ?key r" for w
      proof -
        from that r have "w \<in> ?A" by simp
        then have "?nid w \<le> Max (?nid ` ?A)" by (intro Max_ge) auto
        with rm show ?thesis by simp
      qed
      ultimately show ?thesis using r by blast
    qed
    from r Pr have "r \<in> set (filter ?P rows)" unfolding set_filter by blast
    from length_pos_if_in_set [OF this] have ge: "1 \<le> length (filter ?P rows)"
      by linarith
    have "getProp x idCol = JNum (Max (?nid ` ?A))" if x: "x \<in> set rows" and px: "?P x" for x
    proof -
      from x px have xa: "x \<in> ?A" by simp
      then have "?nid x \<le> Max (?nid ` ?A)" by (intro Max_ge) auto
      moreover from px r have "?nid r \<le> ?nid x" by simp
      ultimately have "?nid x = Max (?nid ` ?A)" using rm by simp
      with primary_key_num [OF pk x] show ?thesis by simp
    qed
    then have "length (filter ?P rows)
                 \<le> length [x \<leftarrow> rows. getProp x idCol = JNum (Max (?nid ` ?A))]"
      by (intro length_filter_le_filter) blast
    also have "\<dots> \<le> 1"
      using pk by (intro distinct_count_le_one) (simp add: primary_key_def)
    finally have "length (filter ?P rows) = 1" using ge by simp
    with False sel show ?thesis by simp
  qed
qed

lemma join_alt:
  "joinSpacesWhereProject rows spaceRows pid
     = concat (map (\<lambda>d. map (\<lambda>s. d)
         [s \<leftarrow> spaceRows. sql_eq (getProp d ''space_id'') (getProp s ''space_id'')
                            \<and> sql_eq (getProp s ''project_id'') pid]) rows)"
proof -
  have "concat (map (\<lambda>s. if sql_eq (getProp d ''space_id'') (getProp s ''space_id'')
                          then if sql_eq (getProp s ''project_id'') pid then [d] else []
                          else []) xs)
        = map (\<lambda>s. d) [s \<leftarrow> xs. sql_eq (getProp d ''space_id'') (getProp s ''space_id'')
                            \<and> sql_eq (getProp s ''project_id'') pid]" for d :: row and xs
    by (induction xs) auto
  then show ?thesis
    unfolding joinSpacesWhereProject_def by simp
qed

lemma set_joinSpacesWhereProject:
  "set (joinSpacesWhereProject rows spaceRows pid)
     = {d \<in> set rows. \<exists>s \<in> set spaceRows. sql_eq (getProp d ''space_id'') (getProp s ''space_id'')
                          \<and> sql_eq (getProp s ''project_id'') pid}"
  by (auto simp: join_alt)

lemma groupByMax_attained:
  assumes pk: "primary_key idCol rows"
    and v: "v \<in> set (groupByMax groupCol idCol (whereIn groupCol ids rows))"
  shows "\<exists>w \<in> set rows. getProp w idCol = v \<and> v \<noteq> JNull \<and> v \<noteq> JUndefined"
proof -
  let ?F = "whereIn groupCol ids rows"
  let ?nid = "\<lambda>r. num (getProp r idCol)"
  from v obtain g where g: "g \<in> (\<lambda>r. getProp r groupCol) ` set ?F"
    and veq: "v = JNum (Max (set (map ?nid [r \<leftarrow> ?F. getProp r groupCol = g])))"
    by (auto simp: groupByMax_def)
  let ?A = "set (map ?nid [r \<leftarrow> ?F. getProp r groupCol = g])"
  from g have ne: "?A \<noteq> {}" by auto
  from Max_in [OF _ ne] obtain w where w: "w \<in> set ?F" and wm: "?nid w = Max ?A"
    by auto
  from w have wr: "w \<in> set rows" by (simp add: whereIn_def)
  from primary_key_num [OF pk wr] wm veq have "getProp w idCol = v" by simp
  with wr veq show ?thesis by blast
qed

lemma whereIn_mem:
  "d \<in> set (whereIn col vs rows) \<longleftrightarrow> d \<in> set rows \<and> (\<exists>v \<in> set vs. sql_eq (getProp d col) v)"
  by (simp add: whereIn_def)

lemma whereIn_latest:
  assumes "primary_key idCol rows"
  shows "whereIn idCol (groupByMax groupCol idCol (whereIn groupCol ids rows)) rows
           = latest_of groupCol idCol ids rows"
  unfolding latest_of_def by (rule whereIn_groupByMax [OF assms])

lemma latest_of_count:
  assumes "primary_key idCol rows" "c \<in> set ids"
  shows "length [v \<leftarrow> latest_of groupCol idCol ids rows. getProp v groupCol = c]
           = (if [w \<leftarrow> rows. sql_eq (getProp w groupCol) c] = [] then 0 else 1)"
  using latest_count [OF assms, of groupCol] by (simp only: whereIn_latest [OF assms(1)])

lemma latest_of_key:
  "d \<in> set (latest_of groupCol idCol ids rows) \<Longrightarrow> getProp d groupCol \<in> set ids"
  by (auto simp: latest_of_def sql_eq_def)

lemma whereIn_key: "d \<in> set (whereIn col ids rows) \<Longrightarrow> getProp d col \<in> set ids"
  by (auto simp: whereIn_def sql_eq_def)

text \<open>
  With a primary key, selecting by the greatest ids and selecting by the ids of the rows
  that hold them is the same.
\<close>

lemma whereIn_max_ids:
  assumes pk: "primary_key idCol rows"
  shows "whereIn col (groupByMax groupCol idCol (whereIn groupCol ids rows)) xs
       = whereIn col (map (\<lambda>d. getProp d idCol) (latest_of groupCol idCol ids rows)) xs"
proof (rule whereIn_cong_set)
  fix x
  let ?vids = "groupByMax groupCol idCol (whereIn groupCol ids rows)"
  have sel: "latest_of groupCol idCol ids rows = whereIn idCol ?vids rows"
    by (simp only: whereIn_latest [OF pk])
  show "(\<exists>v \<in> set ?vids. sql_eq x v)
        \<longleftrightarrow> (\<exists>v \<in> set (map (\<lambda>d. getProp d idCol) (latest_of groupCol idCol ids rows)). sql_eq x v)"
  proof
    assume "\<exists>v \<in> set ?vids. sql_eq x v"
    then obtain v where v: "v \<in> set ?vids" "sql_eq x v" by blast
    from groupByMax_attained [OF pk v(1)] obtain w where
      w: "w \<in> set rows" "getProp w idCol = v" "v \<noteq> JNull" "v \<noteq> JUndefined" by blast
    with v have "w \<in> set (whereIn idCol ?vids rows)"
      by (auto simp: whereIn_mem sql_eq_def)
    with w v show "\<exists>v \<in> set (map (\<lambda>d. getProp d idCol) (latest_of groupCol idCol ids rows)). sql_eq x v"
      unfolding sel by auto
  next
    assume "\<exists>v \<in> set (map (\<lambda>d. getProp d idCol) (latest_of groupCol idCol ids rows)). sql_eq x v"
    then obtain w where w: "w \<in> set (whereIn idCol ?vids rows)" "sql_eq x (getProp w idCol)"
      unfolding sel by auto
    from whereIn_key [OF w(1)] w(2) show "\<exists>v \<in> set ?vids. sql_eq x v" by blast
  qed
qed

text \<open>The copies of rows selected for a lookup that cannot fail.\<close>

lemma copied_lookup:
  assumes new: "new = returning_rows st T ex (map f src)"
    and key: "\<And>d. d \<in> set src \<Longrightarrow> getProp d col \<in> set (map id' M)"
    and val: "\<And>d. f d col = Some (newIdOf M (getProp d col))"
    and defd: "\<And>d e. d \<in> set src \<Longrightarrow> e \<in> set M \<Longrightarrow> id' e = getProp d col
                 \<Longrightarrow> newId e \<noteq> JUndefined"
    and ser: "serial_column T \<noteq> Some col" "uuid_column T \<noteq> Some col"
  shows "list_all2 (resolved_to M col) src new"
  unfolding new
proof (rule list_all2_returning_rows, rule resolved_toI)
  fix n d assume d: "d \<in> set src"
  then show "getProp d col \<in> set (map id' M)" by (rule key)
  show "getProp (stored_row st T n (f d)) col = remap M (getProp d col)"
    using val defd [OF d] ser by (intro stored_remap)
qed

text \<open>The copies of rows whose lookup is not known to succeed.\<close>

lemma copied_remap:
  assumes new: "new = returning_rows st T ex (map f src)"
    and val: "\<And>d. f d col = Some (newIdOf M (getProp d col))"
    and defd: "\<And>e. e \<in> set M \<Longrightarrow> newId e \<noteq> JUndefined"
    and ser: "serial_column T \<noteq> Some col" "uuid_column T \<noteq> Some col"
  shows "list_all2 (\<lambda>d r. getProp r col = remap M (getProp d col)) src new"
  unfolding new
  by (rule list_all2_returning_rows) (intro stored_remap val defd ser)

lemma copied_except:
  assumes new: "new = returning_rows st T ex (map f src)"
    and keep: "\<And>d k. k \<notin> set cols \<Longrightarrow> f d k = d k"
    and ser: "\<And>k. serial_column T = Some k \<Longrightarrow> k \<in> set cols"
    and uu: "\<And>k. uuid_column T = Some k \<Longrightarrow> k \<in> set cols"
  shows "list_all2 (copy_except cols) src new"
  unfolding new
  by (rule list_all2_returning_rows) (intro stored_copy_except keep ser uu)

text \<open>A row joined to a space of the project is selected, whatever spaces were added.\<close>

lemma join_scope:
  assumes "d \<in> set rows" "s \<in> set spaceRows"
    and "sql_eq (getProp d ''space_id'') (getProp s ''space_id'')"
    and "getProp s ''project_id'' = JNum pid"
  shows "d \<in> set (joinSpacesWhereProject rows (spaceRows @ added) (JNum pid))"
  using assms unfolding set_joinSpacesWhereProject by (auto simp: sql_eq_def)

text \<open>The stored copy of a row of tile content.\<close>

lemma stored_tile_content:
  fixes st :: storage and t :: string and n :: int and cm dvm tm :: "idmap list" and d :: row
  assumes ser: "serial_column t = None" "uuid_column t = None"
    and kv: "getProp d ''dashboard_version_id'' \<in> set (map id' dvm)"
    and ku: "getProp d ''dashboard_tile_uuid'' \<in> set (map id' tm)"
    and dv: "\<And>e. e \<in> set dvm \<Longrightarrow> newId e \<noteq> JUndefined"
    and dt: "\<And>e. e \<in> set tm \<Longrightarrow> id' e = getProp d ''dashboard_tile_uuid'' \<Longrightarrow> newId e \<noteq> JUndefined"
    and dc: "\<And>e. e \<in> set cm \<Longrightarrow> newId e \<noteq> JUndefined"
  defines "r \<equiv> stored_row st t n (createTileContent cm dvm tm d)"
  shows "resolved_to dvm ''dashboard_version_id'' d r"
    and "resolved_to tm ''dashboard_tile_uuid'' d r"
    and "if truthy (getProp d ''saved_chart_id'')
         then getProp r ''saved_chart_id'' = remap cm (getProp d ''saved_chart_id'')
         else r ''saved_chart_id''
                = (if d ''saved_chart_id'' = Some JUndefined then Some JNull
                   else d ''saved_chart_id'')"
proof -
  let ?c = "createTileContent cm dvm tm d"
  have v: "?c ''dashboard_version_id'' = Some (newIdOf dvm (getProp d ''dashboard_version_id''))"
    by (simp add: createTileContent_def)
  have u: "?c ''dashboard_tile_uuid'' = Some (newIdOf tm (getProp d ''dashboard_tile_uuid''))"
    by (simp add: createTileContent_def)
  have c: "?c ''saved_chart_id''
             = (if truthy (getProp d ''saved_chart_id'')
                then Some (newIdOf cm (getProp d ''saved_chart_id'')) else d ''saved_chart_id'')"
    by (simp add: createTileContent_def map_add_def)
  from ser have s: "serial_column t \<noteq> Some col" "uuid_column t \<noteq> Some col" for col
    by simp_all
  show "resolved_to dvm ''dashboard_version_id'' d r"
    unfolding r_def by (rule resolved_toI [OF kv]) (intro stored_remap v dv s)
  show "resolved_to tm ''dashboard_tile_uuid'' d r"
    unfolding r_def by (rule resolved_toI [OF ku]) (intro stored_remap u dt s)
  show "if truthy (getProp d ''saved_chart_id'')
         then getProp r ''saved_chart_id'' = remap cm (getProp d ''saved_chart_id'')
         else r ''saved_chart_id''
                = (if d ''saved_chart_id'' = Some JUndefined then Some JNull
                   else d ''saved_chart_id'')"
  proof (cases "truthy (getProp d ''saved_chart_id'')")
    case True
    with c have "?c ''saved_chart_id'' = Some (newIdOf cm (getProp d ''saved_chart_id''))"
      by simp
    then have "getProp r ''saved_chart_id'' = remap cm (getProp d ''saved_chart_id'')"
      unfolding r_def by (intro stored_remap dc s)
    with True show ?thesis by simp
  next
    case False
    with c have "?c ''saved_chart_id'' = d ''saved_chart_id''" by simp
    with False ser show ?thesis
      by (simp add: r_def stored_row_def)
  qed
qed

lemma copied_tile_content:
  assumes new: "new = returning_rows st t ex (map (createTileContent cm dvm tm) src)"
    and src: "\<And>d. d \<in> set src \<Longrightarrow>
                getProp d ''dashboard_tile_uuid'' \<in> set (map id' tm)
                \<and> getProp d ''dashboard_tile_uuid'' \<noteq> JUndefined
                \<and> getProp d ''dashboard_version_id'' \<in> set (map id' dvm)"
    and ser: "serial_column t = None" "uuid_column t = None"
    and dv: "\<And>e. e \<in> set dvm \<Longrightarrow> newId e \<noteq> JUndefined"
    and dt: "\<And>e. e \<in> set tm \<Longrightarrow> id' e \<noteq> JUndefined \<Longrightarrow> newId e \<noteq> JUndefined"
    and dc: "\<And>e. e \<in> set cm \<Longrightarrow> newId e \<noteq> JUndefined"
  shows "list_all2
           (\<lambda>d r. resolved_to dvm ''dashboard_version_id'' d r
              \<and> resolved_to tm ''dashboard_tile_uuid'' d r
              \<and> (if truthy (getProp d ''saved_chart_id'')
                 then getProp r ''saved_chart_id'' = remap cm (getProp d ''saved_chart_id'')
                 else r ''saved_chart_id'' = (if d ''saved_chart_id'' = Some JUndefined then Some JNull
                                        else d ''saved_chart_id'')))
           src new"
  unfolding new
proof (rule list_all2_returning_rows, intro conjI)
  fix n d assume d: "d \<in> set src"
  from src [OF d] have ku: "getProp d ''dashboard_tile_uuid'' \<in> set (map id' tm)"
    and nu: "getProp d ''dashboard_tile_uuid'' \<noteq> JUndefined"
    and kv: "getProp d ''dashboard_version_id'' \<in> set (map id' dvm)" by auto
  have dt': "newId e \<noteq> JUndefined"
    if "e \<in> set tm" "id' e = getProp d ''dashboard_tile_uuid''" for e
    using dt [OF that(1)] that(2) nu by simp
  note s = stored_tile_content [OF ser kv ku dv dt' dc, where st=st and n=n]
  show "resolved_to dvm ''dashboard_version_id'' d
          (stored_row st t n (createTileContent cm dvm tm d))"
    by (rule s(1))
  show "resolved_to tm ''dashboard_tile_uuid'' d
          (stored_row st t n (createTileContent cm dvm tm d))"
    by (rule s(2))
  show "if truthy (getProp d ''saved_chart_id'')
        then getProp (stored_row st t n (createTileContent cm dvm tm d)) ''saved_chart_id''
               = remap cm (getProp d ''saved_chart_id'')
        else stored_row st t n (createTileContent cm dvm tm d) ''saved_chart_id''
               = (if d ''saved_chart_id'' = Some JUndefined then Some JNull
                  else d ''saved_chart_id'')"
    by (rule s(3))
qed

subsection \<open>The copies made by a successful call\<close>

text \<open>
  The database after a successful call, table by table: the rows added are the stored
  copies of the rows selected, the mappings pair the ids of the rows selected with the ids
  of their copies, new ids are new, and every column written from a lookup holds what the
  lookup gives.  \<open>tiles\<close> is \<^verbatim>\<open>dashboardTilesMapping\<close>, which is no part of the mapping
  record.
\<close>

lemma duplicateContent_copies:
  fixes st :: storage and db :: database and p q :: uuid
  defines "T \<equiv> tables db"
    and "T' \<equiv> tables (snd (duplicateContent st db p q))"
    and "m \<equiv> content_mapping (last (preview_content_table (snd (duplicateContent st db p q))))"
  defines "new \<equiv> \<lambda>t. drop (length (T t)) (T' t)"
  assumes ok: "fst (duplicateContent st db p q) = Inr ()"
    and pkc: "primary_key ''saved_queries_version_id'' (tables db ''saved_queries_versions'')"
    and pkd: "primary_key ''dashboard_version_id'' (tables db ''dashboard_versions'')"
  obtains proj tiles where
    "first [x \<leftarrow> projects_table db. project_uuid x = p] = Some proj"
    "\<forall>t. T' t = T t @ new t"
    "map id' (spaces m) = map (\<lambda>d. getProp d ''space_id'') ([s \<leftarrow> T ''spaces''. getProp s ''project_id'' = (JNum (project_id proj))])"
    "map newId (spaces m) = map (\<lambda>d. getProp d ''space_id'') (new ''spaces'')"
    "fresh_ids ''space_id'' (T ''spaces'') (new ''spaces'')"
    "map id' (charts m) = map (\<lambda>d. getProp d ''saved_query_id'') ([d. d \<leftarrow> T ''saved_queries'', s \<leftarrow> T' ''spaces'',
                  sql_eq (getProp d ''space_id'') (getProp s ''space_id''),
                  sql_eq (getProp s ''project_id'') (JNum (project_id proj))])"
    "map newId (charts m) = map (\<lambda>d. getProp d ''saved_query_id'') (new ''saved_queries'')"
    "fresh_ids ''saved_query_id'' (T ''saved_queries'') (new ''saved_queries'')"
    "map id' (chartVersions m) = map (\<lambda>d. getProp d ''saved_queries_version_id'') (latest_of ''saved_query_id'' ''saved_queries_version_id'' (map id' (charts m)) (T ''saved_queries_versions''))"
    "map newId (chartVersions m) = map (\<lambda>d. getProp d ''saved_queries_version_id'') (new ''saved_queries_versions'')"
    "fresh_ids ''saved_queries_version_id'' (T ''saved_queries_versions'') (new ''saved_queries_versions'')"
    "map id' (dashboards m) = map (\<lambda>d. getProp d ''dashboard_id'') ([d. d \<leftarrow> T ''dashboards'', s \<leftarrow> T' ''spaces'',
                  sql_eq (getProp d ''space_id'') (getProp s ''space_id''),
                  sql_eq (getProp s ''project_id'') (JNum (project_id proj))])"
    "map newId (dashboards m) = map (\<lambda>d. getProp d ''dashboard_id'') (new ''dashboards'')"
    "fresh_ids ''dashboard_id'' (T ''dashboards'') (new ''dashboards'')"
    "map id' (dashboardVersions m) = map (\<lambda>d. getProp d ''dashboard_version_id'') (latest_of ''dashboard_id'' ''dashboard_version_id'' (map id' (dashboards m)) (T ''dashboard_versions''))"
    "map newId (dashboardVersions m) = map (\<lambda>d. getProp d ''dashboard_version_id'') (new ''dashboard_versions'')"
    "fresh_ids ''dashboard_version_id'' (T ''dashboard_versions'') (new ''dashboard_versions'')"
    "map id' tiles = map (\<lambda>d. getProp d ''dashboard_tile_uuid'') ([d \<leftarrow> T ''dashboard_tiles''. \<exists>c \<in> set (map id' (dashboardVersions m)). sql_eq (getProp d ''dashboard_version_id'') c])"
    "map newId tiles = map (\<lambda>d. getProp d ''dashboard_tile_uuid'') (new ''dashboard_tiles'')"
    "list_all2 (resolved_to (spaces m) ''space_id'') ([d \<leftarrow> T ''space_share''. \<exists>c \<in> set (map id' (spaces m)). sql_eq (getProp d ''space_id'') c]) (new ''space_share'')"
    "list_all2 (\<lambda>d r. getProp r ''space_id'' = remap (spaces m) (getProp d ''space_id''))
          ([d. d \<leftarrow> T ''saved_queries'', s \<leftarrow> T' ''spaces'',
                  sql_eq (getProp d ''space_id'') (getProp s ''space_id''),
                  sql_eq (getProp s ''project_id'') (JNum (project_id proj))]) (new ''saved_queries'')"
    "\<forall>d \<in> set (T ''saved_queries'').
          (\<exists>s \<in> set (T ''spaces''). sql_eq (getProp d ''space_id'') (getProp s ''space_id'')
                  \<and> getProp s ''project_id'' = (JNum (project_id proj)))
          \<longrightarrow> d \<in> set ([d. d \<leftarrow> T ''saved_queries'', s \<leftarrow> T' ''spaces'',
                  sql_eq (getProp d ''space_id'') (getProp s ''space_id''),
                  sql_eq (getProp s ''project_id'') (JNum (project_id proj))])"
    "list_all2 (\<lambda>d r. (\<exists>s \<in> set (T ''spaces''). sql_eq (getProp d ''space_id'') (getProp s ''space_id'')
                  \<and> getProp s ''project_id'' = (JNum (project_id proj)))
                    \<longrightarrow> resolved_to (spaces m) ''space_id'' d r)
          ([d. d \<leftarrow> T ''saved_queries'', s \<leftarrow> T' ''spaces'',
                  sql_eq (getProp d ''space_id'') (getProp s ''space_id''),
                  sql_eq (getProp s ''project_id'') (JNum (project_id proj))]) (new ''saved_queries'')"
    "list_all2 (resolved_to (charts m) ''saved_query_id'') (latest_of ''saved_query_id'' ''saved_queries_version_id'' (map id' (charts m)) (T ''saved_queries_versions'')) (new ''saved_queries_versions'')"
    "list_all2 (copy_except [''saved_queries_version_id'', ''saved_queries_version_uuid'', ''saved_query_id''])
          (latest_of ''saved_query_id'' ''saved_queries_version_id'' (map id' (charts m)) (T ''saved_queries_versions'')) (new ''saved_queries_versions'')"
    "list_all2 (resolved_to (chartVersions m) ''saved_queries_version_id'')
          ([d \<leftarrow> T ''saved_queries_version_table_calculations''. \<exists>c \<in> set (map id' (chartVersions m)). sql_eq (getProp d ''saved_queries_version_id'') c]) (new ''saved_queries_version_table_calculations'')"
    "list_all2 (resolved_to (chartVersions m) ''saved_queries_version_id'')
          ([d \<leftarrow> T ''saved_queries_version_sorts''. \<exists>c \<in> set (map id' (chartVersions m)). sql_eq (getProp d ''saved_queries_version_id'') c]) (new ''saved_queries_version_sorts'')"
    "list_all2 (resolved_to (chartVersions m) ''saved_queries_version_id'')
          ([d \<leftarrow> T ''saved_queries_version_fields''. \<exists>c \<in> set (map id' (chartVersions m)). sql_eq (getProp d ''saved_queries_version_id'') c]) (new ''saved_queries_version_fields'')"
    "list_all2 (resolved_to (chartVersions m) ''saved_queries_version_id'')
          ([d \<leftarrow> T ''saved_queries_version_additional_metrics''. \<exists>c \<in> set (map id' (chartVersions m)). sql_eq (getProp d ''saved_queries_version_id'') c]) (new ''saved_queries_version_additional_metrics'')"
    "list_all2 (\<lambda>d r. getProp r ''space_id'' = remap (spaces m) (getProp d ''space_id''))
          ([d. d \<leftarrow> T ''dashboards'', s \<leftarrow> T' ''spaces'',
                  sql_eq (getProp d ''space_id'') (getProp s ''space_id''),
                  sql_eq (getProp s ''project_id'') (JNum (project_id proj))]) (new ''dashboards'')"
    "\<forall>d \<in> set (T ''dashboards'').
          (\<exists>s \<in> set (T ''spaces''). sql_eq (getProp d ''space_id'') (getProp s ''space_id'')
                  \<and> getProp s ''project_id'' = (JNum (project_id proj)))
          \<longrightarrow> d \<in> set ([d. d \<leftarrow> T ''dashboards'', s \<leftarrow> T' ''spaces'',
                  sql_eq (getProp d ''space_id'') (getProp s ''space_id''),
                  sql_eq (getProp s ''project_id'') (JNum (project_id proj))])"
    "list_all2 (\<lambda>d r. (\<exists>s \<in> set (T ''spaces''). sql_eq (getProp d ''space_id'') (getProp s ''space_id'')
                  \<and> getProp s ''project_id'' = (JNum (project_id proj)))
                    \<longrightarrow> resolved_to (spaces m) ''space_id'' d r)
          ([d. d \<leftarrow> T ''dashboards'', s \<leftarrow> T' ''spaces'',
                  sql_eq (getProp d ''space_id'') (getProp s ''space_id''),
                  sql_eq (getProp s ''project_id'') (JNum (project_id proj))]) (new ''dashboards'')"
    "list_all2 (resolved_to (dashboards m) ''dashboard_id'') (latest_of ''dashboard_id'' ''dashboard_version_id'' (map id' (dashboards m)) (T ''dashboard_versions'')) (new ''dashboard_versions'')"
    "list_all2 (copy_except [''dashboard_version_id'', ''dashboard_id''])
          (latest_of ''dashboard_id'' ''dashboard_version_id'' (map id' (dashboards m)) (T ''dashboard_versions'')) (new ''dashboard_versions'')"
    "list_all2 (resolved_to (dashboardVersions m) ''dashboard_version_id'') ([d \<leftarrow> T ''dashboard_tiles''. \<exists>c \<in> set (map id' (dashboardVersions m)). sql_eq (getProp d ''dashboard_version_id'') c]) (new ''dashboard_tiles'')"
    "list_all2
            (\<lambda>d r. resolved_to (dashboardVersions m) ''dashboard_version_id'' d r
               \<and> resolved_to tiles ''dashboard_tile_uuid'' d r
               \<and> (if truthy (getProp d ''saved_chart_id'')
                  then getProp r ''saved_chart_id'' = remap (charts m) (getProp d ''saved_chart_id'')
                  else r ''saved_chart_id'' = (if d ''saved_chart_id'' = Some JUndefined then Some JNull
                                         else d ''saved_chart_id'')))
          ([d \<leftarrow> T ''dashboard_tile_charts''.
                  (\<exists>u \<in> set (map id' tiles). sql_eq (getProp d ''dashboard_tile_uuid'') u)
                  \<and> (\<exists>c \<in> set (map id' (dashboardVersions m)). sql_eq (getProp d ''dashboard_version_id'') c)]) (new ''dashboard_tile_charts'')"
    "list_all2
            (\<lambda>d r. resolved_to (dashboardVersions m) ''dashboard_version_id'' d r
               \<and> resolved_to tiles ''dashboard_tile_uuid'' d r
               \<and> (if truthy (getProp d ''saved_chart_id'')
                  then getProp r ''saved_chart_id'' = remap (charts m) (getProp d ''saved_chart_id'')
                  else r ''saved_chart_id'' = (if d ''saved_chart_id'' = Some JUndefined then Some JNull
                                         else d ''saved_chart_id'')))
          ([d \<leftarrow> T ''dashboard_tile_looms''.
                  (\<exists>u \<in> set (map id' tiles). sql_eq (getProp d ''dashboard_tile_uuid'') u)
                  \<and> (\<exists>c \<in> set (map id' (dashboardVersions m)). sql_eq (getProp d ''dashboard_version_id'') c)]) (new ''dashboard_tile_looms'')"
    "list_all2
            (\<lambda>d r. resolved_to (dashboardVersions m) ''dashboard_version_id'' d r
               \<and> resolved_to tiles ''dashboard_tile_uuid'' d r
               \<and> (if truthy (getProp d ''saved_chart_id'')
                  then getProp r ''saved_chart_id'' = remap (charts m) (getProp d ''saved_chart_id'')
                  else r ''saved_chart_id'' = (if d ''saved_chart_id'' = Some JUndefined then Some JNull
                                         else d ''saved_chart_id'')))
          ([d \<leftarrow> T ''dashboard_tile_markdowns''.
                  (\<exists>u \<in> set (map id' tiles). sql_eq (getProp d ''dashboard_tile_uuid'') u)
                  \<and> (\<exists>c \<in> set (map id' (dashboardVersions m)). sql_eq (getProp d ''dashboard_version_id'') c)]) (new ''dashboard_tile_markdowns'')"
proof (rule duplicateContent_success [OF ok], goal_cases)
  case (1 proj ppid sm cm cvm dm dvm tm nSp nSh nCh nCv nC1 nC2 nC3 nC4 nD nDv nT nT1 nT2 nT3)
  note S = 1(2-30)
  have T'eq: "T' = T
         (''spaces'' := T ''spaces'' @ nSp,
          ''space_share'' := T ''space_share'' @ nSh,
          ''saved_queries'' := T ''saved_queries'' @ nCh,
          ''saved_queries_versions'' := T ''saved_queries_versions'' @ nCv,
          ''saved_queries_version_table_calculations'' := T ''saved_queries_version_table_calculations'' @ nC1,
          ''saved_queries_version_sorts'' := T ''saved_queries_version_sorts'' @ nC2,
          ''saved_queries_version_fields'' := T ''saved_queries_version_fields'' @ nC3,
          ''saved_queries_version_additional_metrics'' := T ''saved_queries_version_additional_metrics'' @ nC4,
          ''dashboards'' := T ''dashboards'' @ nD,
          ''dashboard_versions'' := T ''dashboard_versions'' @ nDv,
          ''dashboard_tiles'' := T ''dashboard_tiles'' @ nT,
          ''dashboard_tile_charts'' := T ''dashboard_tile_charts'' @ nT1,
          ''dashboard_tile_looms'' := T ''dashboard_tile_looms'' @ nT2,
          ''dashboard_tile_markdowns'' := T ''dashboard_tile_markdowns'' @ nT3)"
    unfolding T'_def T_def by (simp add: S(2))
  have m: "m = \<lparr>charts = cm, chartVersions = cvm, spaces = sm, dashboards = dm,
                 dashboardVersions = dvm\<rparr>"
    unfolding m_def by (simp add: S(2))
  have msp: "spaces m = sm" and mch: "charts m = cm" and mcv: "chartVersions m = cvm"
    and mdd: "dashboards m = dm" and mdv: "dashboardVersions m = dvm"
    by (simp_all add: m)
  note ms = msp mch mcv mdd mdv
  have app: "\<forall>t. T' t = T t @ new t"
    unfolding new_def T'eq by simp
  have nw:
    "new ''spaces'' = nSp"
    "new ''space_share'' = nSh"
    "new ''saved_queries'' = nCh"
    "new ''saved_queries_versions'' = nCv"
    "new ''saved_queries_version_table_calculations'' = nC1"
    "new ''saved_queries_version_sorts'' = nC2"
    "new ''saved_queries_version_fields'' = nC3"
    "new ''saved_queries_version_additional_metrics'' = nC4"
    "new ''dashboards'' = nD"
    "new ''dashboard_versions'' = nDv"
    "new ''dashboard_tiles'' = nT"
    "new ''dashboard_tile_charts'' = nT1"
    "new ''dashboard_tile_looms'' = nT2"
    "new ''dashboard_tile_markdowns'' = nT3"
    unfolding new_def T'eq by simp_all
  have T'sp: "T' ''spaces'' = T ''spaces'' @ nSp"
    unfolding T'eq by simp
  note pkc' = pkc [folded T_def] and pkd' = pkd [folded T_def]
  have eSp: "nSp = returning_rows st ''spaces'' (T ''spaces'')
       (map (createSpace ppid) ([s \<leftarrow> T ''spaces''. getProp s ''project_id'' = (JNum (project_id proj))]))"
    using S(4) [folded T_def] unfolding whereEq_JNum .
  have iSp: "map id' sm = map (\<lambda>d. getProp d ''space_id'') ([s \<leftarrow> T ''spaces''. getProp s ''project_id'' = (JNum (project_id proj))])"
    using S(18) [folded T_def] unfolding whereEq_JNum .
  have eSh: "nSh = returning_rows st ''space_share'' (T ''space_share'')
       (map (createSpaceShare sm) ([d \<leftarrow> T ''space_share''. \<exists>c \<in> set (map id' sm). sql_eq (getProp d ''space_id'') c]))"
    using S(5) [folded T_def] unfolding whereIn_def .
  have eCh: "nCh = returning_rows st ''saved_queries'' (T ''saved_queries'')
       (map (createChart sm) ([d. d \<leftarrow> T ''saved_queries'', s \<leftarrow> T' ''spaces'',
                 sql_eq (getProp d ''space_id'') (getProp s ''space_id''),
                 sql_eq (getProp s ''project_id'') (JNum (project_id proj))]))"
    using S(6) [folded T_def] unfolding T'sp joinSpacesWhereProject_def .
  have iCh: "map id' cm = map (\<lambda>d. getProp d ''saved_query_id'') ([d. d \<leftarrow> T ''saved_queries'', s \<leftarrow> T' ''spaces'',
                 sql_eq (getProp d ''space_id'') (getProp s ''space_id''),
                 sql_eq (getProp s ''project_id'') (JNum (project_id proj))])"
    using S(19) [folded T_def] unfolding T'sp joinSpacesWhereProject_def .
  have sCv: "chartVersions_of (map id' cm) (T ''saved_queries_versions'') = (latest_of ''saved_query_id'' ''saved_queries_version_id'' (map id' cm) (T ''saved_queries_versions''))"
    unfolding chartVersions_of_def lastVersionIds_def by (rule whereIn_latest [OF pkc'])
  have eCv: "nCv = returning_rows st ''saved_queries_versions'' (T ''saved_queries_versions'')
       (map (createChartVersion cm) (latest_of ''saved_query_id'' ''saved_queries_version_id'' (map id' cm) (T ''saved_queries_versions'')))"
    using S(7) [folded T_def] unfolding sCv .
  have iCv: "map id' cvm = map (\<lambda>d. getProp d ''saved_queries_version_id'') (latest_of ''saved_query_id'' ''saved_queries_version_id'' (map id' cm) (T ''saved_queries_versions''))"
    using S(20) [folded T_def] unfolding sCv .
  have eC1: "nC1 = returning_rows st ''saved_queries_version_table_calculations'' (T ''saved_queries_version_table_calculations'')
       (map (createContent cvm ''saved_queries_version_table_calculation_id'') ([d \<leftarrow> T ''saved_queries_version_table_calculations''. \<exists>c \<in> set (map id' cvm). sql_eq (getProp d ''saved_queries_version_id'') c]))"
    using S(8) [folded T_def] unfolding whereIn_def .
  have eC2: "nC2 = returning_rows st ''saved_queries_version_sorts'' (T ''saved_queries_version_sorts'')
       (map (createContent cvm ''saved_queries_version_sort_id'') ([d \<leftarrow> T ''saved_queries_version_sorts''. \<exists>c \<in> set (map id' cvm). sql_eq (getProp d ''saved_queries_version_id'') c]))"
    using S(9) [folded T_def] unfolding whereIn_def .
  have eC3: "nC3 = returning_rows st ''saved_queries_version_fields'' (T ''saved_queries_version_fields'')
       (map (createContent cvm ''saved_queries_version_field_id'') ([d \<leftarrow> T ''saved_queries_version_fields''. \<exists>c \<in> set (map id' cvm). sql_eq (getProp d ''saved_queries_version_id'') c]))"
    using S(10) [folded T_def] unfolding whereIn_def .
  have eC4: "nC4 = returning_rows st ''saved_queries_version_additional_metrics'' (T ''saved_queries_version_additional_metrics'')
       (map (createContent cvm ''saved_queries_version_additional_metric_id'') ([d \<leftarrow> T ''saved_queries_version_additional_metrics''. \<exists>c \<in> set (map id' cvm). sql_eq (getProp d ''saved_queries_version_id'') c]))"
    using S(11) [folded T_def] unfolding whereIn_def .
  have eD: "nD = returning_rows st ''dashboards'' (T ''dashboards'')
       (map (createDashboard sm) ([d. d \<leftarrow> T ''dashboards'', s \<leftarrow> T' ''spaces'',
                 sql_eq (getProp d ''space_id'') (getProp s ''space_id''),
                 sql_eq (getProp s ''project_id'') (JNum (project_id proj))]))"
    using S(12) [folded T_def] unfolding T'sp joinSpacesWhereProject_def .
  have iD: "map id' dm = map (\<lambda>d. getProp d ''dashboard_id'') ([d. d \<leftarrow> T ''dashboards'', s \<leftarrow> T' ''spaces'',
                 sql_eq (getProp d ''space_id'') (getProp s ''space_id''),
                 sql_eq (getProp s ''project_id'') (JNum (project_id proj))])"
    using S(21) [folded T_def] unfolding T'sp joinSpacesWhereProject_def .
  have sDv: "whereIn ''dashboard_version_id'' (lastDashboardVersionsIds (map id' dm) (T ''dashboard_versions'')) (T ''dashboard_versions'')
               = (latest_of ''dashboard_id'' ''dashboard_version_id'' (map id' dm) (T ''dashboard_versions''))"
    unfolding lastDashboardVersionsIds_def by (rule whereIn_latest [OF pkd'])
  have eDv: "nDv = returning_rows st ''dashboard_versions'' (T ''dashboard_versions'')
       (map (createDashboardVersion dm) (latest_of ''dashboard_id'' ''dashboard_version_id'' (map id' dm) (T ''dashboard_versions'')))"
    using S(13) [folded T_def] unfolding sDv .
  have iDv: "map id' dvm = map (\<lambda>d. getProp d ''dashboard_version_id'') (latest_of ''dashboard_id'' ''dashboard_version_id'' (map id' dm) (T ''dashboard_versions''))"
    using S(22) [folded T_def] unfolding sDv .
  have vids: "whereIn col (lastDashboardVersionsIds (map id' dm) (T ''dashboard_versions'')) xs
                = whereIn col (map id' dvm) xs" for col xs
    by (simp only: lastDashboardVersionsIds_def whereIn_max_ids [OF pkd'] iDv)
  have eT: "nT = returning_rows st ''dashboard_tiles'' (T ''dashboard_tiles'')
       (map (createDashboardTile dvm) ([d \<leftarrow> T ''dashboard_tiles''. \<exists>c \<in> set (map id' dvm). sql_eq (getProp d ''dashboard_version_id'') c]))"
    using S(14) [folded T_def, unfolded vids] unfolding whereIn_def .
  have iT: "map id' tm = map (\<lambda>d. getProp d ''dashboard_tile_uuid'') ([d \<leftarrow> T ''dashboard_tiles''. \<exists>c \<in> set (map id' dvm). sql_eq (getProp d ''dashboard_version_id'') c])"
    using S(23) [folded T_def, unfolded vids] unfolding whereIn_def .
  have eT1: "nT1 = returning_rows st ''dashboard_tile_charts'' (T ''dashboard_tile_charts'')
       (map (createTileContent cm dvm tm) ([d \<leftarrow> T ''dashboard_tile_charts''.
                 (\<exists>u \<in> set (map id' tm). sql_eq (getProp d ''dashboard_tile_uuid'') u)
                 \<and> (\<exists>c \<in> set (map id' dvm). sql_eq (getProp d ''dashboard_version_id'') c)]))"
    using S(15) [folded T_def, unfolded vids] unfolding whereIn_whereIn .
  have eT2: "nT2 = returning_rows st ''dashboard_tile_looms'' (T ''dashboard_tile_looms'')
       (map (createTileContent cm dvm tm) ([d \<leftarrow> T ''dashboard_tile_looms''.
                 (\<exists>u \<in> set (map id' tm). sql_eq (getProp d ''dashboard_tile_uuid'') u)
                 \<and> (\<exists>c \<in> set (map id' dvm). sql_eq (getProp d ''dashboard_version_id'') c)]))"
    using S(16) [folded T_def, unfolded vids] unfolding whereIn_whereIn .
  have eT3: "nT3 = returning_rows st ''dashboard_tile_markdowns'' (T ''dashboard_tile_markdowns'')
       (map (createTileContent cm dvm tm) ([d \<leftarrow> T ''dashboard_tile_markdowns''.
                 (\<exists>u \<in> set (map id' tm). sql_eq (getProp d ''dashboard_tile_uuid'') u)
                 \<and> (\<exists>c \<in> set (map id' dvm). sql_eq (getProp d ''dashboard_version_id'') c)]))"
    using S(17) [folded T_def, unfolded vids] unfolding whereIn_whereIn .
  have fSp: "fresh_ids ''space_id'' (T ''spaces'') nSp"
    unfolding eSp
    by (rule returning_rows_fresh) (simp_all add: serial_column_def createSpace_def getProp_def)
  have fCh: "fresh_ids ''saved_query_id'' (T ''saved_queries'') nCh"
    unfolding eCh
    by (rule returning_rows_fresh) (simp_all add: serial_column_def createChart_def getProp_def)
  have fCv: "fresh_ids ''saved_queries_version_id'' (T ''saved_queries_versions'') nCv"
    unfolding eCv
    by (rule returning_rows_fresh) (simp_all add: serial_column_def createChartVersion_def getProp_def)
  have fD: "fresh_ids ''dashboard_id'' (T ''dashboards'') nD"
    unfolding eD
    by (rule returning_rows_fresh) (simp_all add: serial_column_def createDashboard_def getProp_def)
  have fDv: "fresh_ids ''dashboard_version_id'' (T ''dashboard_versions'') nDv"
    unfolding eDv
    by (rule returning_rows_fresh) (simp_all add: serial_column_def createDashboardVersion_def getProp_def)
  have dsm: "newId e \<noteq> JUndefined" if "e \<in> set sm" for e
    using fresh_newId [OF fSp S(24) that] .
  have dcm: "newId e \<noteq> JUndefined" if "e \<in> set cm" for e
    using fresh_newId [OF fCh S(25) that] .
  have dcvm: "newId e \<noteq> JUndefined" if "e \<in> set cvm" for e
    using fresh_newId [OF fCv S(26) that] .
  have ddm: "newId e \<noteq> JUndefined" if "e \<in> set dm" for e
    using fresh_newId [OF fD S(27) that] .
  have ddvm: "newId e \<noteq> JUndefined" if "e \<in> set dvm" for e
    using fresh_newId [OF fDv S(28) that] .
  have same: "list_all2 (\<lambda>d r. getProp d ''dashboard_tile_uuid'' \<noteq> JUndefined
                            \<longrightarrow> getProp r ''dashboard_tile_uuid'' = getProp d ''dashboard_tile_uuid'') ([d \<leftarrow> T ''dashboard_tiles''. \<exists>c \<in> set (map id' dvm). sql_eq (getProp d ''dashboard_version_id'') c]) nT"
    unfolding eT
    by (rule list_all2_returning_rows)
       (auto simp: stored_row_def createDashboardTile_def getProp_def serial_column_def
          uuid_column_def split: option.splits)
  have dtm: "newId e \<noteq> JUndefined" if "e \<in> set tm" "id' e \<noteq> JUndefined" for e
    using mapping_entry [OF iT S(29) same that(1)] that(2) by auto
  have F_Sp_ids: "map id' (spaces m) = map (\<lambda>d. getProp d ''space_id'') ([s \<leftarrow> T ''spaces''. getProp s ''project_id'' = (JNum (project_id proj))])"
    unfolding ms by (rule iSp)
  have F_Sp_new: "map newId (spaces m) = map (\<lambda>d. getProp d ''space_id'') (new ''spaces'')"
    unfolding ms nw by (rule S(24))
  have F_Sp_fresh: "fresh_ids ''space_id'' (T ''spaces'') (new ''spaces'')"
    unfolding nw by (rule fSp)
  have F_Ch_ids: "map id' (charts m) = map (\<lambda>d. getProp d ''saved_query_id'') ([d. d \<leftarrow> T ''saved_queries'', s \<leftarrow> T' ''spaces'',
                 sql_eq (getProp d ''space_id'') (getProp s ''space_id''),
                 sql_eq (getProp s ''project_id'') (JNum (project_id proj))])"
    unfolding ms by (rule iCh)
  have F_Ch_new: "map newId (charts m) = map (\<lambda>d. getProp d ''saved_query_id'') (new ''saved_queries'')"
    unfolding ms nw by (rule S(25))
  have F_Ch_fresh: "fresh_ids ''saved_query_id'' (T ''saved_queries'') (new ''saved_queries'')"
    unfolding nw by (rule fCh)
  have F_Cv_ids: "map id' (chartVersions m) = map (\<lambda>d. getProp d ''saved_queries_version_id'') (latest_of ''saved_query_id'' ''saved_queries_version_id'' (map id' (charts m)) (T ''saved_queries_versions''))"
    unfolding ms by (rule iCv)
  have F_Cv_new: "map newId (chartVersions m) = map (\<lambda>d. getProp d ''saved_queries_version_id'') (new ''saved_queries_versions'')"
    unfolding ms nw by (rule S(26))
  have F_Cv_fresh: "fresh_ids ''saved_queries_version_id'' (T ''saved_queries_versions'') (new ''saved_queries_versions'')"
    unfolding nw by (rule fCv)
  have F_D_ids: "map id' (dashboards m) = map (\<lambda>d. getProp d ''dashboard_id'') ([d. d \<leftarrow> T ''dashboards'', s \<leftarrow> T' ''spaces'',
                 sql_eq (getProp d ''space_id'') (getProp s ''space_id''),
                 sql_eq (getProp s ''project_id'') (JNum (project_id proj))])"
    unfolding ms by (rule iD)
  have F_D_new: "map newId (dashboards m) = map (\<lambda>d. getProp d ''dashboard_id'') (new ''dashboards'')"
    unfolding ms nw by (rule S(27))
  have F_D_fresh: "fresh_ids ''dashboard_id'' (T ''dashboards'') (new ''dashboards'')"
    unfolding nw by (rule fD)
  have F_Dv_ids: "map id' (dashboardVersions m) = map (\<lambda>d. getProp d ''dashboard_version_id'') (latest_of ''dashboard_id'' ''dashboard_version_id'' (map id' (dashboards m)) (T ''dashboard_versions''))"
    unfolding ms by (rule iDv)
  have F_Dv_new: "map newId (dashboardVersions m) = map (\<lambda>d. getProp d ''dashboard_version_id'') (new ''dashboard_versions'')"
    unfolding ms nw by (rule S(28))
  have F_Dv_fresh: "fresh_ids ''dashboard_version_id'' (T ''dashboard_versions'') (new ''dashboard_versions'')"
    unfolding nw by (rule fDv)
  have F_T_ids: "map id' tm = map (\<lambda>d. getProp d ''dashboard_tile_uuid'') ([d \<leftarrow> T ''dashboard_tiles''. \<exists>c \<in> set (map id' (dashboardVersions m)). sql_eq (getProp d ''dashboard_version_id'') c])"
    unfolding ms by (rule iT)
  have F_T_new: "map newId tm = map (\<lambda>d. getProp d ''dashboard_tile_uuid'') (new ''dashboard_tiles'')"
    unfolding nw by (rule S(29))
  have F_l_Sh: "list_all2 (resolved_to (spaces m) ''space_id'') ([d \<leftarrow> T ''space_share''. \<exists>c \<in> set (map id' (spaces m)). sql_eq (getProp d ''space_id'') c]) (new ''space_share'')"
    unfolding ms nw
    by (rule copied_lookup [OF eSh])
       (auto simp: sql_eq_def createSpaceShare_def getNewSpace_def serial_column_def
          uuid_column_def dsm)
  have keySp: "getProp d ''space_id'' \<in> set (map id' sm)"
    if "(\<exists>s \<in> set (T ''spaces''). sql_eq (getProp d ''space_id'') (getProp s ''space_id'')
                 \<and> getProp s ''project_id'' = (JNum (project_id proj)))" for d
    unfolding iSp using that by (force simp: sql_eq_def)
  have F_l_Ch: "list_all2 (\<lambda>d r. getProp r ''space_id'' = remap (spaces m) (getProp d ''space_id''))
         ([d. d \<leftarrow> T ''saved_queries'', s \<leftarrow> T' ''spaces'',
                 sql_eq (getProp d ''space_id'') (getProp s ''space_id''),
                 sql_eq (getProp s ''project_id'') (JNum (project_id proj))]) (new ''saved_queries'')"
    unfolding ms nw
    by (rule copied_remap [OF eCh])
       (simp_all add: createChart_def getNewSpace_def serial_column_def uuid_column_def dsm)
  have jCh: "([d. d \<leftarrow> T ''saved_queries'', s \<leftarrow> T' ''spaces'',
                 sql_eq (getProp d ''space_id'') (getProp s ''space_id''),
                 sql_eq (getProp s ''project_id'') (JNum (project_id proj))])
              = joinSpacesWhereProject (T ''saved_queries'') (T ''spaces'' @ nSp) (JNum (project_id proj))"
    unfolding T'sp joinSpacesWhereProject_def ..
  have F_s_Ch_in: "\<forall>d \<in> set (T ''saved_queries'').
         (\<exists>s \<in> set (T ''spaces''). sql_eq (getProp d ''space_id'') (getProp s ''space_id'')
                 \<and> getProp s ''project_id'' = (JNum (project_id proj)))
         \<longrightarrow> d \<in> set ([d. d \<leftarrow> T ''saved_queries'', s \<leftarrow> T' ''spaces'',
                 sql_eq (getProp d ''space_id'') (getProp s ''space_id''),
                 sql_eq (getProp s ''project_id'') (JNum (project_id proj))])"
    unfolding jCh by (auto intro: join_scope)
  have F_r_Ch: "list_all2 (\<lambda>d r. (\<exists>s \<in> set (T ''spaces''). sql_eq (getProp d ''space_id'') (getProp s ''space_id'')
                 \<and> getProp s ''project_id'' = (JNum (project_id proj)))
                   \<longrightarrow> resolved_to (spaces m) ''space_id'' d r)
         ([d. d \<leftarrow> T ''saved_queries'', s \<leftarrow> T' ''spaces'',
                 sql_eq (getProp d ''space_id'') (getProp s ''space_id''),
                 sql_eq (getProp s ''project_id'') (JNum (project_id proj))]) (new ''saved_queries'')"
    unfolding ms nw
    by (rule list_all2_mono [OF F_l_Ch [unfolded ms nw]]) (auto intro: resolved_toI keySp)
  have F_l_Cv: "list_all2 (resolved_to (charts m) ''saved_query_id'') (latest_of ''saved_query_id'' ''saved_queries_version_id'' (map id' (charts m)) (T ''saved_queries_versions'')) (new ''saved_queries_versions'')"
    unfolding ms nw
    by (rule copied_lookup [OF eCv])
       (auto simp: createChartVersion_def serial_column_def uuid_column_def dcm
          dest: latest_of_key)
  have F_k_Cv: "list_all2 (copy_except [''saved_queries_version_id'', ''saved_queries_version_uuid'', ''saved_query_id''])
         (latest_of ''saved_query_id'' ''saved_queries_version_id'' (map id' (charts m)) (T ''saved_queries_versions'')) (new ''saved_queries_versions'')"
    unfolding ms nw
    by (rule copied_except [OF eCv])
       (auto simp: createChartVersion_def serial_column_def uuid_column_def)
  have F_l_C1: "list_all2 (resolved_to (chartVersions m) ''saved_queries_version_id'')
         ([d \<leftarrow> T ''saved_queries_version_table_calculations''. \<exists>c \<in> set (map id' (chartVersions m)). sql_eq (getProp d ''saved_queries_version_id'') c]) (new ''saved_queries_version_table_calculations'')"
    unfolding ms nw
    by (rule copied_lookup [OF eC1])
       (auto simp: sql_eq_def createContent_def serial_column_def uuid_column_def dcvm)
  have F_l_C2: "list_all2 (resolved_to (chartVersions m) ''saved_queries_version_id'')
         ([d \<leftarrow> T ''saved_queries_version_sorts''. \<exists>c \<in> set (map id' (chartVersions m)). sql_eq (getProp d ''saved_queries_version_id'') c]) (new ''saved_queries_version_sorts'')"
    unfolding ms nw
    by (rule copied_lookup [OF eC2])
       (auto simp: sql_eq_def createContent_def serial_column_def uuid_column_def dcvm)
  have F_l_C3: "list_all2 (resolved_to (chartVersions m) ''saved_queries_version_id'')
         ([d \<leftarrow> T ''saved_queries_version_fields''. \<exists>c \<in> set (map id' (chartVersions m)). sql_eq (getProp d ''saved_queries_version_id'') c]) (new ''saved_queries_version_fields'')"
    unfolding ms nw
    by (rule copied_lookup [OF eC3])
       (auto simp: sql_eq_def createContent_def serial_column_def uuid_column_def dcvm)
  have F_l_C4: "list_all2 (resolved_to (chartVersions m) ''saved_queries_version_id'')
         ([d \<leftarrow> T ''saved_queries_version_additional_metrics''. \<exists>c \<in> set (map id' (chartVersions m)). sql_eq (getProp d ''saved_queries_version_id'') c]) (new ''saved_queries_version_additional_metrics'')"
    unfolding ms nw
    by (rule copied_lookup [OF eC4])
       (auto simp: sql_eq_def createContent_def serial_column_def uuid_column_def dcvm)
  have F_l_D: "list_all2 (\<lambda>d r. getProp r ''space_id'' = remap (spaces m) (getProp d ''space_id''))
         ([d. d \<leftarrow> T ''dashboards'', s \<leftarrow> T' ''spaces'',
                 sql_eq (getProp d ''space_id'') (getProp s ''space_id''),
                 sql_eq (getProp s ''project_id'') (JNum (project_id proj))]) (new ''dashboards'')"
    unfolding ms nw
    by (rule copied_remap [OF eD])
       (simp_all add: createDashboard_def getNewSpace_def serial_column_def uuid_column_def dsm)
  have jD: "([d. d \<leftarrow> T ''dashboards'', s \<leftarrow> T' ''spaces'',
                 sql_eq (getProp d ''space_id'') (getProp s ''space_id''),
                 sql_eq (getProp s ''project_id'') (JNum (project_id proj))])
              = joinSpacesWhereProject (T ''dashboards'') (T ''spaces'' @ nSp) (JNum (project_id proj))"
    unfolding T'sp joinSpacesWhereProject_def ..
  have F_s_D_in: "\<forall>d \<in> set (T ''dashboards'').
         (\<exists>s \<in> set (T ''spaces''). sql_eq (getProp d ''space_id'') (getProp s ''space_id'')
                 \<and> getProp s ''project_id'' = (JNum (project_id proj)))
         \<longrightarrow> d \<in> set ([d. d \<leftarrow> T ''dashboards'', s \<leftarrow> T' ''spaces'',
                 sql_eq (getProp d ''space_id'') (getProp s ''space_id''),
                 sql_eq (getProp s ''project_id'') (JNum (project_id proj))])"
    unfolding jD by (auto intro: join_scope)
  have F_r_D: "list_all2 (\<lambda>d r. (\<exists>s \<in> set (T ''spaces''). sql_eq (getProp d ''space_id'') (getProp s ''space_id'')
                 \<and> getProp s ''project_id'' = (JNum (project_id proj)))
                   \<longrightarrow> resolved_to (spaces m) ''space_id'' d r)
         ([d. d \<leftarrow> T ''dashboards'', s \<leftarrow> T' ''spaces'',
                 sql_eq (getProp d ''space_id'') (getProp s ''space_id''),
                 sql_eq (getProp s ''project_id'') (JNum (project_id proj))]) (new ''dashboards'')"
    unfolding ms nw
    by (rule list_all2_mono [OF F_l_D [unfolded ms nw]]) (auto intro: resolved_toI keySp)
  have F_l_Dv: "list_all2 (resolved_to (dashboards m) ''dashboard_id'') (latest_of ''dashboard_id'' ''dashboard_version_id'' (map id' (dashboards m)) (T ''dashboard_versions'')) (new ''dashboard_versions'')"
    unfolding ms nw
    by (rule copied_lookup [OF eDv])
       (auto simp: createDashboardVersion_def serial_column_def uuid_column_def ddm
          dest: latest_of_key)
  have F_k_Dv: "list_all2 (copy_except [''dashboard_version_id'', ''dashboard_id''])
         (latest_of ''dashboard_id'' ''dashboard_version_id'' (map id' (dashboards m)) (T ''dashboard_versions'')) (new ''dashboard_versions'')"
    unfolding ms nw
    by (rule copied_except [OF eDv])
       (auto simp: createDashboardVersion_def serial_column_def uuid_column_def)
  have F_l_T: "list_all2 (resolved_to (dashboardVersions m) ''dashboard_version_id'') ([d \<leftarrow> T ''dashboard_tiles''. \<exists>c \<in> set (map id' (dashboardVersions m)). sql_eq (getProp d ''dashboard_version_id'') c]) (new ''dashboard_tiles'')"
    unfolding ms nw
    by (rule copied_lookup [OF eT])
       (auto simp: sql_eq_def createDashboardTile_def serial_column_def uuid_column_def ddvm)
  have F_l_T1: "list_all2
           (\<lambda>d r. resolved_to (dashboardVersions m) ''dashboard_version_id'' d r
              \<and> resolved_to tm ''dashboard_tile_uuid'' d r
              \<and> (if truthy (getProp d ''saved_chart_id'')
                 then getProp r ''saved_chart_id'' = remap (charts m) (getProp d ''saved_chart_id'')
                 else r ''saved_chart_id'' = (if d ''saved_chart_id'' = Some JUndefined then Some JNull
                                        else d ''saved_chart_id'')))
         ([d \<leftarrow> T ''dashboard_tile_charts''.
                 (\<exists>u \<in> set (map id' tm). sql_eq (getProp d ''dashboard_tile_uuid'') u)
                 \<and> (\<exists>c \<in> set (map id' (dashboardVersions m)). sql_eq (getProp d ''dashboard_version_id'') c)]) (new ''dashboard_tile_charts'')"
    unfolding ms nw
    by (rule copied_tile_content [OF eT1])
       (auto simp: sql_eq_def serial_column_def uuid_column_def ddvm dcm dtm)
  have F_l_T2: "list_all2
           (\<lambda>d r. resolved_to (dashboardVersions m) ''dashboard_version_id'' d r
              \<and> resolved_to tm ''dashboard_tile_uuid'' d r
              \<and> (if truthy (getProp d ''saved_chart_id'')
                 then getProp r ''saved_chart_id'' = remap (charts m) (getProp d ''saved_chart_id'')
                 else r ''saved_chart_id'' = (if d ''saved_chart_id'' = Some JUndefined then Some JNull
                                        else d ''saved_chart_id'')))
         ([d \<leftarrow> T ''dashboard_tile_looms''.
                 (\<exists>u \<in> set (map id' tm). sql_eq (getProp d ''dashboard_tile_uuid'') u)
                 \<and> (\<exists>c \<in> set (map id' (dashboardVersions m)). sql_eq (getProp d ''dashboard_version_id'') c)]) (new ''dashboard_tile_looms'')"
    unfolding ms nw
    by (rule copied_tile_content [OF eT2])
       (auto simp: sql_eq_def serial_column_def uuid_column_def ddvm dcm dtm)
  have F_l_T3: "list_all2
           (\<lambda>d r. resolved_to (dashboardVersions m) ''dashboard_version_id'' d r
              \<and> resolved_to tm ''dashboard_tile_uuid'' d r
              \<and> (if truthy (getProp d ''saved_chart_id'')
                 then getProp r ''saved_chart_id'' = remap (charts m) (getProp d ''saved_chart_id'')
                 else r ''saved_chart_id'' = (if d ''saved_chart_id'' = Some JUndefined then Some JNull
                                        else d ''saved_chart_id'')))
         ([d \<leftarrow> T ''dashboard_tile_markdowns''.
                 (\<exists>u \<in> set (map id' tm). sql_eq (getProp d ''dashboard_tile_uuid'') u)
                 \<and> (\<exists>c \<in> set (map id' (dashboardVersions m)). sql_eq (getProp d ''dashboard_version_id'') c)]) (new ''dashboard_tile_markdowns'')"
    unfolding ms nw
    by (rule copied_tile_content [OF eT3])
       (auto simp: sql_eq_def serial_column_def uuid_column_def ddvm dcm dtm)
  show ?case
    by (rule that [OF S(1) app F_Sp_ids F_Sp_new F_Sp_fresh F_Ch_ids F_Ch_new F_Ch_fresh F_Cv_ids F_Cv_new F_Cv_fresh F_D_ids F_D_new F_D_fresh F_Dv_ids F_Dv_new F_Dv_fresh F_T_ids F_T_new F_l_Sh F_l_Ch F_s_Ch_in F_r_Ch F_l_Cv F_k_Cv F_l_C1 F_l_C2 F_l_C3 F_l_C4 F_l_D F_s_D_in F_r_D F_l_Dv F_k_Dv F_l_T F_l_T1 F_l_T2 F_l_T3])
qed
subsection \<open>Latest versions\<close>

text \<open>As many copies hold the new id of a parent as rows selected hold its old id.\<close>

lemma mem_map: "x \<in> set xs \<Longrightarrow> f x \<in> set (map f xs)"
  by simp

lemma copies_count:
  assumes rel: "list_all2 (resolved_to M col) src new"
    and d: "distinct (map newId M)" and c: "c \<in> set (map id' M)"
  shows "length [r \<leftarrow> new. getProp r col = remap M c] = length [v \<leftarrow> src. getProp v col = c]"
proof -
  have "(getProp v col = c) \<longleftrightarrow> (getProp r col = remap M c)" if "resolved_to M col v r" for v r
    using resolved_toD [OF that] remap_inj [OF d _ c] by auto
  then have "list_all2 (\<lambda>v r. (getProp v col = c) \<longleftrightarrow> (getProp r col = remap M c)) src new"
    by (intro list_all2_mono [OF rel])
  from list_all2_filter_length [OF this] show ?thesis by simp
qed

text \<open>
  Claim C3.  After a successful \<^verbatim>\<open>duplicateContent\<close>, with \<^verbatim>\<open>saved_queries_version_id\<close>
  and \<^verbatim>\<open>dashboard_version_id\<close> integer primary keys of their tables.  The charts copied
  are the rows of \<^verbatim>\<open>saved_queries\<close> joined to a space of the source project, and every
  chart in a space of the source project is one of them.  The versions selected
  (\<open>srcVersions\<close>) are the latest versions of the copied charts: the rows of
  \<^verbatim>\<open>saved_queries_versions\<close> that belong to a copied chart and hold the greatest version
  id among the versions of their chart; no other column decides.  The rows added to
  \<^verbatim>\<open>saved_queries_versions\<close> are their copies, one for one and in order: a copy holds
  what its source holds in every column but the version id and uuid, which are new, and
  the chart id, which is the new id of the chart; the mapping record pairs the old with
  the new version ids.  For every chart of the source project, exactly one version is
  selected and exactly one added row belongs to the new chart when the chart has a
  version, and none when it has none.  The same holds of dashboards and
  \<^verbatim>\<open>dashboard_versions\<close>.
\<close>

theorem duplicateContent_latest_versions:
  assumes ok: "fst (duplicateContent st db p q) = Inr ()"
    and pkc: "primary_key ''saved_queries_version_id'' (tables db ''saved_queries_versions'')"
    and pkd: "primary_key ''dashboard_version_id'' (tables db ''dashboard_versions'')"
  shows "\<exists>proj. first [x \<leftarrow> projects_table db. project_uuid x = p] = Some proj
   \<and> (let pid = JNum (project_id proj);
          T = tables db;
          T' = tables (snd (duplicateContent st db p q));
          m = content_mapping (last (preview_content_table (snd (duplicateContent st db p q))));
          new = (\<lambda>t. drop (length (T t)) (T' t));
          srcCharts = [d. d \<leftarrow> T ''saved_queries'', s \<leftarrow> T' ''spaces'',
                        sql_eq (getProp d ''space_id'') (getProp s ''space_id''),
                        sql_eq (getProp s ''project_id'') pid];
          srcVersions = latest_of ''saved_query_id'' ''saved_queries_version_id'' (map id' (charts m)) (T ''saved_queries_versions'');
          srcDashboards = [d. d \<leftarrow> T ''dashboards'', s \<leftarrow> T' ''spaces'',
                        sql_eq (getProp d ''space_id'') (getProp s ''space_id''),
                        sql_eq (getProp s ''project_id'') pid];
          srcDVersions = latest_of ''dashboard_id'' ''dashboard_version_id'' (map id' (dashboards m)) (T ''dashboard_versions'')
      in (\<forall>t. T' t = T t @ new t)
       \<and> (map id' (charts m) = map (\<lambda>d. getProp d ''saved_query_id'') srcCharts)
       \<and> (\<forall>d \<in> set (T ''saved_queries'').
            (\<exists>s \<in> set (T ''spaces''). sql_eq (getProp d ''space_id'') (getProp s ''space_id'')
                    \<and> getProp s ''project_id'' = pid)
            \<longrightarrow> d \<in> set srcCharts)
       \<and> (map id' (chartVersions m) = map (\<lambda>d. getProp d ''saved_queries_version_id'') srcVersions)
       \<and> (map newId (chartVersions m) = map (\<lambda>d. getProp d ''saved_queries_version_id'') (new ''saved_queries_versions''))
       \<and> (fresh_ids ''saved_queries_version_id'' (T ''saved_queries_versions'') (new ''saved_queries_versions''))
       \<and> (list_all2 (resolved_to (charts m) ''saved_query_id'') srcVersions (new ''saved_queries_versions''))
       \<and> (list_all2 (copy_except [''saved_queries_version_id'', ''saved_queries_version_uuid'', ''saved_query_id''])
            srcVersions (new ''saved_queries_versions''))
       \<and> (\<forall>c \<in> set (T ''saved_queries'').
            (\<exists>s \<in> set (T ''spaces''). sql_eq (getProp c ''space_id'') (getProp s ''space_id'')
                    \<and> getProp s ''project_id'' = pid)
            \<longrightarrow> length [v \<leftarrow> srcVersions. getProp v ''saved_query_id'' = getProp c ''saved_query_id'']
                  = (if [w \<leftarrow> T ''saved_queries_versions''. sql_eq (getProp w ''saved_query_id'') (getProp c ''saved_query_id'')] = [] then 0 else 1))
       \<and> (\<forall>c \<in> set (T ''saved_queries'').
            (\<exists>s \<in> set (T ''spaces''). sql_eq (getProp c ''space_id'') (getProp s ''space_id'')
                    \<and> getProp s ''project_id'' = pid)
            \<longrightarrow> length [r \<leftarrow> (new ''saved_queries_versions''). getProp r ''saved_query_id'' = remap (charts m) (getProp c ''saved_query_id'')]
                  = (if [w \<leftarrow> T ''saved_queries_versions''. sql_eq (getProp w ''saved_query_id'') (getProp c ''saved_query_id'')] = [] then 0 else 1))
       \<and> (map id' (dashboards m) = map (\<lambda>d. getProp d ''dashboard_id'') srcDashboards)
       \<and> (\<forall>d \<in> set (T ''dashboards'').
            (\<exists>s \<in> set (T ''spaces''). sql_eq (getProp d ''space_id'') (getProp s ''space_id'')
                    \<and> getProp s ''project_id'' = pid)
            \<longrightarrow> d \<in> set srcDashboards)
       \<and> (map id' (dashboardVersions m) = map (\<lambda>d. getProp d ''dashboard_version_id'') srcDVersions)
       \<and> (map newId (dashboardVersions m) = map (\<lambda>d. getProp d ''dashboard_version_id'') (new ''dashboard_versions''))
       \<and> (fresh_ids ''dashboard_version_id'' (T ''dashboard_versions'') (new ''dashboard_versions''))
       \<and> (list_all2 (resolved_to (dashboards m) ''dashboard_id'') srcDVersions (new ''dashboard_versions''))
       \<and> (list_all2 (copy_except [''dashboard_version_id'', ''dashboard_id''])
            srcDVersions (new ''dashboard_versions''))
       \<and> (\<forall>c \<in> set (T ''dashboards'').
            (\<exists>s \<in> set (T ''spaces''). sql_eq (getProp c ''space_id'') (getProp s ''space_id'')
                    \<and> getProp s ''project_id'' = pid)
            \<longrightarrow> length [v \<leftarrow> srcDVersions. getProp v ''dashboard_id'' = getProp c ''dashboard_id'']
                  = (if [w \<leftarrow> T ''dashboard_versions''. sql_eq (getProp w ''dashboard_id'') (getProp c ''dashboard_id'')] = [] then 0 else 1))
       \<and> (\<forall>c \<in> set (T ''dashboards'').
            (\<exists>s \<in> set (T ''spaces''). sql_eq (getProp c ''space_id'') (getProp s ''space_id'')
                    \<and> getProp s ''project_id'' = pid)
            \<longrightarrow> length [r \<leftarrow> (new ''dashboard_versions''). getProp r ''dashboard_id'' = remap (dashboards m) (getProp c ''dashboard_id'')]
                  = (if [w \<leftarrow> T ''dashboard_versions''. sql_eq (getProp w ''dashboard_id'') (getProp c ''dashboard_id'')] = [] then 0 else 1)))"
proof (rule duplicateContent_copies [OF ok pkc pkd], goal_cases)
  case (1 proj tiles)
  let ?pid = "JNum (project_id proj)"
  let ?T = "tables db"
  let ?T' = "tables (snd (duplicateContent st db p q))"
  let ?m = "content_mapping (last (preview_content_table (snd (duplicateContent st db p q))))"
  let ?new = "(\<lambda>t. drop (length (?T t)) (?T' t))"
  let ?srcCharts = "[d. d \<leftarrow> ?T ''saved_queries'', s \<leftarrow> ?T' ''spaces'',
                      sql_eq (getProp d ''space_id'') (getProp s ''space_id''),
                      sql_eq (getProp s ''project_id'') ?pid]"
  let ?srcVersions = "latest_of ''saved_query_id'' ''saved_queries_version_id'' (map id' (charts ?m)) (?T ''saved_queries_versions'')"
  let ?srcDashboards = "[d. d \<leftarrow> ?T ''dashboards'', s \<leftarrow> ?T' ''spaces'',
                      sql_eq (getProp d ''space_id'') (getProp s ''space_id''),
                      sql_eq (getProp s ''project_id'') ?pid]"
  let ?srcDVersions = "latest_of ''dashboard_id'' ''dashboard_version_id'' (map id' (dashboards ?m)) (?T ''dashboard_versions'')"
  have keyCh: "getProp c ''saved_query_id'' \<in> set (map id' (charts ?m))"
    if "c \<in> set (?T ''saved_queries'')" "(\<exists>s \<in> set (?T ''spaces''). sql_eq (getProp c ''space_id'') (getProp s ''space_id'')
                 \<and> getProp s ''project_id'' = ?pid)" for c
  proof -
    from 1(22) that have "c \<in> set ?srcCharts"
      by blast
    then have "getProp c ''saved_query_id'' \<in> set (map (\<lambda>d. getProp d ''saved_query_id'') ?srcCharts)"
      by (rule mem_map)
    then show ?thesis by (simp only: 1(6))
  qed
  have distCh: "distinct (map newId (charts ?m))"
    by (rule fresh_distinct_newId [OF 1(8) 1(7)])
  have F_n_Ch_sel: "\<forall>c \<in> set (?T ''saved_queries'').
         (\<exists>s \<in> set (?T ''spaces''). sql_eq (getProp c ''space_id'') (getProp s ''space_id'')
                 \<and> getProp s ''project_id'' = ?pid)
         \<longrightarrow> length [v \<leftarrow> ?srcVersions. getProp v ''saved_query_id'' = getProp c ''saved_query_id'']
               = (if [w \<leftarrow> ?T ''saved_queries_versions''. sql_eq (getProp w ''saved_query_id'') (getProp c ''saved_query_id'')] = [] then 0 else 1)"
    using keyCh by (auto simp: latest_of_count [OF pkc])
  have F_n_Ch_new: "\<forall>c \<in> set (?T ''saved_queries'').
         (\<exists>s \<in> set (?T ''spaces''). sql_eq (getProp c ''space_id'') (getProp s ''space_id'')
                 \<and> getProp s ''project_id'' = ?pid)
         \<longrightarrow> length [r \<leftarrow> (?new ''saved_queries_versions''). getProp r ''saved_query_id'' = remap (charts ?m) (getProp c ''saved_query_id'')]
               = (if [w \<leftarrow> ?T ''saved_queries_versions''. sql_eq (getProp w ''saved_query_id'') (getProp c ''saved_query_id'')] = [] then 0 else 1)"
    using keyCh
    by (auto simp: copies_count [OF 1(24) distCh] latest_of_count [OF pkc])
  have keyD: "getProp c ''dashboard_id'' \<in> set (map id' (dashboards ?m))"
    if "c \<in> set (?T ''dashboards'')" "(\<exists>s \<in> set (?T ''spaces''). sql_eq (getProp c ''space_id'') (getProp s ''space_id'')
                 \<and> getProp s ''project_id'' = ?pid)" for c
  proof -
    from 1(31) that have "c \<in> set ?srcDashboards"
      by blast
    then have "getProp c ''dashboard_id'' \<in> set (map (\<lambda>d. getProp d ''dashboard_id'') ?srcDashboards)"
      by (rule mem_map)
    then show ?thesis by (simp only: 1(12))
  qed
  have distD: "distinct (map newId (dashboards ?m))"
    by (rule fresh_distinct_newId [OF 1(14) 1(13)])
  have F_n_D_sel: "\<forall>c \<in> set (?T ''dashboards'').
         (\<exists>s \<in> set (?T ''spaces''). sql_eq (getProp c ''space_id'') (getProp s ''space_id'')
                 \<and> getProp s ''project_id'' = ?pid)
         \<longrightarrow> length [v \<leftarrow> ?srcDVersions. getProp v ''dashboard_id'' = getProp c ''dashboard_id'']
               = (if [w \<leftarrow> ?T ''dashboard_versions''. sql_eq (getProp w ''dashboard_id'') (getProp c ''dashboard_id'')] = [] then 0 else 1)"
    using keyD by (auto simp: latest_of_count [OF pkd])
  have F_n_D_new: "\<forall>c \<in> set (?T ''dashboards'').
         (\<exists>s \<in> set (?T ''spaces''). sql_eq (getProp c ''space_id'') (getProp s ''space_id'')
                 \<and> getProp s ''project_id'' = ?pid)
         \<longrightarrow> length [r \<leftarrow> (?new ''dashboard_versions''). getProp r ''dashboard_id'' = remap (dashboards ?m) (getProp c ''dashboard_id'')]
               = (if [w \<leftarrow> ?T ''dashboard_versions''. sql_eq (getProp w ''dashboard_id'') (getProp c ''dashboard_id'')] = [] then 0 else 1)"
    using keyD
    by (auto simp: copies_count [OF 1(33) distD] latest_of_count [OF pkd])
  show ?case
    unfolding Let_def
    by (rule exI [of _ proj], intro conjI)
       (rule 1(1) 1(2) 1(6) 1(22) 1(9) 1(10) 1(11) 1(24) 1(25) F_n_Ch_sel F_n_Ch_new 1(12) 1(31) 1(15) 1(16) 1(17) 1(33) 1(34) F_n_D_sel F_n_D_new)+
qed

theorem duplicateContent_latest_versions_witness:
  "fst (duplicateContent st0 db0 ''src'' ''prev'') = Inr ()
   \<and> primary_key ''saved_queries_version_id'' (tables db0 ''saved_queries_versions'')
   \<and> primary_key ''dashboard_version_id'' (tables db0 ''dashboard_versions'')
   \<and> (\<exists>proj. first [x \<leftarrow> projects_table db0. project_uuid x = ''src''] = Some proj
      \<and> (let pid = JNum (project_id proj);
             T = tables db0;
             T' = tables (snd (duplicateContent st0 db0 ''src'' ''prev''));
             m = content_mapping (last (preview_content_table (snd (duplicateContent st0 db0 ''src'' ''prev''))));
             new = (\<lambda>t. drop (length (T t)) (T' t));
             srcCharts = [d. d \<leftarrow> T ''saved_queries'', s \<leftarrow> T' ''spaces'',
                           sql_eq (getProp d ''space_id'') (getProp s ''space_id''),
                           sql_eq (getProp s ''project_id'') pid];
             srcVersions = latest_of ''saved_query_id'' ''saved_queries_version_id'' (map id' (charts m)) (T ''saved_queries_versions'');
             srcDashboards = [d. d \<leftarrow> T ''dashboards'', s \<leftarrow> T' ''spaces'',
                           sql_eq (getProp d ''space_id'') (getProp s ''space_id''),
                           sql_eq (getProp s ''project_id'') pid];
             srcDVersions = latest_of ''dashboard_id'' ''dashboard_version_id'' (map id' (dashboards m)) (T ''dashboard_versions'')
         in (\<forall>t. T' t = T t @ new t)
          \<and> (map id' (charts m) = map (\<lambda>d. getProp d ''saved_query_id'') srcCharts)
          \<and> (\<forall>d \<in> set (T ''saved_queries'').
               (\<exists>s \<in> set (T ''spaces''). sql_eq (getProp d ''space_id'') (getProp s ''space_id'')
                       \<and> getProp s ''project_id'' = pid)
               \<longrightarrow> d \<in> set srcCharts)
          \<and> (map id' (chartVersions m) = map (\<lambda>d. getProp d ''saved_queries_version_id'') srcVersions)
          \<and> (map newId (chartVersions m) = map (\<lambda>d. getProp d ''saved_queries_version_id'') (new ''saved_queries_versions''))
          \<and> (fresh_ids ''saved_queries_version_id'' (T ''saved_queries_versions'') (new ''saved_queries_versions''))
          \<and> (list_all2 (resolved_to (charts m) ''saved_query_id'') srcVersions (new ''saved_queries_versions''))
          \<and> (list_all2 (copy_except [''saved_queries_version_id'', ''saved_queries_version_uuid'', ''saved_query_id''])
               srcVersions (new ''saved_queries_versions''))
          \<and> (\<forall>c \<in> set (T ''saved_queries'').
               (\<exists>s \<in> set (T ''spaces''). sql_eq (getProp c ''space_id'') (getProp s ''space_id'')
                       \<and> getProp s ''project_id'' = pid)
               \<longrightarrow> length [v \<leftarrow> srcVersions. getProp v ''saved_query_id'' = getProp c ''saved_query_id'']
                     = (if [w \<leftarrow> T ''saved_queries_versions''. sql_eq (getProp w ''saved_query_id'') (getProp c ''saved_query_id'')] = [] then 0 else 1))
          \<and> (\<forall>c \<in> set (T ''saved_queries'').
               (\<exists>s \<in> set (T ''spaces''). sql_eq (getProp c ''space_id'') (getProp s ''space_id'')
                       \<and> getProp s ''project_id'' = pid)
               \<longrightarrow> length [r \<leftarrow> (new ''saved_queries_versions''). getProp r ''saved_query_id'' = remap (charts m) (getProp c ''saved_query_id'')]
                     = (if [w \<leftarrow> T ''saved_queries_versions''. sql_eq (getProp w ''saved_query_id'') (getProp c ''saved_query_id'')] = [] then 0 else 1))
          \<and> (map id' (dashboards m) = map (\<lambda>d. getProp d ''dashboard_id'') srcDashboards)
          \<and> (\<forall>d \<in> set (T ''dashboards'').
               (\<exists>s \<in> set (T ''spaces''). sql_eq (getProp d ''space_id'') (getProp s ''space_id'')
                       \<and> getProp s ''project_id'' = pid)
               \<longrightarrow> d \<in> set srcDashboards)
          \<and> (map id' (dashboardVersions m) = map (\<lambda>d. getProp d ''dashboard_version_id'') srcDVersions)
          \<and> (map newId (dashboardVersions m) = map (\<lambda>d. getProp d ''dashboard_version_id'') (new ''dashboard_versions''))
          \<and> (fresh_ids ''dashboard_version_id'' (T ''dashboard_versions'') (new ''dashboard_versions''))
          \<and> (list_all2 (resolved_to (dashboards m) ''dashboard_id'') srcDVersions (new ''dashboard_versions''))
          \<and> (list_all2 (copy_except [''dashboard_version_id'', ''dashboard_id''])
               srcDVersions (new ''dashboard_versions''))
          \<and> (\<forall>c \<in> set (T ''dashboards'').
               (\<exists>s \<in> set (T ''spaces''). sql_eq (getProp c ''space_id'') (getProp s ''space_id'')
                       \<and> getProp s ''project_id'' = pid)
               \<longrightarrow> length [v \<leftarrow> srcDVersions. getProp v ''dashboard_id'' = getProp c ''dashboard_id'']
                     = (if [w \<leftarrow> T ''dashboard_versions''. sql_eq (getProp w ''dashboard_id'') (getProp c ''dashboard_id'')] = [] then 0 else 1))
          \<and> (\<forall>c \<in> set (T ''dashboards'').
               (\<exists>s \<in> set (T ''spaces''). sql_eq (getProp c ''space_id'') (getProp s ''space_id'')
                       \<and> getProp s ''project_id'' = pid)
               \<longrightarrow> length [r \<leftarrow> (new ''dashboard_versions''). getProp r ''dashboard_id'' = remap (dashboards m) (getProp c ''dashboard_id'')]
                     = (if [w \<leftarrow> T ''dashboard_versions''. sql_eq (getProp w ''dashboard_id'') (getProp c ''dashboard_id'')] = [] then 0 else 1))))
   \<and> map (\<lambda>r. (getProp r ''saved_queries_version_id'', getProp r ''saved_query_id''))
        (tables (snd (duplicateContent st0 db0 ''src'' ''prev'')) ''saved_queries_versions'')
       = [(JNum 100, JNum 10), (JNum 101, JNum 10), (JNum 102, JNum 11), (JNum 103, JNum 12)]
   \<and> map (\<lambda>r. (getProp r ''dashboard_version_id'', getProp r ''dashboard_id''))
        (tables (snd (duplicateContent st0 db0 ''src'' ''prev'')) ''dashboard_versions'')
       = [(JNum 200, JNum 20), (JNum 201, JNum 20), (JNum 202, JNum 21)]
   \<and> content_mapping (last (preview_content_table (snd (duplicateContent st0 db0 ''src'' ''prev''))))
       = \<lparr>charts = [\<lparr>id' = JNum 10, newId = JNum 12\<rparr>],
          chartVersions = [\<lparr>id' = JNum 101, newId = JNum 103\<rparr>],
          spaces = [\<lparr>id' = JNum 1, newId = JNum 3\<rparr>],
          dashboards = [\<lparr>id' = JNum 20, newId = JNum 21\<rparr>],
          dashboardVersions = [\<lparr>id' = JNum 201, newId = JNum 202\<rparr>]\<rparr>"
proof -
  have a: "fst (duplicateContent st0 db0 ''src'' ''prev'') = Inr ()"
    by code_simp
  have b: "primary_key ''saved_queries_version_id'' (tables db0 ''saved_queries_versions'')"
    by (simp add: primary_key_def db0_def getProp_def)
  have c: "primary_key ''dashboard_version_id'' (tables db0 ''dashboard_versions'')"
    by (simp add: primary_key_def db0_def getProp_def)
  have d: "map (\<lambda>r. (getProp r ''saved_queries_version_id'', getProp r ''saved_query_id''))
             (tables (snd (duplicateContent st0 db0 ''src'' ''prev'')) ''saved_queries_versions'')
            = [(JNum 100, JNum 10), (JNum 101, JNum 10), (JNum 102, JNum 11), (JNum 103, JNum 12)]
        \<and> map (\<lambda>r. (getProp r ''dashboard_version_id'', getProp r ''dashboard_id''))
             (tables (snd (duplicateContent st0 db0 ''src'' ''prev'')) ''dashboard_versions'')
            = [(JNum 200, JNum 20), (JNum 201, JNum 20), (JNum 202, JNum 21)]
        \<and> content_mapping (last (preview_content_table (snd (duplicateContent st0 db0 ''src'' ''prev''))))
            = \<lparr>charts = [\<lparr>id' = JNum 10, newId = JNum 12\<rparr>],
               chartVersions = [\<lparr>id' = JNum 101, newId = JNum 103\<rparr>],
               spaces = [\<lparr>id' = JNum 1, newId = JNum 3\<rparr>],
               dashboards = [\<lparr>id' = JNum 20, newId = JNum 21\<rparr>],
               dashboardVersions = [\<lparr>id' = JNum 201, newId = JNum 202\<rparr>]\<rparr>"
    by code_simp
  from duplicateContent_latest_versions [OF a b c] a b c d show ?thesis by blast
qed
subsection \<open>Lookups from old to new identifiers\<close>

text \<open>
  Claim C2 says that no lookup that fails to resolve ever ends in a null foreign key
  written without an error.  The lookups are \<^verbatim>\<open>find(...)?.newId\<close>, with no check of the
  result.  In the database below a tile of the source project's dashboard shows chart 11,
  which lives in a space of another project and is therefore not among the copied charts:
  the call resolves, the lookup of 11 in the chart mapping finds nothing, and the copied
  tile row is stored with \<^verbatim>\<open>saved_chart_id\<close> \<^verbatim>\<open>NULL\<close>.
\<close>

theorem duplicateContent_unresolved_chart_counterexample:
  "fst (duplicateContent st0 db0 ''src'' ''prev'') = Inr ()
   \<and> map (\<lambda>r. getProp r ''saved_chart_id'') (tables db0 ''dashboard_tile_charts'')
       = [JNum 10, JNum 11]
   \<and> resolves (charts (content_mapping (last (preview_content_table
         (snd (duplicateContent st0 db0 ''src'' ''prev'')))))) (JNum 11) = False
   \<and> map (\<lambda>r. getProp r ''saved_chart_id'')
        (tables (snd (duplicateContent st0 db0 ''src'' ''prev'')) ''dashboard_tile_charts'')
       = [JNum 10, JNum 11, JNum 12, JNull]"
  by code_simp

text \<open>
  Claim C2, as amended.  After a successful \<^verbatim>\<open>duplicateContent\<close>, with
  \<^verbatim>\<open>saved_queries_version_id\<close> and \<^verbatim>\<open>dashboard_version_id\<close> integer primary keys of
  their tables.  Every table holds its old rows followed by the copies of the rows
  selected, one for one and in order; each mapping pairs the ids of the rows selected
  with the ids of their copies, and the ids of the copies are new integers.  Every lookup
  made for a row in the cloned scope finds an entry, and the copy holds the entry's new
  id: the space of a space share, the chart of a chart version, the chart version of a
  content row, the dashboard of a dashboard version, the dashboard version of a tile, and
  the dashboard version and the tile uuid of a tile content row; and the space of every
  chart and dashboard that is in a space of the source project.  No lookup is checked:
  the copy of a chart or dashboard holds in \<^verbatim>\<open>space_id\<close>, and the copy of a tile content
  row with a chart holds in \<^verbatim>\<open>saved_chart_id\<close>, the new id when the mapping has an entry
  and \<^verbatim>\<open>NULL\<close> when it has none, and nothing is raised.
\<close>

theorem duplicateContent_lookups_resolve:
  assumes ok: "fst (duplicateContent st db p q) = Inr ()"
    and pkc: "primary_key ''saved_queries_version_id'' (tables db ''saved_queries_versions'')"
    and pkd: "primary_key ''dashboard_version_id'' (tables db ''dashboard_versions'')"
  shows "\<exists>proj tiles. first [x \<leftarrow> projects_table db. project_uuid x = p] = Some proj
   \<and> (let pid = JNum (project_id proj);
          T = tables db;
          T' = tables (snd (duplicateContent st db p q));
          m = content_mapping (last (preview_content_table (snd (duplicateContent st db p q))));
          new = (\<lambda>t. drop (length (T t)) (T' t));
          srcSpaces = [s \<leftarrow> T ''spaces''. getProp s ''project_id'' = pid];
          srcShares = [d \<leftarrow> T ''space_share''. \<exists>c \<in> set (map id' (spaces m)). sql_eq (getProp d ''space_id'') c];
          srcCharts = [d. d \<leftarrow> T ''saved_queries'', s \<leftarrow> T' ''spaces'',
                        sql_eq (getProp d ''space_id'') (getProp s ''space_id''),
                        sql_eq (getProp s ''project_id'') pid];
          srcVersions = latest_of ''saved_query_id'' ''saved_queries_version_id'' (map id' (charts m)) (T ''saved_queries_versions'');
          srcContent = (\<lambda>t. [d \<leftarrow> T t. \<exists>c \<in> set (map id' (chartVersions m)). sql_eq (getProp d ''saved_queries_version_id'') c]);
          srcDashboards = [d. d \<leftarrow> T ''dashboards'', s \<leftarrow> T' ''spaces'',
                        sql_eq (getProp d ''space_id'') (getProp s ''space_id''),
                        sql_eq (getProp s ''project_id'') pid];
          srcDVersions = latest_of ''dashboard_id'' ''dashboard_version_id'' (map id' (dashboards m)) (T ''dashboard_versions'');
          srcTiles = [d \<leftarrow> T ''dashboard_tiles''. \<exists>c \<in> set (map id' (dashboardVersions m)). sql_eq (getProp d ''dashboard_version_id'') c];
          srcTileContent = (\<lambda>t. [d \<leftarrow> T t.
                        (\<exists>u \<in> set (map id' tiles). sql_eq (getProp d ''dashboard_tile_uuid'') u)
                        \<and> (\<exists>c \<in> set (map id' (dashboardVersions m)). sql_eq (getProp d ''dashboard_version_id'') c)])
      in (\<forall>t. T' t = T t @ new t)
       \<and> (map id' (spaces m) = map (\<lambda>d. getProp d ''space_id'') srcSpaces)
       \<and> (map newId (spaces m) = map (\<lambda>d. getProp d ''space_id'') (new ''spaces''))
       \<and> (fresh_ids ''space_id'' (T ''spaces'') (new ''spaces''))
       \<and> (map id' (charts m) = map (\<lambda>d. getProp d ''saved_query_id'') srcCharts)
       \<and> (map newId (charts m) = map (\<lambda>d. getProp d ''saved_query_id'') (new ''saved_queries''))
       \<and> (fresh_ids ''saved_query_id'' (T ''saved_queries'') (new ''saved_queries''))
       \<and> (map id' (chartVersions m) = map (\<lambda>d. getProp d ''saved_queries_version_id'') srcVersions)
       \<and> (map newId (chartVersions m) = map (\<lambda>d. getProp d ''saved_queries_version_id'') (new ''saved_queries_versions''))
       \<and> (fresh_ids ''saved_queries_version_id'' (T ''saved_queries_versions'') (new ''saved_queries_versions''))
       \<and> (map id' (dashboards m) = map (\<lambda>d. getProp d ''dashboard_id'') srcDashboards)
       \<and> (map newId (dashboards m) = map (\<lambda>d. getProp d ''dashboard_id'') (new ''dashboards''))
       \<and> (fresh_ids ''dashboard_id'' (T ''dashboards'') (new ''dashboards''))
       \<and> (map id' (dashboardVersions m) = map (\<lambda>d. getProp d ''dashboard_version_id'') srcDVersions)
       \<and> (map newId (dashboardVersions m) = map (\<lambda>d. getProp d ''dashboard_version_id'') (new ''dashboard_versions''))
       \<and> (fresh_ids ''dashboard_version_id'' (T ''dashboard_versions'') (new ''dashboard_versions''))
       \<and> (map id' tiles = map (\<lambda>d. getProp d ''dashboard_tile_uuid'') srcTiles)
       \<and> (map newId tiles = map (\<lambda>d. getProp d ''dashboard_tile_uuid'') (new ''dashboard_tiles''))
       \<and> (list_all2 (resolved_to (spaces m) ''space_id'') srcShares (new ''space_share''))
       \<and> (list_all2 (\<lambda>d r. getProp r ''space_id'' = remap (spaces m) (getProp d ''space_id''))
            srcCharts (new ''saved_queries''))
       \<and> (\<forall>d \<in> set (T ''saved_queries'').
            (\<exists>s \<in> set (T ''spaces''). sql_eq (getProp d ''space_id'') (getProp s ''space_id'')
                    \<and> getProp s ''project_id'' = pid)
            \<longrightarrow> d \<in> set srcCharts)
       \<and> (list_all2 (\<lambda>d r. (\<exists>s \<in> set (T ''spaces''). sql_eq (getProp d ''space_id'') (getProp s ''space_id'')
                    \<and> getProp s ''project_id'' = pid)
                      \<longrightarrow> resolved_to (spaces m) ''space_id'' d r)
            srcCharts (new ''saved_queries''))
       \<and> (list_all2 (resolved_to (charts m) ''saved_query_id'') srcVersions (new ''saved_queries_versions''))
       \<and> (list_all2 (resolved_to (chartVersions m) ''saved_queries_version_id'')
            (srcContent ''saved_queries_version_table_calculations'') (new ''saved_queries_version_table_calculations''))
       \<and> (list_all2 (resolved_to (chartVersions m) ''saved_queries_version_id'')
            (srcContent ''saved_queries_version_sorts'') (new ''saved_queries_version_sorts''))
       \<and> (list_all2 (resolved_to (chartVersions m) ''saved_queries_version_id'')
            (srcContent ''saved_queries_version_fields'') (new ''saved_queries_version_fields''))
       \<and> (list_all2 (resolved_to (chartVersions m) ''saved_queries_version_id'')
            (srcContent ''saved_queries_version_additional_metrics'') (new ''saved_queries_version_additional_metrics''))
       \<and> (list_all2 (\<lambda>d r. getProp r ''space_id'' = remap (spaces m) (getProp d ''space_id''))
            srcDashboards (new ''dashboards''))
       \<and> (\<forall>d \<in> set (T ''dashboards'').
            (\<exists>s \<in> set (T ''spaces''). sql_eq (getProp d ''space_id'') (getProp s ''space_id'')
                    \<and> getProp s ''project_id'' = pid)
            \<longrightarrow> d \<in> set srcDashboards)
       \<and> (list_all2 (\<lambda>d r. (\<exists>s \<in> set (T ''spaces''). sql_eq (getProp d ''space_id'') (getProp s ''space_id'')
                    \<and> getProp s ''project_id'' = pid)
                      \<longrightarrow> resolved_to (spaces m) ''space_id'' d r)
            srcDashboards (new ''dashboards''))
       \<and> (list_all2 (resolved_to (dashboards m) ''dashboard_id'') srcDVersions (new ''dashboard_versions''))
       \<and> (list_all2 (resolved_to (dashboardVersions m) ''dashboard_version_id'') srcTiles (new ''dashboard_tiles''))
       \<and> (list_all2
              (\<lambda>d r. resolved_to (dashboardVersions m) ''dashboard_version_id'' d r
                 \<and> resolved_to tiles ''dashboard_tile_uuid'' d r
                 \<and> (if truthy (getProp d ''saved_chart_id'')
                    then getProp r ''saved_chart_id'' = remap (charts m) (getProp d ''saved_chart_id'')
                    else r ''saved_chart_id'' = (if d ''saved_chart_id'' = Some JUndefined then Some JNull
                                           else d ''saved_chart_id'')))
            (srcTileContent ''dashboard_tile_charts'') (new ''dashboard_tile_charts''))
       \<and> (list_all2
              (\<lambda>d r. resolved_to (dashboardVersions m) ''dashboard_version_id'' d r
                 \<and> resolved_to tiles ''dashboard_tile_uuid'' d r
                 \<and> (if truthy (getProp d ''saved_chart_id'')
                    then getProp r ''saved_chart_id'' = remap (charts m) (getProp d ''saved_chart_id'')
                    else r ''saved_chart_id'' = (if d ''saved_chart_id'' = Some JUndefined then Some JNull
                                           else d ''saved_chart_id'')))
            (srcTileContent ''dashboard_tile_looms'') (new ''dashboard_tile_looms''))
       \<and> (list_all2
              (\<lambda>d r. resolved_to (dashboardVersions m) ''dashboard_version_id'' d r
                 \<and> resolved_to tiles ''dashboard_tile_uuid'' d r
                 \<and> (if truthy (getProp d ''saved_chart_id'')
                    then getProp r ''saved_chart_id'' = remap (charts m) (getProp d ''saved_chart_id'')
                    else r ''saved_chart_id'' = (if d ''saved_chart_id'' = Some JUndefined then Some JNull
                                           else d ''saved_chart_id'')))
            (srcTileContent ''dashboard_tile_markdowns'') (new ''dashboard_tile_markdowns'')))"
proof (rule duplicateContent_copies [OF ok pkc pkd], goal_cases)
  case (1 proj tiles)
  show ?case
    unfolding Let_def
    by (rule exI [of _ proj], rule exI [of _ tiles], intro conjI)
       (rule 1(1) 1(2) 1(3) 1(4) 1(5) 1(6) 1(7) 1(8) 1(9) 1(10) 1(11) 1(12) 1(13) 1(14) 1(15) 1(16) 1(17) 1(18) 1(19) 1(20) 1(21) 1(22) 1(23) 1(24) 1(26) 1(27) 1(28) 1(29) 1(30) 1(31) 1(32) 1(33) 1(35) 1(36) 1(37) 1(38))+
qed

theorem duplicateContent_lookups_resolve_witness:
  "fst (duplicateContent st0 db0 ''src'' ''prev'') = Inr ()
   \<and> primary_key ''saved_queries_version_id'' (tables db0 ''saved_queries_versions'')
   \<and> primary_key ''dashboard_version_id'' (tables db0 ''dashboard_versions'')
   \<and> (\<exists>proj tiles. first [x \<leftarrow> projects_table db0. project_uuid x = ''src''] = Some proj
      \<and> (let pid = JNum (project_id proj);
             T = tables db0;
             T' = tables (snd (duplicateContent st0 db0 ''src'' ''prev''));
             m = content_mapping (last (preview_content_table (snd (duplicateContent st0 db0 ''src'' ''prev''))));
             new = (\<lambda>t. drop (length (T t)) (T' t));
             srcSpaces = [s \<leftarrow> T ''spaces''. getProp s ''project_id'' = pid];
             srcShares = [d \<leftarrow> T ''space_share''. \<exists>c \<in> set (map id' (spaces m)). sql_eq (getProp d ''space_id'') c];
             srcCharts = [d. d \<leftarrow> T ''saved_queries'', s \<leftarrow> T' ''spaces'',
                           sql_eq (getProp d ''space_id'') (getProp s ''space_id''),
                           sql_eq (getProp s ''project_id'') pid];
             srcVersions = latest_of ''saved_query_id'' ''saved_queries_version_id'' (map id' (charts m)) (T ''saved_queries_versions'');
             srcContent = (\<lambda>t. [d \<leftarrow> T t. \<exists>c \<in> set (map id' (chartVersions m)). sql_eq (getProp d ''saved_queries_version_id'') c]);
             srcDashboards = [d. d \<leftarrow> T ''dashboards'', s \<leftarrow> T' ''spaces'',
                           sql_eq (getProp d ''space_id'') (getProp s ''space_id''),
                           sql_eq (getProp s ''project_id'') pid];
             srcDVersions = latest_of ''dashboard_id'' ''dashboard_version_id'' (map id' (dashboards m)) (T ''dashboard_versions'');
             srcTiles = [d \<leftarrow> T ''dashboard_tiles''. \<exists>c \<in> set (map id' (dashboardVersions m)). sql_eq (getProp d ''dashboard_version_id'') c];
             srcTileContent = (\<lambda>t. [d \<leftarrow> T t.
                           (\<exists>u \<in> set (map id' tiles). sql_eq (getProp d ''dashboard_tile_uuid'') u)
                           \<and> (\<exists>c \<in> set (map id' (dashboardVersions m)). sql_eq (getProp d ''dashboard_version_id'') c)])
         in (\<forall>t. T' t = T t @ new t)
          \<and> (map id' (spaces m) = map (\<lambda>d. getProp d ''space_id'') srcSpaces)
          \<and> (map newId (spaces m) = map (\<lambda>d. getProp d ''space_id'') (new ''spaces''))
          \<and> (fresh_ids ''space_id'' (T ''spaces'') (new ''spaces''))
          \<and> (map id' (charts m) = map (\<lambda>d. getProp d ''saved_query_id'') srcCharts)
          \<and> (map newId (charts m) = map (\<lambda>d. getProp d ''saved_query_id'') (new ''saved_queries''))
          \<and> (fresh_ids ''saved_query_id'' (T ''saved_queries'') (new ''saved_queries''))
          \<and> (map id' (chartVersions m) = map (\<lambda>d. getProp d ''saved_queries_version_id'') srcVersions)
          \<and> (map newId (chartVersions m) = map (\<lambda>d. getProp d ''saved_queries_version_id'') (new ''saved_queries_versions''))
          \<and> (fresh_ids ''saved_queries_version_id'' (T ''saved_queries_versions'') (new ''saved_queries_versions''))
          \<and> (map id' (dashboards m) = map (\<lambda>d. getProp d ''dashboard_id'') srcDashboards)
          \<and> (map newId (dashboards m) = map (\<lambda>d. getProp d ''dashboard_id'') (new ''dashboards''))
          \<and> (fresh_ids ''dashboard_id'' (T ''dashboards'') (new ''dashboards''))
          \<and> (map id' (dashboardVersions m) = map (\<lambda>d. getProp d ''dashboard_version_id'') srcDVersions)
          \<and> (map newId (dashboardVersions m) = map (\<lambda>d. getProp d ''dashboard_version_id'') (new ''dashboard_versions''))
          \<and> (fresh_ids ''dashboard_version_id'' (T ''dashboard_versions'') (new ''dashboard_versions''))
          \<and> (map id' tiles = map (\<lambda>d. getProp d ''dashboard_tile_uuid'') srcTiles)
          \<and> (map newId tiles = map (\<lambda>d. getProp d ''dashboard_tile_uuid'') (new ''dashboard_tiles''))
          \<and> (list_all2 (resolved_to (spaces m) ''space_id'') srcShares (new ''space_share''))
          \<and> (list_all2 (\<lambda>d r. getProp r ''space_id'' = remap (spaces m) (getProp d ''space_id''))
               srcCharts (new ''saved_queries''))
          \<and> (\<forall>d \<in> set (T ''saved_queries'').
               (\<exists>s \<in> set (T ''spaces''). sql_eq (getProp d ''space_id'') (getProp s ''space_id'')
                       \<and> getProp s ''project_id'' = pid)
               \<longrightarrow> d \<in> set srcCharts)
          \<and> (list_all2 (\<lambda>d r. (\<exists>s \<in> set (T ''spaces''). sql_eq (getProp d ''space_id'') (getProp s ''space_id'')
                       \<and> getProp s ''project_id'' = pid)
                         \<longrightarrow> resolved_to (spaces m) ''space_id'' d r)
               srcCharts (new ''saved_queries''))
          \<and> (list_all2 (resolved_to (charts m) ''saved_query_id'') srcVersions (new ''saved_queries_versions''))
          \<and> (list_all2 (resolved_to (chartVersions m) ''saved_queries_version_id'')
               (srcContent ''saved_queries_version_table_calculations'') (new ''saved_queries_version_table_calculations''))
          \<and> (list_all2 (resolved_to (chartVersions m) ''saved_queries_version_id'')
               (srcContent ''saved_queries_version_sorts'') (new ''saved_queries_version_sorts''))
          \<and> (list_all2 (resolved_to (chartVersions m) ''saved_queries_version_id'')
               (srcContent ''saved_queries_version_fields'') (new ''saved_queries_version_fields''))
          \<and> (list_all2 (resolved_to (chartVersions m) ''saved_queries_version_id'')
               (srcContent ''saved_queries_version_additional_metrics'') (new ''saved_queries_version_additional_metrics''))
          \<and> (list_all2 (\<lambda>d r. getProp r ''space_id'' = remap (spaces m) (getProp d ''space_id''))
               srcDashboards (new ''dashboards''))
          \<and> (\<forall>d \<in> set (T ''dashboards'').
               (\<exists>s \<in> set (T ''spaces''). sql_eq (getProp d ''space_id'') (getProp s ''space_id'')
                       \<and> getProp s ''project_id'' = pid)
               \<longrightarrow> d \<in> set srcDashboards)
          \<and> (list_all2 (\<lambda>d r. (\<exists>s \<in> set (T ''spaces''). sql_eq (getProp d ''space_id'') (getProp s ''space_id'')
                       \<and> getProp s ''project_id'' = pid)
                         \<longrightarrow> resolved_to (spaces m) ''space_id'' d r)
               srcDashboards (new ''dashboards''))
          \<and> (list_all2 (resolved_to (dashboards m) ''dashboard_id'') srcDVersions (new ''dashboard_versions''))
          \<and> (list_all2 (resolved_to (dashboardVersions m) ''dashboard_version_id'') srcTiles (new ''dashboard_tiles''))
          \<and> (list_all2
                 (\<lambda>d r. resolved_to (dashboardVersions m) ''dashboard_version_id'' d r
                    \<and> resolved_to tiles ''dashboard_tile_uuid'' d r
                    \<and> (if truthy (getProp d ''saved_chart_id'')
                       then getProp r ''saved_chart_id'' = remap (charts m) (getProp d ''saved_chart_id'')
                       else r ''saved_chart_id'' = (if d ''saved_chart_id'' = Some JUndefined then Some JNull
                                              else d ''saved_chart_id'')))
               (srcTileContent ''dashboard_tile_charts'') (new ''dashboard_tile_charts''))
          \<and> (list_all2
                 (\<lambda>d r. resolved_to (dashboardVersions m) ''dashboard_version_id'' d r
                    \<and> resolved_to tiles ''dashboard_tile_uuid'' d r
                    \<and> (if truthy (getProp d ''saved_chart_id'')
                       then getProp r ''saved_chart_id'' = remap (charts m) (getProp d ''saved_chart_id'')
                       else r ''saved_chart_id'' = (if d ''saved_chart_id'' = Some JUndefined then Some JNull
                                              else d ''saved_chart_id'')))
               (srcTileContent ''dashboard_tile_looms'') (new ''dashboard_tile_looms''))
          \<and> (list_all2
                 (\<lambda>d r. resolved_to (dashboardVersions m) ''dashboard_version_id'' d r
                    \<and> resolved_to tiles ''dashboard_tile_uuid'' d r
                    \<and> (if truthy (getProp d ''saved_chart_id'')
                       then getProp r ''saved_chart_id'' = remap (charts m) (getProp d ''saved_chart_id'')
                       else r ''saved_chart_id'' = (if d ''saved_chart_id'' = Some JUndefined then Some JNull
                                              else d ''saved_chart_id'')))
               (srcTileContent ''dashboard_tile_markdowns'') (new ''dashboard_tile_markdowns''))))
   \<and> content_mapping (last (preview_content_table (snd (duplicateContent st0 db0 ''src'' ''prev''))))
       = \<lparr>charts = [\<lparr>id' = JNum 10, newId = JNum 12\<rparr>],
          chartVersions = [\<lparr>id' = JNum 101, newId = JNum 103\<rparr>],
          spaces = [\<lparr>id' = JNum 1, newId = JNum 3\<rparr>],
          dashboards = [\<lparr>id' = JNum 20, newId = JNum 21\<rparr>],
          dashboardVersions = [\<lparr>id' = JNum 201, newId = JNum 202\<rparr>]\<rparr>
   \<and> map (\<lambda>r. (getProp r ''space_id'', getProp r ''project_id'')) (tables (snd (duplicateContent st0 db0 ''src'' ''prev'')) ''spaces'')
       = [(JNum 1, JNum 1), (JNum 2, JNum 3), (JNum 3, JNum 2)]
   \<and> map (\<lambda>r. getProp r ''space_id'') (tables (snd (duplicateContent st0 db0 ''src'' ''prev'')) ''space_share'')
       = [JNum 1, JNum 3]
   \<and> map (\<lambda>r. (getProp r ''saved_query_id'', getProp r ''space_id'')) (tables (snd (duplicateContent st0 db0 ''src'' ''prev'')) ''saved_queries'')
       = [(JNum 10, JNum 1), (JNum 11, JNum 2), (JNum 12, JNum 3)]
   \<and> map (\<lambda>r. (getProp r ''saved_queries_version_id'', getProp r ''saved_query_id'')) (tables (snd (duplicateContent st0 db0 ''src'' ''prev'')) ''saved_queries_versions'')
       = [(JNum 100, JNum 10), (JNum 101, JNum 10), (JNum 102, JNum 11), (JNum 103, JNum 12)]
   \<and> map (\<lambda>r. (getProp r ''saved_queries_version_sort_id'', getProp r ''saved_queries_version_id'')) (tables (snd (duplicateContent st0 db0 ''src'' ''prev'')) ''saved_queries_version_sorts'')
       = [(JNum 7, JNum 101), (JNum 8, JNum 103)]
   \<and> map (\<lambda>r. (getProp r ''dashboard_id'', getProp r ''space_id'')) (tables (snd (duplicateContent st0 db0 ''src'' ''prev'')) ''dashboards'')
       = [(JNum 20, JNum 1), (JNum 21, JNum 3)]
   \<and> map (\<lambda>r. (getProp r ''dashboard_version_id'', getProp r ''dashboard_id'')) (tables (snd (duplicateContent st0 db0 ''src'' ''prev'')) ''dashboard_versions'')
       = [(JNum 200, JNum 20), (JNum 201, JNum 20), (JNum 202, JNum 21)]
   \<and> map (\<lambda>r. (getProp r ''dashboard_version_id'', getProp r ''dashboard_tile_uuid'')) (tables (snd (duplicateContent st0 db0 ''src'' ''prev'')) ''dashboard_tiles'')
       = [(JNum 200, JStr ''t0''), (JNum 201, JStr ''t1''), (JNum 201, JStr ''t2''),
          (JNum 202, JStr ''t1''), (JNum 202, JStr ''t2'')]
   \<and> map (\<lambda>r. (getProp r ''dashboard_version_id'', getProp r ''dashboard_tile_uuid'', getProp r ''saved_chart_id'')) (tables (snd (duplicateContent st0 db0 ''src'' ''prev'')) ''dashboard_tile_charts'')
       = [(JNum 201, JStr ''t1'', JNum 10), (JNum 201, JStr ''t2'', JNum 11),
          (JNum 202, JStr ''t1'', JNum 12), (JNum 202, JStr ''t2'', JNull)]"
proof -
  have a: "fst (duplicateContent st0 db0 ''src'' ''prev'') = Inr ()"
    by code_simp
  have b: "primary_key ''saved_queries_version_id'' (tables db0 ''saved_queries_versions'')"
    by (simp add: primary_key_def db0_def getProp_def)
  have c: "primary_key ''dashboard_version_id'' (tables db0 ''dashboard_versions'')"
    by (simp add: primary_key_def db0_def getProp_def)
  have d0: "content_mapping (last (preview_content_table (snd (duplicateContent st0 db0 ''src'' ''prev''))))
       = \<lparr>charts = [\<lparr>id' = JNum 10, newId = JNum 12\<rparr>],
          chartVersions = [\<lparr>id' = JNum 101, newId = JNum 103\<rparr>],
          spaces = [\<lparr>id' = JNum 1, newId = JNum 3\<rparr>],
          dashboards = [\<lparr>id' = JNum 20, newId = JNum 21\<rparr>],
          dashboardVersions = [\<lparr>id' = JNum 201, newId = JNum 202\<rparr>]\<rparr>"
    by code_simp
  have d1: "map (\<lambda>r. (getProp r ''space_id'', getProp r ''project_id'')) (tables (snd (duplicateContent st0 db0 ''src'' ''prev'')) ''spaces'')
       = [(JNum 1, JNum 1), (JNum 2, JNum 3), (JNum 3, JNum 2)]"
    by code_simp
  have d2: "map (\<lambda>r. getProp r ''space_id'') (tables (snd (duplicateContent st0 db0 ''src'' ''prev'')) ''space_share'')
       = [JNum 1, JNum 3]"
    by code_simp
  have d3: "map (\<lambda>r. (getProp r ''saved_query_id'', getProp r ''space_id'')) (tables (snd (duplicateContent st0 db0 ''src'' ''prev'')) ''saved_queries'')
       = [(JNum 10, JNum 1), (JNum 11, JNum 2), (JNum 12, JNum 3)]"
    by code_simp
  have d4: "map (\<lambda>r. (getProp r ''saved_queries_version_id'', getProp r ''saved_query_id'')) (tables (snd (duplicateContent st0 db0 ''src'' ''prev'')) ''saved_queries_versions'')
       = [(JNum 100, JNum 10), (JNum 101, JNum 10), (JNum 102, JNum 11), (JNum 103, JNum 12)]"
    by code_simp
  have d5: "map (\<lambda>r. (getProp r ''saved_queries_version_sort_id'', getProp r ''saved_queries_version_id'')) (tables (snd (duplicateContent st0 db0 ''src'' ''prev'')) ''saved_queries_version_sorts'')
       = [(JNum 7, JNum 101), (JNum 8, JNum 103)]"
    by code_simp
  have d6: "map (\<lambda>r. (getProp r ''dashboard_id'', getProp r ''space_id'')) (tables (snd (duplicateContent st0 db0 ''src'' ''prev'')) ''dashboards'')
       = [(JNum 20, JNum 1), (JNum 21, JNum 3)]"
    by code_simp
  have d7: "map (\<lambda>r. (getProp r ''dashboard_version_id'', getProp r ''dashboard_id'')) (tables (snd (duplicateContent st0 db0 ''src'' ''prev'')) ''dashboard_versions'')
       = [(JNum 200, JNum 20), (JNum 201, JNum 20), (JNum 202, JNum 21)]"
    by code_simp
  have d8: "map (\<lambda>r. (getProp r ''dashboard_version_id'', getProp r ''dashboard_tile_uuid'')) (tables (snd (duplicateContent st0 db0 ''src'' ''prev'')) ''dashboard_tiles'')
       = [(JNum 200, JStr ''t0''), (JNum 201, JStr ''t1''), (JNum 201, JStr ''t2''),
          (JNum 202, JStr ''t1''), (JNum 202, JStr ''t2'')]"
    by code_simp
  have d9: "map (\<lambda>r. (getProp r ''dashboard_version_id'', getProp r ''dashboard_tile_uuid'', getProp r ''saved_chart_id'')) (tables (snd (duplicateContent st0 db0 ''src'' ''prev'')) ''dashboard_tile_charts'')
       = [(JNum 201, JStr ''t1'', JNum 10), (JNum 201, JStr ''t2'', JNum 11),
          (JNum 202, JStr ''t1'', JNum 12), (JNum 202, JStr ''t2'', JNull)]"
    by code_simp
  from duplicateContent_lookups_resolve [OF a b c] a b c d0 d1 d2 d3 d4 d5 d6 d7 d8 d9
  show ?thesis by blast
qed
end
